theory Spec2Isabelle
  imports Main
begin

section \<open>Data model of the answer-capture flow\<close>

text \<open>
  The development embeds \<^verbatim>\<open>src/components/QuestionFlow.tsx\<close> and the two variants of
  \<^verbatim>\<open>CustomQuestionInput\<close>. The component is a React function component: its
  \<^verbatim>\<open>useState\<close> cells, its refs, the values captured by the closures it hands to the
  platform, and the platform objects those closures act on (device streams, recorders,
  recognizer instances, audio contexts, narrations) are fields of one record. Every
  handler of the source is a function on that record; every asynchronous completion
  (a promise resolving, a media event firing) is an event.

  What is taken from React: the state updates of one handler or callback are applied
  together; after a render, the effects whose dependency array changed run in the order
  of their declaration, cleanups first; an effect body and its cleanup see the state of
  the render that made them, and the refs and the platform as they are when they run.

  What is taken from the platform: every resolved \<^verbatim>\<open>getUserMedia\<close> call yields a new
  stream, live until its tracks are stopped; \<^verbatim>\<open>MediaRecorder.stop()\<close> makes the
  recorder inactive and its \<^verbatim>\<open>onstop\<close> arrives as a later event; recognizer instances
  are independent, deliver results only while listening, ignore \<^verbatim>\<open>stop()\<close> when not
  listening and throw on \<^verbatim>\<open>start()\<close> when not idle. \<^verbatim>\<open>decodePCM\<close> has no
  suspension point of its own, so the continuation of \<^verbatim>\<open>generateSpeech\<close> runs as one
  step. Callbacks that arrive after the component is unmounted are not modelled.
\<close>

datatype FlowState =
  READING | INPUT_SELECTION | RECORDING_VOICE | PREVIEW_CAMERA
  | RECORDING_CAMERA | TYPING | REVIEW | REDO_CONFIRM

text \<open>The argument of \<^verbatim>\<open>initiateRedo\<close> / \<^verbatim>\<open>performRedo\<close> and of \<^verbatim>\<open>startRecording\<close>.\<close>

datatype RedoMode = voice | camera | typing

datatype RecMode = video | audio

text \<open>
  Modelled from the spec: \<^verbatim>\<open>Question\<close> and \<^verbatim>\<open>Recording\<close> are imported from
  \<^verbatim>\<open>../types\<close>, which is not among the sources. The spec gives a Question an identifier,
  a display text and a category tag, and a Recording as a union of audio URL plus
  transcript, video URL plus transcript, or typed text only.
\<close>

record Question =
  q_id :: string
  q_text :: string
  q_type :: string

datatype Recording =
  AudioRecording string string
  | VideoRecording string string
  | TextRecording string

subsection \<open>Platform objects\<close>

text \<open>\<^verbatim>\<open>MediaRecorder.state\<close>, and one recorder made by \<^verbatim>\<open>new MediaRecorder(stream)\<close>
  together with the \<^verbatim>\<open>mode\<close> and \<^verbatim>\<open>stream\<close> its \<^verbatim>\<open>onstop\<close> closure captured.\<close>

datatype RecorderState = inactive | recording | paused

record MediaRecorder =
  rec_stream :: nat
  rec_mode :: RecMode
  rec_state :: RecorderState
  stop_pending :: bool

text \<open>
  One \<^verbatim>\<open>SpeechRecognition\<close> instance. Its \<^verbatim>\<open>onend\<close> handler reads
  \<^verbatim>\<open>isRecordingMedia\<close>, \<^verbatim>\<open>isPaused\<close> and \<^verbatim>\<open>flowState\<close> of the render that created
  the instance; the three \<open>c_\<close> fields are those captured values.
\<close>

datatype RecognizerStatus = Idle | Listening | Stopping

record SpeechRecognition =
  status :: RecognizerStatus
  c_isRecordingMedia :: bool
  c_isPaused :: bool
  c_flowState :: FlowState

text \<open>
  A narration is one call of \<^verbatim>\<open>playQuestionAudio\<close> (owned by a run of the question
  effect, whose \<^verbatim>\<open>isMounted\<close> flag it reads) or of \<^verbatim>\<open>redoAction\<close> (which captured
  the redo mode). It waits for \<^verbatim>\<open>generateSpeech\<close>, then either plays a buffer source
  or speaks an utterance. \<open>Stopped\<close> and \<open>Cancelled\<close> are a source after
  \<^verbatim>\<open>stop()\<close> and an utterance after \<^verbatim>\<open>speechSynthesis.cancel()\<close>: the sound has
  ceased, the end event may still be delivered.
\<close>

datatype NarrationOwner = QuestionEffect nat | RedoAction RedoMode

datatype NarrationStage = AwaitingSpeech | Playing | Stopped | Speaking | Cancelled | Finished

record Narration =
  owner :: NarrationOwner
  stage :: NarrationStage

text \<open>A pending \<^verbatim>\<open>getUserMedia\<close> promise, named after the function awaiting it.\<close>

datatype GumRequest = ForCamera | ForVoiceRecording

text \<open>
  What \<^verbatim>\<open>generateSpeech\<close> resolves to: \<^verbatim>\<open>null\<close>, or PCM data. The flag of \<open>Pcm\<close>
  says whether decoding and starting the source succeed (\<open>True\<close>) or an exception is
  thrown inside the \<^verbatim>\<open>try\<close> block, after the audio context was made (\<open>False\<close>).
\<close>

datatype SpeechResult = NoData | Pcm bool

subsection \<open>The component\<close>

record component =
  \<comment> \<open>props\<close>
  question :: Question
  dontAskRedo :: bool
  onComplete_calls :: "Recording list"
  \<comment> \<open>useState\<close>
  flowState :: FlowState
  transcript :: string
  cameraStream :: "nat option"
  voiceStream :: "nat option"
  recordedVideoUrl :: "string option"
  recordedAudioUrl :: "string option"
  isRecordingMedia :: bool
  isContentExpanded :: bool
  recordingDuration :: nat
  playbackIsPlaying :: bool
  isPaused :: bool
  nextRedoMode :: "RedoMode option"
  \<comment> \<open>useRef\<close>
  playbackAudioRef :: "string option"
  mediaRecorderRef :: "nat option"
  ttsSourceRef :: "nat option"
  ttsAudioContextRef :: "nat option"
  recognitionRef :: "nat option"
  \<comment> \<open>dependency arrays of the last run of each effect; \<open>None\<close> before the first run\<close>
  deps_timer :: "(FlowState \<times> bool) option"
  deps_recognition :: "(bool \<times> bool \<times> FlowState) option"
  deps_question :: "Question option"
  deps_flow :: "FlowState option"
  \<comment> \<open>what the live closures of the effects captured\<close>
  interval_on :: bool
  isMounted :: "nat option"
  next_gen :: nat
  cleanup_cameraStream :: "nat option"
  cleanup_voiceStream :: "nat option"
  unmounted :: bool
  \<comment> \<open>platform\<close>
  speech_supported :: bool
  streams :: "bool list"
  pending_gum :: "GumRequest list"
  contexts :: "bool list"
  narrations :: "Narration list"
  timers :: "nat list"
  recognizers :: "SpeechRecognition list"
  recorders :: "MediaRecorder list"
  console :: "string list"

text \<open>
  Handles are indices: stream \<open>h\<close> is \<open>streams s ! h\<close>, which is \<open>True\<close> while its
  tracks are live; likewise audio contexts (open or closed), recorders, recognizer
  instances and narrations. \<open>isMounted s = Some g\<close> says that the \<^verbatim>\<open>isMounted\<close>
  variable of run \<open>g\<close> of the question effect is \<^verbatim>\<open>true\<close>; the variable of every
  other run is \<^verbatim>\<open>false\<close>. \<open>timers\<close> holds the runs whose 500 ms timeout is pending.
\<close>

datatype event =
  ClickMic | ClickVideo | ClickKeyboard
  | ClickPause | ClickVoiceDone
  | ClickCameraStart | ClickCameraStop
  | TypeText string | ClickTypingDone
  | ClickRedo RedoMode | ClickDontAsk | ClickCancel | ClickYes
  | ClickPlayPause | ClickExpand
  | QuestionChanged Question | Unmount
  | TimerFired nat
  | SpeechGenerated nat SpeechResult
  | SourceEnded nat
  | UtteranceEnded nat
  | GumResolved nat | GumRejected nat
  | RecorderStopped nat string
  | Tick
  | RecognitionResult nat "(bool \<times> string) list"
  | RecognitionError nat string
  | RecognitionEnd nat
  | PlaybackEnded

section \<open>Platform operations\<close>

definition stop_tracks :: "nat \<Rightarrow> component \<Rightarrow> component" where
  "stop_tracks h s = s\<lparr>streams := (streams s)[h := False]\<rparr>"

definition open_streams :: "component \<Rightarrow> nat list" where
  "open_streams s = filter (\<lambda>h. streams s ! h) [0..<length (streams s)]"

definition open_contexts :: "component \<Rightarrow> nat list" where
  "open_contexts s = filter (\<lambda>h. contexts s ! h) [0..<length (contexts s)]"

definition listening_recognizers :: "component \<Rightarrow> nat list" where
  "listening_recognizers s =
     filter (\<lambda>r. status (recognizers s ! r) = Listening) [0..<length (recognizers s)]"

text \<open>\<^verbatim>\<open>start()\<close> on an instance that is not idle throws; every call site catches it.\<close>

definition recognition_start :: "nat \<Rightarrow> component \<Rightarrow> component" where
  "recognition_start r s =
     (if r < length (recognizers s) \<and> status (recognizers s ! r) = Idle
      then s\<lparr>recognizers := (recognizers s)[r := (recognizers s ! r)\<lparr>status := Listening\<rparr>]\<rparr>
      else s)"

definition recognition_stop :: "nat \<Rightarrow> component \<Rightarrow> component" where
  "recognition_stop r s =
     (if r < length (recognizers s) \<and> status (recognizers s ! r) = Listening
      then s\<lparr>recognizers := (recognizers s)[r := (recognizers s ! r)\<lparr>status := Stopping\<rparr>]\<rparr>
      else s)"

definition set_stage :: "nat \<Rightarrow> NarrationStage \<Rightarrow> component \<Rightarrow> component" where
  "set_stage n st s = s\<lparr>narrations := (narrations s)[n := (narrations s ! n)\<lparr>stage := st\<rparr>]\<rparr>"

text \<open>\<^verbatim>\<open>window.speechSynthesis.cancel()\<close>: every utterance being spoken is cut off.\<close>

definition speechSynthesis_cancel :: "component \<Rightarrow> component" where
  "speechSynthesis_cancel s =
     s\<lparr>narrations :=
         map (\<lambda>n. if stage n = Speaking then n\<lparr>stage := Cancelled\<rparr> else n) (narrations s)\<rparr>"

text \<open>\<^verbatim>\<open>ttsSourceRef.current.stop()\<close> on the buffer source of narration \<open>n\<close>.\<close>

definition source_stop :: "nat \<Rightarrow> component \<Rightarrow> component" where
  "source_stop n s =
     (if n < length (narrations s) \<and> stage (narrations s ! n) = Playing
      then set_stage n Stopped s else s)"

section \<open>Handlers of the component\<close>

definition startListening :: "component \<Rightarrow> component" where
  "startListening s = (case recognitionRef s of None \<Rightarrow> s | Some r \<Rightarrow> recognition_start r s)"

definition stopListening :: "component \<Rightarrow> component" where
  "stopListening s = (case recognitionRef s of None \<Rightarrow> s | Some r \<Rightarrow> recognition_stop r s)"

text \<open>
  \<^verbatim>\<open>startCamera\<close> awaits \<^verbatim>\<open>getUserMedia({video, audio})\<close>; the rest of its body runs
  when the promise settles (events \<open>GumResolved\<close>, \<open>GumRejected\<close>).
\<close>

definition startCamera :: "component \<Rightarrow> component" where
  "startCamera s = s\<lparr>pending_gum := pending_gum s @ [ForCamera]\<rparr>"

text \<open>
  \<^verbatim>\<open>stopCamera\<close> reads \<^verbatim>\<open>cameraStream\<close> of the render whose closure it is, so the
  captured value is an argument.
\<close>

definition stopCamera :: "nat option \<Rightarrow> component \<Rightarrow> component" where
  "stopCamera cam s =
     (case cam of None \<Rightarrow> s | Some c \<Rightarrow> (stop_tracks c s)\<lparr>cameraStream := None\<rparr>)"

text \<open>\<^verbatim>\<open>startRecording\<close> from \<^verbatim>\<open>if (!stream) return\<close> on, with the stream in hand.\<close>

definition startRecording_rest :: "RecMode \<Rightarrow> nat \<Rightarrow> component \<Rightarrow> component" where
  "startRecording_rest mode stream s =
     (let s1 = s\<lparr>recordingDuration := 0, isPaused := False,
                 recorders := recorders s @
                   [\<lparr>rec_stream = stream, rec_mode = mode, rec_state = recording,
                     stop_pending = False\<rparr>],
                 mediaRecorderRef := Some (length (recorders s))\<rparr>
      in if mode = video then s1\<lparr>flowState := RECORDING_CAMERA\<rparr>
         else s1\<lparr>transcript := [], flowState := RECORDING_VOICE\<rparr>)"

definition startRecording :: "RecMode \<Rightarrow> component \<Rightarrow> component" where
  "startRecording mode s =
     (if mode = video
      then (case cameraStream s of None \<Rightarrow> s | Some c \<Rightarrow> startRecording_rest video c s)
      else s\<lparr>pending_gum := pending_gum s @ [ForVoiceRecording]\<rparr>)"

definition stopRecordingMedia :: "component \<Rightarrow> component" where
  "stopRecordingMedia s =
     (case mediaRecorderRef s of
        None \<Rightarrow> s
      | Some m \<Rightarrow>
          if m < length (recorders s) \<and> rec_state (recorders s ! m) \<noteq> inactive
          then s\<lparr>recorders := (recorders s)[m := (recorders s ! m)
                                 \<lparr>rec_state := inactive, stop_pending := True\<rparr>],
                 flowState := REVIEW\<rparr>
          else s)"

text \<open>
  \<^verbatim>\<open>togglePause\<close>. \<^verbatim>\<open>pause()\<close> and \<^verbatim>\<open>resume()\<close> throw on an inactive recorder,
  which leaves the handler before any state is set.
\<close>

definition togglePause :: "component \<Rightarrow> component" where
  "togglePause s =
     (case mediaRecorderRef s of
        None \<Rightarrow> s
      | Some m \<Rightarrow>
          if \<not> m < length (recorders s) \<or> rec_state (recorders s ! m) = inactive then s
          else if isPaused s
          then (let s1 = s\<lparr>recorders := (recorders s)[m := (recorders s ! m)\<lparr>rec_state := recording\<rparr>],
                           isPaused := False\<rparr>
                in case recognitionRef s1 of None \<Rightarrow> s1 | Some r \<Rightarrow> recognition_start r s1)
          else (let s1 = s\<lparr>recorders := (recorders s)[m := (recorders s ! m)\<lparr>rec_state := paused\<rparr>],
                           isPaused := True\<rparr>
                in case recognitionRef s1 of None \<Rightarrow> s1 | Some r \<Rightarrow> recognition_stop r s1))"

definition handleVoiceStart :: "component \<Rightarrow> component" where
  "handleVoiceStart s = startRecording audio s"

definition handleTypingDone :: "component \<Rightarrow> component" where
  "handleTypingDone s = s\<lparr>flowState := REVIEW\<rparr>"

definition startNextMode :: "RedoMode \<Rightarrow> component \<Rightarrow> component" where
  "startNextMode mode s =
     (case mode of
        voice \<Rightarrow> startRecording audio s
      | camera \<Rightarrow> s\<lparr>flowState := PREVIEW_CAMERA\<rparr>
      | typing \<Rightarrow> s\<lparr>flowState := TYPING\<rparr>)"

text \<open>\<^verbatim>\<open>redoAction()\<close> starts by awaiting \<^verbatim>\<open>generateSpeech\<close>: a new narration.\<close>

definition performRedo :: "RedoMode \<Rightarrow> component \<Rightarrow> component" where
  "performRedo mode s =
     (let s1 = s\<lparr>transcript := [], recordedVideoUrl := None, recordedAudioUrl := None,
                 flowState := READING, playbackIsPlaying := False, playbackAudioRef := None\<rparr>;
          s2 = speechSynthesis_cancel s1
      in s2\<lparr>narrations := narrations s2 @ [\<lparr>owner = RedoAction mode, stage = AwaitingSpeech\<rparr>]\<rparr>)"

definition initiateRedo :: "RedoMode \<Rightarrow> component \<Rightarrow> component" where
  "initiateRedo mode s =
     (if dontAskRedo s then performRedo mode s
      else s\<lparr>nextRedoMode := Some mode, flowState := REDO_CONFIRM\<rparr>)"

definition handlePlayPause :: "component \<Rightarrow> component" where
  "handlePlayPause s =
     (case recordedAudioUrl s of
        None \<Rightarrow> s
      | Some u \<Rightarrow>
          (let s1 = (if playbackAudioRef s = None then s\<lparr>playbackAudioRef := Some u\<rparr> else s)
           in s1\<lparr>playbackIsPlaying := \<not> playbackIsPlaying s\<rparr>))"

subsection \<open>Narration\<close>

text \<open>The end callbacks: \<^verbatim>\<open>source.onended\<close> and \<^verbatim>\<open>utter.onend\<close> of either owner.\<close>

definition narration_ended :: "NarrationOwner \<Rightarrow> component \<Rightarrow> component" where
  "narration_ended ow s =
     (case ow of
        QuestionEffect g \<Rightarrow>
          if isMounted s = Some g
          then s\<lparr>flowState := (if flowState s = READING then INPUT_SELECTION else flowState s)\<rparr>
          else s
      | RedoAction mode \<Rightarrow> startNextMode mode s)"

text \<open>\<^verbatim>\<open>fallbackSynthesis\<close> cancels the synthesizer first; \<^verbatim>\<open>fallbackRedoSpeech\<close> does not.\<close>

definition fallbackSynthesis :: "nat \<Rightarrow> component \<Rightarrow> component" where
  "fallbackSynthesis n s = set_stage n Speaking (speechSynthesis_cancel s)"

definition fallbackRedoSpeech :: "nat \<Rightarrow> component \<Rightarrow> component" where
  "fallbackRedoSpeech n s = set_stage n Speaking s"

text \<open>The \<^verbatim>\<open>try\<close> block up to the point where it can fail: a new audio context.\<close>

definition new_context :: "component \<Rightarrow> component" where
  "new_context s =
     s\<lparr>contexts := contexts s @ [True], ttsAudioContextRef := Some (length (contexts s))\<rparr>"

definition play_source :: "nat \<Rightarrow> component \<Rightarrow> component" where
  "play_source n s = set_stage n Playing (s\<lparr>ttsSourceRef := Some n\<rparr>)"

text \<open>The continuation of \<^verbatim>\<open>await generateSpeech(question.text)\<close> in narration \<open>n\<close>.\<close>

definition speech_generated :: "nat \<Rightarrow> SpeechResult \<Rightarrow> component \<Rightarrow> component" where
  "speech_generated n res s =
     (case owner (narrations s ! n) of
        QuestionEffect g \<Rightarrow>
          if isMounted s \<noteq> Some g then set_stage n Finished s
          else (case res of
                  NoData \<Rightarrow> fallbackSynthesis n s
                | Pcm ok \<Rightarrow>
                    if ok then play_source n (new_context s)
                    else fallbackSynthesis n
                           ((new_context s)\<lparr>console := console s @
                              [''Gemini TTS playback failed, falling back to synthesis'']\<rparr>))
      | RedoAction mode \<Rightarrow>
          (case res of
             NoData \<Rightarrow> fallbackRedoSpeech n s
           | Pcm ok \<Rightarrow>
               if ok then play_source n (new_context s)
               else fallbackRedoSpeech n (new_context s)))"

section \<open>Effects and rendering\<close>

text \<open>
  An effect body and its cleanup are closures of one render: they read the state cells
  of that render (argument \<open>r\<close>) and act on the refs and the platform as they are when
  they run (argument \<open>s\<close>). A state setter called by an effect writes to \<open>s\<close>; the
  next render sees it.
\<close>

text \<open>The timer effect, dependencies \<^verbatim>\<open>[flowState, isPaused]\<close>: cleanup, then body.\<close>

definition timer_effect :: "component \<Rightarrow> component \<Rightarrow> component" where
  "timer_effect r s =
     s\<lparr>interval_on :=
         ((flowState r = RECORDING_VOICE \<or> flowState r = RECORDING_CAMERA) \<and> \<not> isPaused r),
       deps_timer := Some (flowState r, isPaused r)\<rparr>"

text \<open>
  The effect that initialises speech recognition, dependencies
  \<^verbatim>\<open>[isRecordingMedia, isPaused, flowState]\<close>. Each run makes a new instance and stores
  it in \<^verbatim>\<open>recognitionRef\<close>; the effect returns no cleanup.
\<close>

definition recognition_effect :: "component \<Rightarrow> component \<Rightarrow> component" where
  "recognition_effect r s =
     (let s1 = (if speech_supported s
                then s\<lparr>recognizers := recognizers s @
                         [\<lparr>status = Idle, c_isRecordingMedia = isRecordingMedia r,
                           c_isPaused = isPaused r, c_flowState = flowState r\<rparr>],
                       recognitionRef := Some (length (recognizers s))\<rparr>
                else s)
      in s1\<lparr>deps_recognition := Some (isRecordingMedia r, isPaused r, flowState r)\<rparr>)"

text \<open>
  The cleanup returned by the question effect, one function per statement.
  \<^verbatim>\<open>stopCamera\<close> and \<^verbatim>\<open>voiceStream\<close> in it belong to the render in which the
  effect ran, hence \<open>cleanup_cameraStream\<close> and \<open>cleanup_voiceStream\<close>.
\<close>

text \<open>\<^verbatim>\<open>isMounted = false; clearTimeout(timer)\<close>\<close>

definition clear_question_timer :: "component \<Rightarrow> component" where
  "clear_question_timer s =
     s\<lparr>timers := (case isMounted s of None \<Rightarrow> timers s | Some g \<Rightarrow> removeAll g (timers s)),
       isMounted := None\<rparr>"

text \<open>\<^verbatim>\<open>if (ttsSourceRef.current) { try { ttsSourceRef.current.stop() } catch(e) {} }\<close>\<close>

definition stop_tts_source :: "component \<Rightarrow> component" where
  "stop_tts_source s = (case ttsSourceRef s of None \<Rightarrow> s | Some n \<Rightarrow> source_stop n s)"

text \<open>\<^verbatim>\<open>if (ttsAudioContextRef.current && state !== 'closed') ttsAudioContextRef.current.close()\<close>\<close>

definition close_tts_context :: "component \<Rightarrow> component" where
  "close_tts_context s =
     (case ttsAudioContextRef s of
        None \<Rightarrow> s
      | Some c \<Rightarrow> if c < length (contexts s) \<and> contexts s ! c
                  then s\<lparr>contexts := (contexts s)[c := False]\<rparr> else s)"

text \<open>\<^verbatim>\<open>if (voiceStream) voiceStream.getTracks().forEach(t => t.stop())\<close>\<close>

definition stop_voice_tracks :: "nat option \<Rightarrow> component \<Rightarrow> component" where
  "stop_voice_tracks v s = (case v of None \<Rightarrow> s | Some h \<Rightarrow> stop_tracks h s)"

definition question_cleanup :: "component \<Rightarrow> component" where
  "question_cleanup s =
     stop_voice_tracks (cleanup_voiceStream s)
       (stopListening
         (stopCamera (cleanup_cameraStream s)
           (close_tts_context
             (stop_tts_source
               (speechSynthesis_cancel
                 (clear_question_timer s))))))"

text \<open>The body of the question effect, dependencies \<^verbatim>\<open>[question]\<close>.\<close>

definition question_effect :: "component \<Rightarrow> component \<Rightarrow> component" where
  "question_effect r s =
     s\<lparr>flowState := READING, transcript := [], recordedVideoUrl := None,
       recordedAudioUrl := None, voiceStream := None, cameraStream := None,
       recordingDuration := 0, isPaused := False,
       isMounted := Some (next_gen s), timers := timers s @ [next_gen s],
       next_gen := Suc (next_gen s),
       cleanup_cameraStream := cameraStream r, cleanup_voiceStream := voiceStream r,
       deps_question := Some (question r)\<rparr>"

text \<open>The effect with dependencies \<^verbatim>\<open>[flowState]\<close>.\<close>

definition flow_effect :: "component \<Rightarrow> component \<Rightarrow> component" where
  "flow_effect r s =
     (let s1 = (if flowState r = PREVIEW_CAMERA \<or> flowState r = RECORDING_CAMERA
                then startCamera s else stopCamera (cameraStream r) s);
          s2 = (if flowState r = RECORDING_VOICE \<or> flowState r = RECORDING_CAMERA
                then startListening (s1\<lparr>isRecordingMedia := True\<rparr>)
                else stopListening (s1\<lparr>isRecordingMedia := False\<rparr>))
      in s2\<lparr>deps_flow := Some (flowState r)\<rparr>)"

text \<open>
  One render and its commit: the cleanups of the effects whose dependencies changed,
  then their bodies in the order of declaration. Only the question effect's cleanup
  touches anything another effect uses. Each phase takes the render \<open>r\<close>, whose
  dependencies decide whether the effect runs, and the state it acts on.
\<close>

definition cleanup_phase :: "component \<Rightarrow> component \<Rightarrow> component" where
  "cleanup_phase r s =
     (if deps_question r \<noteq> Some (question r) \<and> deps_question r \<noteq> None
      then question_cleanup s else s)"

definition timer_phase :: "component \<Rightarrow> component \<Rightarrow> component" where
  "timer_phase r s =
     (if deps_timer r \<noteq> Some (flowState r, isPaused r) then timer_effect r s else s)"

definition recognition_phase :: "component \<Rightarrow> component \<Rightarrow> component" where
  "recognition_phase r s =
     (if deps_recognition r \<noteq> Some (isRecordingMedia r, isPaused r, flowState r)
      then recognition_effect r s else s)"

definition question_phase :: "component \<Rightarrow> component \<Rightarrow> component" where
  "question_phase r s =
     (if deps_question r \<noteq> Some (question r) then question_effect r s else s)"

definition flow_phase :: "component \<Rightarrow> component \<Rightarrow> component" where
  "flow_phase r s = (if deps_flow r \<noteq> Some (flowState r) then flow_effect r s else s)"

definition render_pass :: "component \<Rightarrow> component" where
  "render_pass s =
     flow_phase s (question_phase s (recognition_phase s (timer_phase s (cleanup_phase s s))))"

text \<open>
  Renders repeat while effects set state. Three passes reach a state in which no
  dependency differs from the last run (lemma \<open>settled_commit\<close> below).
\<close>

definition commit :: "component \<Rightarrow> component" where
  "commit s = render_pass (render_pass (render_pass s))"

definition settled :: "component \<Rightarrow> bool" where
  "settled s =
     (deps_timer s = Some (flowState s, isPaused s) \<and>
      deps_recognition s = Some (isRecordingMedia s, isPaused s, flowState s) \<and>
      deps_question s = Some (question s) \<and>
      deps_flow s = Some (flowState s))"

section \<open>Events\<close>

definition remove_nth :: "nat \<Rightarrow> 'a list \<Rightarrow> 'a list" where
  "remove_nth k xs = take k xs @ drop (Suc k) xs"

text \<open>The promise of \<^verbatim>\<open>getUserMedia\<close> resolves with a new live stream.\<close>

definition gum_resolved :: "nat \<Rightarrow> component \<Rightarrow> component" where
  "gum_resolved k s =
     (let h = length (streams s);
          s1 = s\<lparr>pending_gum := remove_nth k (pending_gum s), streams := streams s @ [True]\<rparr>
      in case pending_gum s ! k of
           ForCamera \<Rightarrow> s1\<lparr>cameraStream := Some h\<rparr>
         | ForVoiceRecording \<Rightarrow> startRecording_rest audio h (s1\<lparr>voiceStream := Some h\<rparr>))"

text \<open>The promise rejects (permission denied): the \<^verbatim>\<open>catch\<close> block of the caller.\<close>

definition gum_rejected :: "nat \<Rightarrow> component \<Rightarrow> component" where
  "gum_rejected k s =
     (let s1 = s\<lparr>pending_gum := remove_nth k (pending_gum s)\<rparr>
      in case pending_gum s ! k of
           ForCamera \<Rightarrow> s1\<lparr>console := console s @ [''Camera access failed'']\<rparr>
         | ForVoiceRecording \<Rightarrow> s1\<lparr>console := console s @ [''Recording start failed'']\<rparr>)"

text \<open>\<^verbatim>\<open>mediaRecorder.onstop\<close> of recorder \<open>m\<close>; \<open>u\<close> is what \<^verbatim>\<open>createObjectURL\<close> returns.\<close>

definition recorder_onstop :: "nat \<Rightarrow> string \<Rightarrow> component \<Rightarrow> component" where
  "recorder_onstop m u s =
     (let rc = recorders s ! m;
          s1 = s\<lparr>recorders := (recorders s)[m := rc\<lparr>stop_pending := False\<rparr>]\<rparr>
      in if rec_mode rc = video then s1\<lparr>recordedVideoUrl := Some u\<rparr>
         else (stop_tracks (rec_stream rc) (s1\<lparr>recordedAudioUrl := Some u\<rparr>))\<lparr>voiceStream := None\<rparr>)"

text \<open>\<^verbatim>\<open>recognition.onresult\<close>: the final results, each followed by a space.\<close>

definition finalTranscript :: "(bool \<times> string) list \<Rightarrow> string" where
  "finalTranscript results = concat (map (\<lambda>(isFinal, t). if isFinal then t @ '' '' else []) results)"

definition recognition_onresult :: "(bool \<times> string) list \<Rightarrow> component \<Rightarrow> component" where
  "recognition_onresult results s =
     (if finalTranscript results \<noteq> []
      then s\<lparr>transcript := transcript s @ finalTranscript results\<rparr> else s)"

text \<open>\<^verbatim>\<open>recognition.onend\<close> of instance \<open>r\<close>, reading the values it captured.\<close>

definition recognition_onend :: "nat \<Rightarrow> component \<Rightarrow> component" where
  "recognition_onend r s =
     (let rg = recognizers s ! r;
          s1 = s\<lparr>recognizers := (recognizers s)[r := rg\<lparr>status := Idle\<rparr>]\<rparr>
      in if c_isRecordingMedia rg \<and> \<not> c_isPaused rg \<and> c_flowState rg \<noteq> REVIEW
         then (case recognitionRef s1 of
                 None \<Rightarrow> s1
               | Some r' \<Rightarrow>
                   if r' < length (recognizers s1) \<and> status (recognizers s1 ! r') = Idle
                   then (recognition_start r' s1)
                          \<lparr>console := console s1 @ [''Restarted speech recognition'']\<rparr>
                   else s1)
         else s1)"

text \<open>
  What one event does before React renders again. A click reaches a handler only in
  the flow state whose markup holds the button; a platform event reaches its callback
  only when the platform object is in a state that can raise it.
  \<open>QuestionChanged q\<close> is the parent rendering the component with the prop \<open>q\<close>;
  the question effect runs again when \<open>q\<close> differs from the question it last ran for.
\<close>

fun fire :: "event \<Rightarrow> component \<Rightarrow> component" where
  "fire ClickMic s = (if flowState s = INPUT_SELECTION then handleVoiceStart s else s)"
| "fire ClickVideo s =
     (if flowState s = INPUT_SELECTION then s\<lparr>flowState := PREVIEW_CAMERA\<rparr> else s)"
| "fire ClickKeyboard s =
     (if flowState s = INPUT_SELECTION then s\<lparr>flowState := TYPING\<rparr> else s)"
| "fire ClickPause s = (if flowState s = RECORDING_VOICE then togglePause s else s)"
| "fire ClickVoiceDone s = (if flowState s = RECORDING_VOICE then stopRecordingMedia s else s)"
| "fire ClickCameraStart s =
     (if flowState s = PREVIEW_CAMERA then startRecording video s else s)"
| "fire ClickCameraStop s =
     (if flowState s = RECORDING_CAMERA then stopRecordingMedia s else s)"
| "fire (TypeText t) s =
     (if flowState s = TYPING \<or> (flowState s = REVIEW \<and> isContentExpanded s)
      then s\<lparr>transcript := t\<rparr> else s)"
| "fire ClickTypingDone s = (if flowState s = TYPING then handleTypingDone s else s)"
| "fire (ClickRedo mode) s = (if flowState s = REVIEW then initiateRedo mode s else s)"
| "fire ClickDontAsk s =
     (if flowState s = REDO_CONFIRM then s\<lparr>dontAskRedo := \<not> dontAskRedo s\<rparr> else s)"
| "fire ClickCancel s = (if flowState s = REDO_CONFIRM then s\<lparr>flowState := REVIEW\<rparr> else s)"
| "fire ClickYes s =
     (if flowState s = REDO_CONFIRM
      then (case nextRedoMode s of None \<Rightarrow> s | Some mode \<Rightarrow> performRedo mode s) else s)"
| "fire ClickPlayPause s =
     (if flowState s = REVIEW \<and> recordedAudioUrl s \<noteq> None then handlePlayPause s else s)"
| "fire ClickExpand s =
     (if flowState s = REVIEW then s\<lparr>isContentExpanded := \<not> isContentExpanded s\<rparr> else s)"
| "fire (QuestionChanged q) s = s\<lparr>question := q\<rparr>"
| "fire Unmount s = s"
| "fire (TimerFired g) s =
     (if g \<in> set (timers s)
      then s\<lparr>timers := removeAll g (timers s),
             narrations := narrations s @ [\<lparr>owner = QuestionEffect g, stage = AwaitingSpeech\<rparr>]\<rparr>
      else s)"
| "fire (SpeechGenerated n res) s =
     (if n < length (narrations s) \<and> stage (narrations s ! n) = AwaitingSpeech
      then speech_generated n res s else s)"
| "fire (SourceEnded n) s =
     (if n < length (narrations s) \<and>
         (stage (narrations s ! n) = Playing \<or> stage (narrations s ! n) = Stopped)
      then narration_ended (owner (narrations s ! n)) (set_stage n Finished s) else s)"
| "fire (UtteranceEnded n) s =
     (if n < length (narrations s) \<and>
         (stage (narrations s ! n) = Speaking \<or> stage (narrations s ! n) = Cancelled)
      then narration_ended (owner (narrations s ! n)) (set_stage n Finished s) else s)"
| "fire (GumResolved k) s = (if k < length (pending_gum s) then gum_resolved k s else s)"
| "fire (GumRejected k) s = (if k < length (pending_gum s) then gum_rejected k s else s)"
| "fire (RecorderStopped m u) s =
     (if m < length (recorders s) \<and> stop_pending (recorders s ! m)
      then recorder_onstop m u s else s)"
| "fire Tick s =
     (if interval_on s then s\<lparr>recordingDuration := recordingDuration s + 1\<rparr> else s)"
| "fire (RecognitionResult r results) s =
     (if r < length (recognizers s) \<and> status (recognizers s ! r) = Listening
      then recognition_onresult results s else s)"
| "fire (RecognitionError r err) s =
     (if r < length (recognizers s) \<and> status (recognizers s ! r) \<noteq> Idle
      then s\<lparr>console := console s @ [''Speech recognition error'']\<rparr> else s)"
| "fire (RecognitionEnd r) s =
     (if r < length (recognizers s) \<and> status (recognizers s ! r) \<noteq> Idle
      then recognition_onend r s else s)"
| "fire PlaybackEnded s =
     (if playbackAudioRef s \<noteq> None \<and> playbackIsPlaying s
      then s\<lparr>playbackIsPlaying := False\<rparr> else s)"

text \<open>Unmounting runs every cleanup: the interval, the playback element, the question effect.\<close>

definition unmount :: "component \<Rightarrow> component" where
  "unmount s = (question_cleanup (s\<lparr>interval_on := False, playbackAudioRef := None\<rparr>))\<lparr>unmounted := True\<rparr>"

text \<open>One event, then the renders it causes. The model ends at unmount.\<close>

definition step :: "component \<Rightarrow> event \<Rightarrow> component" where
  "step s e =
     (if unmounted s then s
      else if e = Unmount then unmount s
      else commit (fire e s))"

definition run :: "component \<Rightarrow> event list \<Rightarrow> component" where
  "run s es = foldl step s es"

text \<open>The initial values of the \<^verbatim>\<open>useState\<close> and \<^verbatim>\<open>useRef\<close> calls, nothing rendered yet.\<close>

definition init :: "Question \<Rightarrow> bool \<Rightarrow> bool \<Rightarrow> component" where
  "init q dontAsk supported =
     \<lparr>question = q, dontAskRedo = dontAsk, onComplete_calls = [],
      flowState = READING, transcript = [], cameraStream = None, voiceStream = None,
      recordedVideoUrl = None, recordedAudioUrl = None, isRecordingMedia = False,
      isContentExpanded = True, recordingDuration = 0, playbackIsPlaying = False,
      isPaused = False, nextRedoMode = None,
      playbackAudioRef = None, mediaRecorderRef = None, ttsSourceRef = None,
      ttsAudioContextRef = None, recognitionRef = None,
      deps_timer = None, deps_recognition = None, deps_question = None, deps_flow = None,
      interval_on = False, isMounted = None, next_gen = 0,
      cleanup_cameraStream = None, cleanup_voiceStream = None, unmounted = False,
      speech_supported = supported, streams = [], pending_gum = [], contexts = [],
      narrations = [], timers = [], recognizers = [], recorders = [], console = []\<rparr>"

definition mount :: "Question \<Rightarrow> bool \<Rightarrow> bool \<Rightarrow> component" where
  "mount q dontAsk supported = commit (init q dontAsk supported)"

section \<open>The custom-question input\<close>

text \<open>
  The two variants of \<^verbatim>\<open>CustomQuestionInput\<close>
  (\<^verbatim>\<open>src/components/CustomQuestionInput.tsx\<close> and \<^verbatim>\<open>src/unnamed/part_001\<close>). A
  JavaScript string is a sequence of UTF-16 code units; \<^verbatim>\<open>trim()\<close> strips the code
  units that ECMAScript calls WhiteSpace or LineTerminator from both ends.
\<close>

type_synonym jsstring = "nat list"

definition is_whitespace :: "nat \<Rightarrow> bool" where
  "is_whitespace c =
     (c = 0x09 \<or> c = 0x0A \<or> c = 0x0B \<or> c = 0x0C \<or> c = 0x0D \<or> c = 0x20 \<or> c = 0xA0 \<or>
      c = 0x1680 \<or> (0x2000 \<le> c \<and> c \<le> 0x200A) \<or> c = 0x2028 \<or> c = 0x2029 \<or>
      c = 0x202F \<or> c = 0x205F \<or> c = 0x3000 \<or> c = 0xFEFF)"

definition trim :: "jsstring \<Rightarrow> jsstring" where
  "trim str = rev (dropWhile is_whitespace (rev (dropWhile is_whitespace str)))"

text \<open>The \<^verbatim>\<open>disabled\<close> attribute of the Add button: \<^verbatim>\<open>!questionText.trim()\<close>.\<close>

definition add_disabled :: "jsstring \<Rightarrow> bool" where
  "add_disabled qt = (trim qt = [])"

text \<open>
  The state of each variant and the calls of \<^verbatim>\<open>onAdd\<close> it has made. The first variant
  passes the question text, the second the question and the answer text. A disabled
  button raises no click.
\<close>

record CustomQuestionInput =
  questionText :: jsstring
  answerText :: jsstring
  onAdd_calls :: "jsstring list"

record CustomQuestionInput2 =
  questionText2 :: jsstring
  answerText2 :: jsstring
  isExpanded2 :: bool
  onAdd_calls2 :: "(jsstring \<times> jsstring) list"

datatype input_event = ChangeQuestion jsstring | ChangeAnswer jsstring | ClickAdd | ClickExpandCollapse

fun input_step :: "CustomQuestionInput \<Rightarrow> input_event \<Rightarrow> CustomQuestionInput" where
  "input_step c (ChangeQuestion v) = c\<lparr>questionText := v\<rparr>"
| "input_step c (ChangeAnswer v) = c\<lparr>answerText := v\<rparr>"
| "input_step c ClickAdd =
     (if add_disabled (questionText c) then c
      else c\<lparr>onAdd_calls := onAdd_calls c @ [questionText c]\<rparr>)"
| "input_step c ClickExpandCollapse = c"

fun input_step2 :: "CustomQuestionInput2 \<Rightarrow> input_event \<Rightarrow> CustomQuestionInput2" where
  "input_step2 c (ChangeQuestion v) = c\<lparr>questionText2 := v\<rparr>"
| "input_step2 c (ChangeAnswer v) = c\<lparr>answerText2 := v\<rparr>"
| "input_step2 c ClickAdd =
     (if add_disabled (questionText2 c) then c
      else c\<lparr>onAdd_calls2 := onAdd_calls2 c @ [(questionText2 c, answerText2 c)]\<rparr>)"
| "input_step2 c ClickExpandCollapse = c\<lparr>isExpanded2 := \<not> isExpanded2 c\<rparr>"

definition input_init :: CustomQuestionInput where
  "input_init = \<lparr>questionText = [], answerText = [], onAdd_calls = []\<rparr>"

definition input_init2 :: CustomQuestionInput2 where
  "input_init2 = \<lparr>questionText2 = [], answerText2 = [], isExpanded2 = False, onAdd_calls2 = []\<rparr>"

section \<open>Notions used in the properties\<close>

text \<open>
  What the markup of the component reads: the respondent sees a function of these
  state cells and props, and of nothing else.
\<close>

definition rendered ::
  "component \<Rightarrow> FlowState \<times> Question \<times> string \<times> string option \<times> string option \<times> nat \<times> bool \<times>
     nat option \<times> bool \<times> bool \<times> bool" where
  "rendered s =
     (flowState s, question s, transcript s, recordedVideoUrl s, recordedAudioUrl s,
      recordingDuration s, isPaused s, voiceStream s, playbackIsPlaying s,
      isContentExpanded s, dontAskRedo s)"

text \<open>
  The events of the narrations in progress in state \<open>s\<close>: the 500 ms timeout of a run of
  the question effect made so far, and the resolution of \<^verbatim>\<open>generateSpeech\<close>, the end of
  the buffer source and the end of the utterance of a narration that exists in \<open>s\<close>.
  \<open>question_narration_event\<close> takes only the narrations that a run of the question
  effect owns; \<open>prior_narration_event\<close> takes those of \<^verbatim>\<open>performRedo\<close> as well.
\<close>

fun question_narration_event :: "component \<Rightarrow> event \<Rightarrow> bool" where
  "question_narration_event s (TimerFired g) = (g < next_gen s)"
| "question_narration_event s (SpeechGenerated n res) =
     (n < length (narrations s) \<and>
      (case owner (narrations s ! n) of QuestionEffect g \<Rightarrow> g < next_gen s | RedoAction m \<Rightarrow> False))"
| "question_narration_event s (SourceEnded n) =
     (n < length (narrations s) \<and>
      (case owner (narrations s ! n) of QuestionEffect g \<Rightarrow> g < next_gen s | RedoAction m \<Rightarrow> False))"
| "question_narration_event s (UtteranceEnded n) =
     (n < length (narrations s) \<and>
      (case owner (narrations s ! n) of QuestionEffect g \<Rightarrow> g < next_gen s | RedoAction m \<Rightarrow> False))"
| "question_narration_event s _ = False"

fun prior_narration_event :: "component \<Rightarrow> event \<Rightarrow> bool" where
  "prior_narration_event s (TimerFired g) = (g < next_gen s)"
| "prior_narration_event s (SpeechGenerated n res) =
     (n < length (narrations s) \<and>
      (case owner (narrations s ! n) of QuestionEffect g \<Rightarrow> g < next_gen s | RedoAction m \<Rightarrow> True))"
| "prior_narration_event s (SourceEnded n) =
     (n < length (narrations s) \<and>
      (case owner (narrations s ! n) of QuestionEffect g \<Rightarrow> g < next_gen s | RedoAction m \<Rightarrow> True))"
| "prior_narration_event s (UtteranceEnded n) =
     (n < length (narrations s) \<and>
      (case owner (narrations s ! n) of QuestionEffect g \<Rightarrow> g < next_gen s | RedoAction m \<Rightarrow> True))"
| "prior_narration_event s _ = False"

text \<open>
  What holds of a state \<open>x\<close> reached after the question changed in \<open>s\<close>, while only
  events of narrations of the question effect arrive: the new run of the effect is the
  mounted one, the flow is READING, and the narrations that existed in \<open>s\<close> keep their
  owners. With the events of redo narrations as well, the flow may also be in the mode
  the redo asked for.
\<close>

definition after_change :: "component \<Rightarrow> component \<Rightarrow> bool" where
  "after_change s x =
     (settled x \<and> \<not> unmounted x \<and> flowState x = READING \<and> isMounted x = Some (next_gen s) \<and>
      length (narrations s) \<le> length (narrations x) \<and>
      (\<forall>n<length (narrations s). owner (narrations x ! n) = owner (narrations s ! n)))"

definition after_change_any :: "component \<Rightarrow> component \<Rightarrow> bool" where
  "after_change_any s x =
     (settled x \<and> \<not> unmounted x \<and>
      (flowState x = READING \<or> flowState x = TYPING \<or> flowState x = PREVIEW_CAMERA) \<and>
      isMounted x = Some (next_gen s) \<and>
      length (narrations s) \<le> length (narrations x) \<and>
      (\<forall>n<length (narrations s). owner (narrations x ! n) = owner (narrations s ! n)))"

text \<open>
  The recorder in \<^verbatim>\<open>mediaRecorderRef\<close> exists, records in the given mode, and has not
  been stopped.
\<close>

definition active_recorder :: "RecMode \<Rightarrow> component \<Rightarrow> bool" where
  "active_recorder mode s =
     (case mediaRecorderRef s of
        None \<Rightarrow> False
      | Some m \<Rightarrow> m < length (recorders s) \<and> rec_mode (recorders s ! m) = mode \<and>
                  rec_state (recorders s ! m) \<noteq> inactive)"

text \<open>In a recording state the current recorder is active and of the state's kind.\<close>

definition recorder_matches_flow :: "component \<Rightarrow> bool" where
  "recorder_matches_flow s =
     ((flowState s = RECORDING_VOICE \<longrightarrow> active_recorder audio s) \<and>
      (flowState s = RECORDING_CAMERA \<longrightarrow> active_recorder video s))"

text \<open>Neither \<^verbatim>\<open>recordedVideoUrl\<close> nor \<^verbatim>\<open>recordedAudioUrl\<close> is set.\<close>

definition no_artifact :: "component \<Rightarrow> bool" where
  "no_artifact s = (recordedVideoUrl s = None \<and> recordedAudioUrl s = None)"

fun is_RecorderStopped :: "event \<Rightarrow> bool" where
  "is_RecorderStopped (RecorderStopped m u) = True"
| "is_RecorderStopped _ = False"

text \<open>
  The interval of the timer effect runs exactly when the dependencies of its last run
  were a recording state and not paused.
\<close>

definition interval_matches :: "component \<Rightarrow> bool" where
  "interval_matches s =
     (unmounted s \<or>
      interval_on s =
        (case deps_timer s of
           None \<Rightarrow> False
         | Some (f, p) \<Rightarrow> (f = RECORDING_VOICE \<or> f = RECORDING_CAMERA) \<and> \<not> p))"

subsection \<open>Concrete inputs\<close>

definition example_question :: Question where
  "example_question = \<lparr>q_id = ''q1'', q_text = ''Why this role?'', q_type = ''Background''\<rparr>"

definition other_question :: Question where
  "other_question =
     \<lparr>q_id = ''q2'', q_text = ''Tell me about a conflict.'', q_type = ''Behavioral''\<rparr>"

text \<open>
  The narration of the first question when the remote synthesis returns nothing: the
  timeout fires, \<^verbatim>\<open>generateSpeech\<close> resolves to \<^verbatim>\<open>null\<close>, the utterance of the
  fallback ends.
\<close>

definition narrated :: "event list" where
  "narrated = [TimerFired 0, SpeechGenerated 0 NoData, UtteranceEnded 0]"

section \<open>Properties\<close>

subsection \<open>What each function leaves alone\<close>

text \<open>
  Frame lemmas: the fields a function does not write. The effects and the platform
  operations come first, then the handlers.
\<close>

lemma stop_tracks_frame [simp]:
  "question (stop_tracks h s) = question s" "dontAskRedo (stop_tracks h s) = dontAskRedo s"
  "onComplete_calls (stop_tracks h s) = onComplete_calls s"
  "flowState (stop_tracks h s) = flowState s" "transcript (stop_tracks h s) = transcript s"
  "recordedVideoUrl (stop_tracks h s) = recordedVideoUrl s"
  "recordedAudioUrl (stop_tracks h s) = recordedAudioUrl s"
  "isRecordingMedia (stop_tracks h s) = isRecordingMedia s"
  "isPaused (stop_tracks h s) = isPaused s" "nextRedoMode (stop_tracks h s) = nextRedoMode s"
  "mediaRecorderRef (stop_tracks h s) = mediaRecorderRef s"
  "recorders (stop_tracks h s) = recorders s" "isMounted (stop_tracks h s) = isMounted s"
  "narrations (stop_tracks h s) = narrations s" "console (stop_tracks h s) = console s"
  "unmounted (stop_tracks h s) = unmounted s" "deps_timer (stop_tracks h s) = deps_timer s"
  "deps_recognition (stop_tracks h s) = deps_recognition s"
  "deps_question (stop_tracks h s) = deps_question s" "deps_flow (stop_tracks h s) = deps_flow s"
  "pending_gum (stop_tracks h s) = pending_gum s"
  "recordingDuration (stop_tracks h s) = recordingDuration s"
  "voiceStream (stop_tracks h s) = voiceStream s"
  "playbackIsPlaying (stop_tracks h s) = playbackIsPlaying s"
  "isContentExpanded (stop_tracks h s) = isContentExpanded s"
  "next_gen (stop_tracks h s) = next_gen s" "interval_on (stop_tracks h s) = interval_on s"
  by (simp_all add: stop_tracks_def)

lemma recognition_start_frame [simp]:
  "question (recognition_start r s) = question s"
  "dontAskRedo (recognition_start r s) = dontAskRedo s"
  "onComplete_calls (recognition_start r s) = onComplete_calls s"
  "flowState (recognition_start r s) = flowState s"
  "transcript (recognition_start r s) = transcript s"
  "recordedVideoUrl (recognition_start r s) = recordedVideoUrl s"
  "recordedAudioUrl (recognition_start r s) = recordedAudioUrl s"
  "isRecordingMedia (recognition_start r s) = isRecordingMedia s"
  "isPaused (recognition_start r s) = isPaused s"
  "nextRedoMode (recognition_start r s) = nextRedoMode s"
  "mediaRecorderRef (recognition_start r s) = mediaRecorderRef s"
  "recorders (recognition_start r s) = recorders s"
  "isMounted (recognition_start r s) = isMounted s"
  "narrations (recognition_start r s) = narrations s"
  "console (recognition_start r s) = console s" "unmounted (recognition_start r s) = unmounted s"
  "deps_timer (recognition_start r s) = deps_timer s"
  "deps_recognition (recognition_start r s) = deps_recognition s"
  "deps_question (recognition_start r s) = deps_question s"
  "deps_flow (recognition_start r s) = deps_flow s" "streams (recognition_start r s) = streams s"
  "pending_gum (recognition_start r s) = pending_gum s"
  "recordingDuration (recognition_start r s) = recordingDuration s"
  "voiceStream (recognition_start r s) = voiceStream s"
  "playbackIsPlaying (recognition_start r s) = playbackIsPlaying s"
  "isContentExpanded (recognition_start r s) = isContentExpanded s"
  "next_gen (recognition_start r s) = next_gen s"
  "interval_on (recognition_start r s) = interval_on s"
  by (simp_all add: recognition_start_def)

lemma recognition_stop_frame [simp]:
  "question (recognition_stop r s) = question s"
  "dontAskRedo (recognition_stop r s) = dontAskRedo s"
  "onComplete_calls (recognition_stop r s) = onComplete_calls s"
  "flowState (recognition_stop r s) = flowState s"
  "transcript (recognition_stop r s) = transcript s"
  "recordedVideoUrl (recognition_stop r s) = recordedVideoUrl s"
  "recordedAudioUrl (recognition_stop r s) = recordedAudioUrl s"
  "isRecordingMedia (recognition_stop r s) = isRecordingMedia s"
  "isPaused (recognition_stop r s) = isPaused s"
  "nextRedoMode (recognition_stop r s) = nextRedoMode s"
  "mediaRecorderRef (recognition_stop r s) = mediaRecorderRef s"
  "recorders (recognition_stop r s) = recorders s"
  "isMounted (recognition_stop r s) = isMounted s"
  "narrations (recognition_stop r s) = narrations s" "console (recognition_stop r s) = console s"
  "unmounted (recognition_stop r s) = unmounted s"
  "deps_timer (recognition_stop r s) = deps_timer s"
  "deps_recognition (recognition_stop r s) = deps_recognition s"
  "deps_question (recognition_stop r s) = deps_question s"
  "deps_flow (recognition_stop r s) = deps_flow s" "streams (recognition_stop r s) = streams s"
  "pending_gum (recognition_stop r s) = pending_gum s"
  "recordingDuration (recognition_stop r s) = recordingDuration s"
  "voiceStream (recognition_stop r s) = voiceStream s"
  "playbackIsPlaying (recognition_stop r s) = playbackIsPlaying s"
  "isContentExpanded (recognition_stop r s) = isContentExpanded s"
  "next_gen (recognition_stop r s) = next_gen s"
  "interval_on (recognition_stop r s) = interval_on s"
  by (simp_all add: recognition_stop_def)

lemma set_stage_frame [simp]:
  "question (set_stage n st s) = question s" "dontAskRedo (set_stage n st s) = dontAskRedo s"
  "onComplete_calls (set_stage n st s) = onComplete_calls s"
  "flowState (set_stage n st s) = flowState s" "transcript (set_stage n st s) = transcript s"
  "recordedVideoUrl (set_stage n st s) = recordedVideoUrl s"
  "recordedAudioUrl (set_stage n st s) = recordedAudioUrl s"
  "isRecordingMedia (set_stage n st s) = isRecordingMedia s"
  "isPaused (set_stage n st s) = isPaused s" "nextRedoMode (set_stage n st s) = nextRedoMode s"
  "mediaRecorderRef (set_stage n st s) = mediaRecorderRef s"
  "recorders (set_stage n st s) = recorders s" "isMounted (set_stage n st s) = isMounted s"
  "console (set_stage n st s) = console s" "unmounted (set_stage n st s) = unmounted s"
  "deps_timer (set_stage n st s) = deps_timer s"
  "deps_recognition (set_stage n st s) = deps_recognition s"
  "deps_question (set_stage n st s) = deps_question s"
  "deps_flow (set_stage n st s) = deps_flow s" "streams (set_stage n st s) = streams s"
  "pending_gum (set_stage n st s) = pending_gum s"
  "recordingDuration (set_stage n st s) = recordingDuration s"
  "voiceStream (set_stage n st s) = voiceStream s"
  "playbackIsPlaying (set_stage n st s) = playbackIsPlaying s"
  "isContentExpanded (set_stage n st s) = isContentExpanded s"
  "next_gen (set_stage n st s) = next_gen s" "interval_on (set_stage n st s) = interval_on s"
  by (simp_all add: set_stage_def)

lemma speechSynthesis_cancel_frame [simp]:
  "question (speechSynthesis_cancel s) = question s"
  "dontAskRedo (speechSynthesis_cancel s) = dontAskRedo s"
  "onComplete_calls (speechSynthesis_cancel s) = onComplete_calls s"
  "flowState (speechSynthesis_cancel s) = flowState s"
  "transcript (speechSynthesis_cancel s) = transcript s"
  "recordedVideoUrl (speechSynthesis_cancel s) = recordedVideoUrl s"
  "recordedAudioUrl (speechSynthesis_cancel s) = recordedAudioUrl s"
  "isRecordingMedia (speechSynthesis_cancel s) = isRecordingMedia s"
  "isPaused (speechSynthesis_cancel s) = isPaused s"
  "nextRedoMode (speechSynthesis_cancel s) = nextRedoMode s"
  "mediaRecorderRef (speechSynthesis_cancel s) = mediaRecorderRef s"
  "recorders (speechSynthesis_cancel s) = recorders s"
  "isMounted (speechSynthesis_cancel s) = isMounted s"
  "console (speechSynthesis_cancel s) = console s"
  "unmounted (speechSynthesis_cancel s) = unmounted s"
  "deps_timer (speechSynthesis_cancel s) = deps_timer s"
  "deps_recognition (speechSynthesis_cancel s) = deps_recognition s"
  "deps_question (speechSynthesis_cancel s) = deps_question s"
  "deps_flow (speechSynthesis_cancel s) = deps_flow s"
  "streams (speechSynthesis_cancel s) = streams s"
  "pending_gum (speechSynthesis_cancel s) = pending_gum s"
  "recordingDuration (speechSynthesis_cancel s) = recordingDuration s"
  "voiceStream (speechSynthesis_cancel s) = voiceStream s"
  "playbackIsPlaying (speechSynthesis_cancel s) = playbackIsPlaying s"
  "isContentExpanded (speechSynthesis_cancel s) = isContentExpanded s"
  "next_gen (speechSynthesis_cancel s) = next_gen s"
  "interval_on (speechSynthesis_cancel s) = interval_on s"
  by (simp_all add: speechSynthesis_cancel_def)

lemma source_stop_frame [simp]:
  "question (source_stop n s) = question s" "dontAskRedo (source_stop n s) = dontAskRedo s"
  "onComplete_calls (source_stop n s) = onComplete_calls s"
  "flowState (source_stop n s) = flowState s" "transcript (source_stop n s) = transcript s"
  "recordedVideoUrl (source_stop n s) = recordedVideoUrl s"
  "recordedAudioUrl (source_stop n s) = recordedAudioUrl s"
  "isRecordingMedia (source_stop n s) = isRecordingMedia s"
  "isPaused (source_stop n s) = isPaused s" "nextRedoMode (source_stop n s) = nextRedoMode s"
  "mediaRecorderRef (source_stop n s) = mediaRecorderRef s"
  "recorders (source_stop n s) = recorders s" "isMounted (source_stop n s) = isMounted s"
  "console (source_stop n s) = console s" "unmounted (source_stop n s) = unmounted s"
  "deps_timer (source_stop n s) = deps_timer s"
  "deps_recognition (source_stop n s) = deps_recognition s"
  "deps_question (source_stop n s) = deps_question s" "deps_flow (source_stop n s) = deps_flow s"
  "streams (source_stop n s) = streams s" "pending_gum (source_stop n s) = pending_gum s"
  "recordingDuration (source_stop n s) = recordingDuration s"
  "voiceStream (source_stop n s) = voiceStream s"
  "playbackIsPlaying (source_stop n s) = playbackIsPlaying s"
  "isContentExpanded (source_stop n s) = isContentExpanded s"
  "next_gen (source_stop n s) = next_gen s" "interval_on (source_stop n s) = interval_on s"
  by (simp_all add: source_stop_def)

lemma startListening_frame [simp]:
  "question (startListening s) = question s" "dontAskRedo (startListening s) = dontAskRedo s"
  "onComplete_calls (startListening s) = onComplete_calls s"
  "flowState (startListening s) = flowState s" "transcript (startListening s) = transcript s"
  "recordedVideoUrl (startListening s) = recordedVideoUrl s"
  "recordedAudioUrl (startListening s) = recordedAudioUrl s"
  "isRecordingMedia (startListening s) = isRecordingMedia s"
  "isPaused (startListening s) = isPaused s" "nextRedoMode (startListening s) = nextRedoMode s"
  "mediaRecorderRef (startListening s) = mediaRecorderRef s"
  "recorders (startListening s) = recorders s" "isMounted (startListening s) = isMounted s"
  "narrations (startListening s) = narrations s" "console (startListening s) = console s"
  "unmounted (startListening s) = unmounted s" "deps_timer (startListening s) = deps_timer s"
  "deps_recognition (startListening s) = deps_recognition s"
  "deps_question (startListening s) = deps_question s"
  "deps_flow (startListening s) = deps_flow s" "streams (startListening s) = streams s"
  "pending_gum (startListening s) = pending_gum s"
  "recordingDuration (startListening s) = recordingDuration s"
  "voiceStream (startListening s) = voiceStream s"
  "playbackIsPlaying (startListening s) = playbackIsPlaying s"
  "isContentExpanded (startListening s) = isContentExpanded s"
  "next_gen (startListening s) = next_gen s" "interval_on (startListening s) = interval_on s"
  by (simp_all add: startListening_def split: option.splits)

lemma stopListening_frame [simp]:
  "question (stopListening s) = question s" "dontAskRedo (stopListening s) = dontAskRedo s"
  "onComplete_calls (stopListening s) = onComplete_calls s"
  "flowState (stopListening s) = flowState s" "transcript (stopListening s) = transcript s"
  "recordedVideoUrl (stopListening s) = recordedVideoUrl s"
  "recordedAudioUrl (stopListening s) = recordedAudioUrl s"
  "isRecordingMedia (stopListening s) = isRecordingMedia s"
  "isPaused (stopListening s) = isPaused s" "nextRedoMode (stopListening s) = nextRedoMode s"
  "mediaRecorderRef (stopListening s) = mediaRecorderRef s"
  "recorders (stopListening s) = recorders s" "isMounted (stopListening s) = isMounted s"
  "narrations (stopListening s) = narrations s" "console (stopListening s) = console s"
  "unmounted (stopListening s) = unmounted s" "deps_timer (stopListening s) = deps_timer s"
  "deps_recognition (stopListening s) = deps_recognition s"
  "deps_question (stopListening s) = deps_question s" "deps_flow (stopListening s) = deps_flow s"
  "streams (stopListening s) = streams s" "pending_gum (stopListening s) = pending_gum s"
  "recordingDuration (stopListening s) = recordingDuration s"
  "voiceStream (stopListening s) = voiceStream s"
  "playbackIsPlaying (stopListening s) = playbackIsPlaying s"
  "isContentExpanded (stopListening s) = isContentExpanded s"
  "next_gen (stopListening s) = next_gen s" "interval_on (stopListening s) = interval_on s"
  by (simp_all add: stopListening_def split: option.splits)

lemma startCamera_frame [simp]:
  "question (startCamera s) = question s" "dontAskRedo (startCamera s) = dontAskRedo s"
  "onComplete_calls (startCamera s) = onComplete_calls s"
  "flowState (startCamera s) = flowState s" "transcript (startCamera s) = transcript s"
  "recordedVideoUrl (startCamera s) = recordedVideoUrl s"
  "recordedAudioUrl (startCamera s) = recordedAudioUrl s"
  "isRecordingMedia (startCamera s) = isRecordingMedia s" "isPaused (startCamera s) = isPaused s"
  "nextRedoMode (startCamera s) = nextRedoMode s"
  "mediaRecorderRef (startCamera s) = mediaRecorderRef s"
  "recorders (startCamera s) = recorders s" "isMounted (startCamera s) = isMounted s"
  "narrations (startCamera s) = narrations s" "console (startCamera s) = console s"
  "unmounted (startCamera s) = unmounted s" "deps_timer (startCamera s) = deps_timer s"
  "deps_recognition (startCamera s) = deps_recognition s"
  "deps_question (startCamera s) = deps_question s" "deps_flow (startCamera s) = deps_flow s"
  "streams (startCamera s) = streams s" "recordingDuration (startCamera s) = recordingDuration s"
  "voiceStream (startCamera s) = voiceStream s"
  "playbackIsPlaying (startCamera s) = playbackIsPlaying s"
  "isContentExpanded (startCamera s) = isContentExpanded s"
  "next_gen (startCamera s) = next_gen s" "interval_on (startCamera s) = interval_on s"
  by (simp_all add: startCamera_def)

lemma stopCamera_frame [simp]:
  "question (stopCamera cam s) = question s" "dontAskRedo (stopCamera cam s) = dontAskRedo s"
  "onComplete_calls (stopCamera cam s) = onComplete_calls s"
  "flowState (stopCamera cam s) = flowState s" "transcript (stopCamera cam s) = transcript s"
  "recordedVideoUrl (stopCamera cam s) = recordedVideoUrl s"
  "recordedAudioUrl (stopCamera cam s) = recordedAudioUrl s"
  "isRecordingMedia (stopCamera cam s) = isRecordingMedia s"
  "isPaused (stopCamera cam s) = isPaused s" "nextRedoMode (stopCamera cam s) = nextRedoMode s"
  "mediaRecorderRef (stopCamera cam s) = mediaRecorderRef s"
  "recorders (stopCamera cam s) = recorders s" "isMounted (stopCamera cam s) = isMounted s"
  "narrations (stopCamera cam s) = narrations s" "console (stopCamera cam s) = console s"
  "unmounted (stopCamera cam s) = unmounted s" "deps_timer (stopCamera cam s) = deps_timer s"
  "deps_recognition (stopCamera cam s) = deps_recognition s"
  "deps_question (stopCamera cam s) = deps_question s"
  "deps_flow (stopCamera cam s) = deps_flow s" "pending_gum (stopCamera cam s) = pending_gum s"
  "recordingDuration (stopCamera cam s) = recordingDuration s"
  "voiceStream (stopCamera cam s) = voiceStream s"
  "playbackIsPlaying (stopCamera cam s) = playbackIsPlaying s"
  "isContentExpanded (stopCamera cam s) = isContentExpanded s"
  "next_gen (stopCamera cam s) = next_gen s" "interval_on (stopCamera cam s) = interval_on s"
  by (simp_all add: stopCamera_def split: option.splits)

lemma clear_question_timer_frame [simp]:
  "question (clear_question_timer s) = question s"
  "dontAskRedo (clear_question_timer s) = dontAskRedo s"
  "onComplete_calls (clear_question_timer s) = onComplete_calls s"
  "flowState (clear_question_timer s) = flowState s"
  "transcript (clear_question_timer s) = transcript s"
  "recordedVideoUrl (clear_question_timer s) = recordedVideoUrl s"
  "recordedAudioUrl (clear_question_timer s) = recordedAudioUrl s"
  "isRecordingMedia (clear_question_timer s) = isRecordingMedia s"
  "isPaused (clear_question_timer s) = isPaused s"
  "nextRedoMode (clear_question_timer s) = nextRedoMode s"
  "mediaRecorderRef (clear_question_timer s) = mediaRecorderRef s"
  "recorders (clear_question_timer s) = recorders s"
  "narrations (clear_question_timer s) = narrations s"
  "console (clear_question_timer s) = console s"
  "unmounted (clear_question_timer s) = unmounted s"
  "deps_timer (clear_question_timer s) = deps_timer s"
  "deps_recognition (clear_question_timer s) = deps_recognition s"
  "deps_question (clear_question_timer s) = deps_question s"
  "deps_flow (clear_question_timer s) = deps_flow s"
  "streams (clear_question_timer s) = streams s"
  "pending_gum (clear_question_timer s) = pending_gum s"
  "recordingDuration (clear_question_timer s) = recordingDuration s"
  "voiceStream (clear_question_timer s) = voiceStream s"
  "playbackIsPlaying (clear_question_timer s) = playbackIsPlaying s"
  "isContentExpanded (clear_question_timer s) = isContentExpanded s"
  "next_gen (clear_question_timer s) = next_gen s"
  "interval_on (clear_question_timer s) = interval_on s"
  by (simp_all add: clear_question_timer_def)

lemma stop_tts_source_frame [simp]:
  "question (stop_tts_source s) = question s" "dontAskRedo (stop_tts_source s) = dontAskRedo s"
  "onComplete_calls (stop_tts_source s) = onComplete_calls s"
  "flowState (stop_tts_source s) = flowState s" "transcript (stop_tts_source s) = transcript s"
  "recordedVideoUrl (stop_tts_source s) = recordedVideoUrl s"
  "recordedAudioUrl (stop_tts_source s) = recordedAudioUrl s"
  "isRecordingMedia (stop_tts_source s) = isRecordingMedia s"
  "isPaused (stop_tts_source s) = isPaused s" "nextRedoMode (stop_tts_source s) = nextRedoMode s"
  "mediaRecorderRef (stop_tts_source s) = mediaRecorderRef s"
  "recorders (stop_tts_source s) = recorders s" "isMounted (stop_tts_source s) = isMounted s"
  "console (stop_tts_source s) = console s" "unmounted (stop_tts_source s) = unmounted s"
  "deps_timer (stop_tts_source s) = deps_timer s"
  "deps_recognition (stop_tts_source s) = deps_recognition s"
  "deps_question (stop_tts_source s) = deps_question s"
  "deps_flow (stop_tts_source s) = deps_flow s" "streams (stop_tts_source s) = streams s"
  "pending_gum (stop_tts_source s) = pending_gum s"
  "recordingDuration (stop_tts_source s) = recordingDuration s"
  "voiceStream (stop_tts_source s) = voiceStream s"
  "playbackIsPlaying (stop_tts_source s) = playbackIsPlaying s"
  "isContentExpanded (stop_tts_source s) = isContentExpanded s"
  "next_gen (stop_tts_source s) = next_gen s" "interval_on (stop_tts_source s) = interval_on s"
  by (simp_all add: stop_tts_source_def split: option.splits)

lemma close_tts_context_frame [simp]:
  "question (close_tts_context s) = question s"
  "dontAskRedo (close_tts_context s) = dontAskRedo s"
  "onComplete_calls (close_tts_context s) = onComplete_calls s"
  "flowState (close_tts_context s) = flowState s"
  "transcript (close_tts_context s) = transcript s"
  "recordedVideoUrl (close_tts_context s) = recordedVideoUrl s"
  "recordedAudioUrl (close_tts_context s) = recordedAudioUrl s"
  "isRecordingMedia (close_tts_context s) = isRecordingMedia s"
  "isPaused (close_tts_context s) = isPaused s"
  "nextRedoMode (close_tts_context s) = nextRedoMode s"
  "mediaRecorderRef (close_tts_context s) = mediaRecorderRef s"
  "recorders (close_tts_context s) = recorders s" "isMounted (close_tts_context s) = isMounted s"
  "narrations (close_tts_context s) = narrations s" "console (close_tts_context s) = console s"
  "unmounted (close_tts_context s) = unmounted s"
  "deps_timer (close_tts_context s) = deps_timer s"
  "deps_recognition (close_tts_context s) = deps_recognition s"
  "deps_question (close_tts_context s) = deps_question s"
  "deps_flow (close_tts_context s) = deps_flow s" "streams (close_tts_context s) = streams s"
  "pending_gum (close_tts_context s) = pending_gum s"
  "recordingDuration (close_tts_context s) = recordingDuration s"
  "voiceStream (close_tts_context s) = voiceStream s"
  "playbackIsPlaying (close_tts_context s) = playbackIsPlaying s"
  "isContentExpanded (close_tts_context s) = isContentExpanded s"
  "next_gen (close_tts_context s) = next_gen s"
  "interval_on (close_tts_context s) = interval_on s"
  by (simp_all add: close_tts_context_def split: option.splits)

lemma stop_voice_tracks_frame [simp]:
  "question (stop_voice_tracks v s) = question s"
  "dontAskRedo (stop_voice_tracks v s) = dontAskRedo s"
  "onComplete_calls (stop_voice_tracks v s) = onComplete_calls s"
  "flowState (stop_voice_tracks v s) = flowState s"
  "transcript (stop_voice_tracks v s) = transcript s"
  "recordedVideoUrl (stop_voice_tracks v s) = recordedVideoUrl s"
  "recordedAudioUrl (stop_voice_tracks v s) = recordedAudioUrl s"
  "isRecordingMedia (stop_voice_tracks v s) = isRecordingMedia s"
  "isPaused (stop_voice_tracks v s) = isPaused s"
  "nextRedoMode (stop_voice_tracks v s) = nextRedoMode s"
  "mediaRecorderRef (stop_voice_tracks v s) = mediaRecorderRef s"
  "recorders (stop_voice_tracks v s) = recorders s"
  "isMounted (stop_voice_tracks v s) = isMounted s"
  "narrations (stop_voice_tracks v s) = narrations s"
  "console (stop_voice_tracks v s) = console s" "unmounted (stop_voice_tracks v s) = unmounted s"
  "deps_timer (stop_voice_tracks v s) = deps_timer s"
  "deps_recognition (stop_voice_tracks v s) = deps_recognition s"
  "deps_question (stop_voice_tracks v s) = deps_question s"
  "deps_flow (stop_voice_tracks v s) = deps_flow s"
  "pending_gum (stop_voice_tracks v s) = pending_gum s"
  "recordingDuration (stop_voice_tracks v s) = recordingDuration s"
  "voiceStream (stop_voice_tracks v s) = voiceStream s"
  "playbackIsPlaying (stop_voice_tracks v s) = playbackIsPlaying s"
  "isContentExpanded (stop_voice_tracks v s) = isContentExpanded s"
  "next_gen (stop_voice_tracks v s) = next_gen s"
  "interval_on (stop_voice_tracks v s) = interval_on s"
  by (simp_all add: stop_voice_tracks_def split: option.splits)

lemma question_cleanup_frame [simp]:
  "question (question_cleanup s) = question s" "dontAskRedo (question_cleanup s) = dontAskRedo s"
  "onComplete_calls (question_cleanup s) = onComplete_calls s"
  "flowState (question_cleanup s) = flowState s" "transcript (question_cleanup s) = transcript s"
  "recordedVideoUrl (question_cleanup s) = recordedVideoUrl s"
  "recordedAudioUrl (question_cleanup s) = recordedAudioUrl s"
  "isRecordingMedia (question_cleanup s) = isRecordingMedia s"
  "isPaused (question_cleanup s) = isPaused s"
  "nextRedoMode (question_cleanup s) = nextRedoMode s"
  "mediaRecorderRef (question_cleanup s) = mediaRecorderRef s"
  "recorders (question_cleanup s) = recorders s" "console (question_cleanup s) = console s"
  "unmounted (question_cleanup s) = unmounted s" "deps_timer (question_cleanup s) = deps_timer s"
  "deps_recognition (question_cleanup s) = deps_recognition s"
  "deps_question (question_cleanup s) = deps_question s"
  "deps_flow (question_cleanup s) = deps_flow s"
  "pending_gum (question_cleanup s) = pending_gum s"
  "recordingDuration (question_cleanup s) = recordingDuration s"
  "voiceStream (question_cleanup s) = voiceStream s"
  "playbackIsPlaying (question_cleanup s) = playbackIsPlaying s"
  "isContentExpanded (question_cleanup s) = isContentExpanded s"
  "next_gen (question_cleanup s) = next_gen s" "interval_on (question_cleanup s) = interval_on s"
  by (simp_all add: question_cleanup_def)

lemma timer_effect_frame [simp]:
  "question (timer_effect r s) = question s" "dontAskRedo (timer_effect r s) = dontAskRedo s"
  "onComplete_calls (timer_effect r s) = onComplete_calls s"
  "flowState (timer_effect r s) = flowState s" "transcript (timer_effect r s) = transcript s"
  "recordedVideoUrl (timer_effect r s) = recordedVideoUrl s"
  "recordedAudioUrl (timer_effect r s) = recordedAudioUrl s"
  "isRecordingMedia (timer_effect r s) = isRecordingMedia s"
  "isPaused (timer_effect r s) = isPaused s" "nextRedoMode (timer_effect r s) = nextRedoMode s"
  "mediaRecorderRef (timer_effect r s) = mediaRecorderRef s"
  "recorders (timer_effect r s) = recorders s" "isMounted (timer_effect r s) = isMounted s"
  "narrations (timer_effect r s) = narrations s" "console (timer_effect r s) = console s"
  "unmounted (timer_effect r s) = unmounted s"
  "deps_recognition (timer_effect r s) = deps_recognition s"
  "deps_question (timer_effect r s) = deps_question s"
  "deps_flow (timer_effect r s) = deps_flow s" "streams (timer_effect r s) = streams s"
  "pending_gum (timer_effect r s) = pending_gum s"
  "recordingDuration (timer_effect r s) = recordingDuration s"
  "voiceStream (timer_effect r s) = voiceStream s"
  "playbackIsPlaying (timer_effect r s) = playbackIsPlaying s"
  "isContentExpanded (timer_effect r s) = isContentExpanded s"
  "next_gen (timer_effect r s) = next_gen s"
  by (simp_all add: timer_effect_def)

lemma recognition_effect_frame [simp]:
  "question (recognition_effect r s) = question s"
  "dontAskRedo (recognition_effect r s) = dontAskRedo s"
  "onComplete_calls (recognition_effect r s) = onComplete_calls s"
  "flowState (recognition_effect r s) = flowState s"
  "transcript (recognition_effect r s) = transcript s"
  "recordedVideoUrl (recognition_effect r s) = recordedVideoUrl s"
  "recordedAudioUrl (recognition_effect r s) = recordedAudioUrl s"
  "isRecordingMedia (recognition_effect r s) = isRecordingMedia s"
  "isPaused (recognition_effect r s) = isPaused s"
  "nextRedoMode (recognition_effect r s) = nextRedoMode s"
  "mediaRecorderRef (recognition_effect r s) = mediaRecorderRef s"
  "recorders (recognition_effect r s) = recorders s"
  "isMounted (recognition_effect r s) = isMounted s"
  "narrations (recognition_effect r s) = narrations s"
  "console (recognition_effect r s) = console s"
  "unmounted (recognition_effect r s) = unmounted s"
  "deps_timer (recognition_effect r s) = deps_timer s"
  "deps_question (recognition_effect r s) = deps_question s"
  "deps_flow (recognition_effect r s) = deps_flow s"
  "streams (recognition_effect r s) = streams s"
  "pending_gum (recognition_effect r s) = pending_gum s"
  "recordingDuration (recognition_effect r s) = recordingDuration s"
  "voiceStream (recognition_effect r s) = voiceStream s"
  "playbackIsPlaying (recognition_effect r s) = playbackIsPlaying s"
  "isContentExpanded (recognition_effect r s) = isContentExpanded s"
  "next_gen (recognition_effect r s) = next_gen s"
  "interval_on (recognition_effect r s) = interval_on s"
  by (simp_all add: recognition_effect_def)

lemma flow_effect_frame [simp]:
  "question (flow_effect r s) = question s" "dontAskRedo (flow_effect r s) = dontAskRedo s"
  "onComplete_calls (flow_effect r s) = onComplete_calls s"
  "flowState (flow_effect r s) = flowState s" "transcript (flow_effect r s) = transcript s"
  "recordedVideoUrl (flow_effect r s) = recordedVideoUrl s"
  "recordedAudioUrl (flow_effect r s) = recordedAudioUrl s"
  "isPaused (flow_effect r s) = isPaused s" "nextRedoMode (flow_effect r s) = nextRedoMode s"
  "mediaRecorderRef (flow_effect r s) = mediaRecorderRef s"
  "recorders (flow_effect r s) = recorders s" "isMounted (flow_effect r s) = isMounted s"
  "narrations (flow_effect r s) = narrations s" "console (flow_effect r s) = console s"
  "unmounted (flow_effect r s) = unmounted s" "deps_timer (flow_effect r s) = deps_timer s"
  "deps_recognition (flow_effect r s) = deps_recognition s"
  "deps_question (flow_effect r s) = deps_question s"
  "recordingDuration (flow_effect r s) = recordingDuration s"
  "voiceStream (flow_effect r s) = voiceStream s"
  "playbackIsPlaying (flow_effect r s) = playbackIsPlaying s"
  "isContentExpanded (flow_effect r s) = isContentExpanded s"
  "next_gen (flow_effect r s) = next_gen s" "interval_on (flow_effect r s) = interval_on s"
  by (simp_all add: flow_effect_def Let_def)

lemma timer_phase_frame [simp]:
  "question (timer_phase r s) = question s" "dontAskRedo (timer_phase r s) = dontAskRedo s"
  "onComplete_calls (timer_phase r s) = onComplete_calls s"
  "flowState (timer_phase r s) = flowState s" "transcript (timer_phase r s) = transcript s"
  "recordedVideoUrl (timer_phase r s) = recordedVideoUrl s"
  "recordedAudioUrl (timer_phase r s) = recordedAudioUrl s"
  "isRecordingMedia (timer_phase r s) = isRecordingMedia s"
  "isPaused (timer_phase r s) = isPaused s" "nextRedoMode (timer_phase r s) = nextRedoMode s"
  "mediaRecorderRef (timer_phase r s) = mediaRecorderRef s"
  "recorders (timer_phase r s) = recorders s" "isMounted (timer_phase r s) = isMounted s"
  "narrations (timer_phase r s) = narrations s" "console (timer_phase r s) = console s"
  "unmounted (timer_phase r s) = unmounted s"
  "deps_recognition (timer_phase r s) = deps_recognition s"
  "deps_question (timer_phase r s) = deps_question s" "deps_flow (timer_phase r s) = deps_flow s"
  "streams (timer_phase r s) = streams s" "pending_gum (timer_phase r s) = pending_gum s"
  "recordingDuration (timer_phase r s) = recordingDuration s"
  "voiceStream (timer_phase r s) = voiceStream s"
  "playbackIsPlaying (timer_phase r s) = playbackIsPlaying s"
  "isContentExpanded (timer_phase r s) = isContentExpanded s"
  "next_gen (timer_phase r s) = next_gen s"
  by (simp_all add: timer_phase_def)

lemma recognition_phase_frame [simp]:
  "question (recognition_phase r s) = question s"
  "dontAskRedo (recognition_phase r s) = dontAskRedo s"
  "onComplete_calls (recognition_phase r s) = onComplete_calls s"
  "flowState (recognition_phase r s) = flowState s"
  "transcript (recognition_phase r s) = transcript s"
  "recordedVideoUrl (recognition_phase r s) = recordedVideoUrl s"
  "recordedAudioUrl (recognition_phase r s) = recordedAudioUrl s"
  "isRecordingMedia (recognition_phase r s) = isRecordingMedia s"
  "isPaused (recognition_phase r s) = isPaused s"
  "nextRedoMode (recognition_phase r s) = nextRedoMode s"
  "mediaRecorderRef (recognition_phase r s) = mediaRecorderRef s"
  "recorders (recognition_phase r s) = recorders s"
  "isMounted (recognition_phase r s) = isMounted s"
  "narrations (recognition_phase r s) = narrations s"
  "console (recognition_phase r s) = console s" "unmounted (recognition_phase r s) = unmounted s"
  "deps_timer (recognition_phase r s) = deps_timer s"
  "deps_question (recognition_phase r s) = deps_question s"
  "deps_flow (recognition_phase r s) = deps_flow s" "streams (recognition_phase r s) = streams s"
  "pending_gum (recognition_phase r s) = pending_gum s"
  "recordingDuration (recognition_phase r s) = recordingDuration s"
  "voiceStream (recognition_phase r s) = voiceStream s"
  "playbackIsPlaying (recognition_phase r s) = playbackIsPlaying s"
  "isContentExpanded (recognition_phase r s) = isContentExpanded s"
  "next_gen (recognition_phase r s) = next_gen s"
  "interval_on (recognition_phase r s) = interval_on s"
  by (simp_all add: recognition_phase_def)

lemma flow_phase_frame [simp]:
  "question (flow_phase r s) = question s" "dontAskRedo (flow_phase r s) = dontAskRedo s"
  "onComplete_calls (flow_phase r s) = onComplete_calls s"
  "flowState (flow_phase r s) = flowState s" "transcript (flow_phase r s) = transcript s"
  "recordedVideoUrl (flow_phase r s) = recordedVideoUrl s"
  "recordedAudioUrl (flow_phase r s) = recordedAudioUrl s"
  "isPaused (flow_phase r s) = isPaused s" "nextRedoMode (flow_phase r s) = nextRedoMode s"
  "mediaRecorderRef (flow_phase r s) = mediaRecorderRef s"
  "recorders (flow_phase r s) = recorders s" "isMounted (flow_phase r s) = isMounted s"
  "narrations (flow_phase r s) = narrations s" "console (flow_phase r s) = console s"
  "unmounted (flow_phase r s) = unmounted s" "deps_timer (flow_phase r s) = deps_timer s"
  "deps_recognition (flow_phase r s) = deps_recognition s"
  "deps_question (flow_phase r s) = deps_question s"
  "recordingDuration (flow_phase r s) = recordingDuration s"
  "voiceStream (flow_phase r s) = voiceStream s"
  "playbackIsPlaying (flow_phase r s) = playbackIsPlaying s"
  "isContentExpanded (flow_phase r s) = isContentExpanded s"
  "next_gen (flow_phase r s) = next_gen s" "interval_on (flow_phase r s) = interval_on s"
  by (simp_all add: flow_phase_def)

lemma cleanup_phase_frame [simp]:
  "question (cleanup_phase r s) = question s" "dontAskRedo (cleanup_phase r s) = dontAskRedo s"
  "onComplete_calls (cleanup_phase r s) = onComplete_calls s"
  "flowState (cleanup_phase r s) = flowState s" "transcript (cleanup_phase r s) = transcript s"
  "recordedVideoUrl (cleanup_phase r s) = recordedVideoUrl s"
  "recordedAudioUrl (cleanup_phase r s) = recordedAudioUrl s"
  "isRecordingMedia (cleanup_phase r s) = isRecordingMedia s"
  "isPaused (cleanup_phase r s) = isPaused s" "nextRedoMode (cleanup_phase r s) = nextRedoMode s"
  "mediaRecorderRef (cleanup_phase r s) = mediaRecorderRef s"
  "recorders (cleanup_phase r s) = recorders s" "console (cleanup_phase r s) = console s"
  "unmounted (cleanup_phase r s) = unmounted s" "deps_timer (cleanup_phase r s) = deps_timer s"
  "deps_recognition (cleanup_phase r s) = deps_recognition s"
  "deps_question (cleanup_phase r s) = deps_question s"
  "deps_flow (cleanup_phase r s) = deps_flow s" "pending_gum (cleanup_phase r s) = pending_gum s"
  "recordingDuration (cleanup_phase r s) = recordingDuration s"
  "voiceStream (cleanup_phase r s) = voiceStream s"
  "playbackIsPlaying (cleanup_phase r s) = playbackIsPlaying s"
  "isContentExpanded (cleanup_phase r s) = isContentExpanded s"
  "next_gen (cleanup_phase r s) = next_gen s" "interval_on (cleanup_phase r s) = interval_on s"
  by (simp_all add: cleanup_phase_def)

lemma question_phase_frame [simp]:
  "question (question_phase r s) = question s" "dontAskRedo (question_phase r s) = dontAskRedo s"
  "onComplete_calls (question_phase r s) = onComplete_calls s"
  "isRecordingMedia (question_phase r s) = isRecordingMedia s"
  "nextRedoMode (question_phase r s) = nextRedoMode s"
  "mediaRecorderRef (question_phase r s) = mediaRecorderRef s"
  "recorders (question_phase r s) = recorders s" "narrations (question_phase r s) = narrations s"
  "console (question_phase r s) = console s" "unmounted (question_phase r s) = unmounted s"
  "deps_timer (question_phase r s) = deps_timer s"
  "deps_recognition (question_phase r s) = deps_recognition s"
  "deps_flow (question_phase r s) = deps_flow s" "streams (question_phase r s) = streams s"
  "pending_gum (question_phase r s) = pending_gum s"
  "playbackIsPlaying (question_phase r s) = playbackIsPlaying s"
  "isContentExpanded (question_phase r s) = isContentExpanded s"
  "interval_on (question_phase r s) = interval_on s"
  by (simp_all add: question_phase_def question_effect_def)

lemma new_context_frame [simp]:
  "onComplete_calls (new_context s) = onComplete_calls s"
  "unmounted (new_context s) = unmounted s" "question (new_context s) = question s"
  "deps_timer (new_context s) = deps_timer s"
  "deps_recognition (new_context s) = deps_recognition s"
  "deps_question (new_context s) = deps_question s" "deps_flow (new_context s) = deps_flow s"
  "flowState (new_context s) = flowState s"
  "mediaRecorderRef (new_context s) = mediaRecorderRef s"
  "recorders (new_context s) = recorders s"
  "recordedVideoUrl (new_context s) = recordedVideoUrl s"
  "recordedAudioUrl (new_context s) = recordedAudioUrl s"
  "interval_on (new_context s) = interval_on s" "isPaused (new_context s) = isPaused s"
  "isMounted (new_context s) = isMounted s" "narrations (new_context s) = narrations s"
  by (simp_all add: new_context_def)

lemma play_source_frame [simp]:
  "onComplete_calls (play_source n s) = onComplete_calls s"
  "unmounted (play_source n s) = unmounted s" "question (play_source n s) = question s"
  "deps_timer (play_source n s) = deps_timer s"
  "deps_recognition (play_source n s) = deps_recognition s"
  "deps_question (play_source n s) = deps_question s" "deps_flow (play_source n s) = deps_flow s"
  "flowState (play_source n s) = flowState s"
  "mediaRecorderRef (play_source n s) = mediaRecorderRef s"
  "recorders (play_source n s) = recorders s"
  "recordedVideoUrl (play_source n s) = recordedVideoUrl s"
  "recordedAudioUrl (play_source n s) = recordedAudioUrl s"
  "interval_on (play_source n s) = interval_on s" "isPaused (play_source n s) = isPaused s"
  "isMounted (play_source n s) = isMounted s"
  by (simp_all add: play_source_def)

lemma fallbackSynthesis_frame [simp]:
  "onComplete_calls (fallbackSynthesis n s) = onComplete_calls s"
  "unmounted (fallbackSynthesis n s) = unmounted s"
  "question (fallbackSynthesis n s) = question s"
  "deps_timer (fallbackSynthesis n s) = deps_timer s"
  "deps_recognition (fallbackSynthesis n s) = deps_recognition s"
  "deps_question (fallbackSynthesis n s) = deps_question s"
  "deps_flow (fallbackSynthesis n s) = deps_flow s"
  "flowState (fallbackSynthesis n s) = flowState s"
  "mediaRecorderRef (fallbackSynthesis n s) = mediaRecorderRef s"
  "recorders (fallbackSynthesis n s) = recorders s"
  "recordedVideoUrl (fallbackSynthesis n s) = recordedVideoUrl s"
  "recordedAudioUrl (fallbackSynthesis n s) = recordedAudioUrl s"
  "interval_on (fallbackSynthesis n s) = interval_on s"
  "isPaused (fallbackSynthesis n s) = isPaused s"
  "isMounted (fallbackSynthesis n s) = isMounted s"
  by (simp_all add: fallbackSynthesis_def)

lemma fallbackRedoSpeech_frame [simp]:
  "onComplete_calls (fallbackRedoSpeech n s) = onComplete_calls s"
  "unmounted (fallbackRedoSpeech n s) = unmounted s"
  "question (fallbackRedoSpeech n s) = question s"
  "deps_timer (fallbackRedoSpeech n s) = deps_timer s"
  "deps_recognition (fallbackRedoSpeech n s) = deps_recognition s"
  "deps_question (fallbackRedoSpeech n s) = deps_question s"
  "deps_flow (fallbackRedoSpeech n s) = deps_flow s"
  "flowState (fallbackRedoSpeech n s) = flowState s"
  "mediaRecorderRef (fallbackRedoSpeech n s) = mediaRecorderRef s"
  "recorders (fallbackRedoSpeech n s) = recorders s"
  "recordedVideoUrl (fallbackRedoSpeech n s) = recordedVideoUrl s"
  "recordedAudioUrl (fallbackRedoSpeech n s) = recordedAudioUrl s"
  "interval_on (fallbackRedoSpeech n s) = interval_on s"
  "isPaused (fallbackRedoSpeech n s) = isPaused s"
  "isMounted (fallbackRedoSpeech n s) = isMounted s"
  by (simp_all add: fallbackRedoSpeech_def)

lemma startRecording_rest_frame [simp]:
  "onComplete_calls (startRecording_rest mode stream s) = onComplete_calls s"
  "unmounted (startRecording_rest mode stream s) = unmounted s"
  "question (startRecording_rest mode stream s) = question s"
  "deps_timer (startRecording_rest mode stream s) = deps_timer s"
  "deps_recognition (startRecording_rest mode stream s) = deps_recognition s"
  "deps_question (startRecording_rest mode stream s) = deps_question s"
  "deps_flow (startRecording_rest mode stream s) = deps_flow s"
  "recordedVideoUrl (startRecording_rest mode stream s) = recordedVideoUrl s"
  "recordedAudioUrl (startRecording_rest mode stream s) = recordedAudioUrl s"
  "interval_on (startRecording_rest mode stream s) = interval_on s"
  "isMounted (startRecording_rest mode stream s) = isMounted s"
  "narrations (startRecording_rest mode stream s) = narrations s"
  by (simp_all add: startRecording_rest_def Let_def)

lemma startRecording_frame [simp]:
  "onComplete_calls (startRecording mode s) = onComplete_calls s"
  "unmounted (startRecording mode s) = unmounted s"
  "question (startRecording mode s) = question s"
  "deps_timer (startRecording mode s) = deps_timer s"
  "deps_recognition (startRecording mode s) = deps_recognition s"
  "deps_question (startRecording mode s) = deps_question s"
  "deps_flow (startRecording mode s) = deps_flow s"
  "recordedVideoUrl (startRecording mode s) = recordedVideoUrl s"
  "recordedAudioUrl (startRecording mode s) = recordedAudioUrl s"
  "interval_on (startRecording mode s) = interval_on s"
  "isMounted (startRecording mode s) = isMounted s"
  "narrations (startRecording mode s) = narrations s"
  by (simp_all add: startRecording_def split: option.splits)

lemma stopRecordingMedia_frame [simp]:
  "onComplete_calls (stopRecordingMedia s) = onComplete_calls s"
  "unmounted (stopRecordingMedia s) = unmounted s" "question (stopRecordingMedia s) = question s"
  "deps_timer (stopRecordingMedia s) = deps_timer s"
  "deps_recognition (stopRecordingMedia s) = deps_recognition s"
  "deps_question (stopRecordingMedia s) = deps_question s"
  "deps_flow (stopRecordingMedia s) = deps_flow s"
  "mediaRecorderRef (stopRecordingMedia s) = mediaRecorderRef s"
  "recordedVideoUrl (stopRecordingMedia s) = recordedVideoUrl s"
  "recordedAudioUrl (stopRecordingMedia s) = recordedAudioUrl s"
  "interval_on (stopRecordingMedia s) = interval_on s"
  "isPaused (stopRecordingMedia s) = isPaused s" "isMounted (stopRecordingMedia s) = isMounted s"
  "narrations (stopRecordingMedia s) = narrations s"
  by (simp_all add: stopRecordingMedia_def split: option.splits)

lemma togglePause_frame [simp]:
  "onComplete_calls (togglePause s) = onComplete_calls s"
  "unmounted (togglePause s) = unmounted s" "question (togglePause s) = question s"
  "deps_timer (togglePause s) = deps_timer s"
  "deps_recognition (togglePause s) = deps_recognition s"
  "deps_question (togglePause s) = deps_question s" "deps_flow (togglePause s) = deps_flow s"
  "flowState (togglePause s) = flowState s"
  "mediaRecorderRef (togglePause s) = mediaRecorderRef s"
  "recordedVideoUrl (togglePause s) = recordedVideoUrl s"
  "recordedAudioUrl (togglePause s) = recordedAudioUrl s"
  "interval_on (togglePause s) = interval_on s" "isMounted (togglePause s) = isMounted s"
  "narrations (togglePause s) = narrations s"
  by (simp_all add: togglePause_def Let_def split: option.splits)

lemma startNextMode_frame [simp]:
  "onComplete_calls (startNextMode mode s) = onComplete_calls s"
  "unmounted (startNextMode mode s) = unmounted s" "question (startNextMode mode s) = question s"
  "deps_timer (startNextMode mode s) = deps_timer s"
  "deps_recognition (startNextMode mode s) = deps_recognition s"
  "deps_question (startNextMode mode s) = deps_question s"
  "deps_flow (startNextMode mode s) = deps_flow s"
  "mediaRecorderRef (startNextMode mode s) = mediaRecorderRef s"
  "recorders (startNextMode mode s) = recorders s"
  "recordedVideoUrl (startNextMode mode s) = recordedVideoUrl s"
  "recordedAudioUrl (startNextMode mode s) = recordedAudioUrl s"
  "interval_on (startNextMode mode s) = interval_on s"
  "isPaused (startNextMode mode s) = isPaused s" "isMounted (startNextMode mode s) = isMounted s"
  "narrations (startNextMode mode s) = narrations s"
  by (simp_all add: startNextMode_def startRecording_def split: RedoMode.splits)

lemma performRedo_frame [simp]:
  "onComplete_calls (performRedo mode s) = onComplete_calls s"
  "unmounted (performRedo mode s) = unmounted s" "question (performRedo mode s) = question s"
  "deps_timer (performRedo mode s) = deps_timer s"
  "deps_recognition (performRedo mode s) = deps_recognition s"
  "deps_question (performRedo mode s) = deps_question s"
  "deps_flow (performRedo mode s) = deps_flow s"
  "mediaRecorderRef (performRedo mode s) = mediaRecorderRef s"
  "recorders (performRedo mode s) = recorders s"
  "interval_on (performRedo mode s) = interval_on s" "isPaused (performRedo mode s) = isPaused s"
  "isMounted (performRedo mode s) = isMounted s"
  by (simp_all add: performRedo_def Let_def)

lemma initiateRedo_frame [simp]:
  "onComplete_calls (initiateRedo mode s) = onComplete_calls s"
  "unmounted (initiateRedo mode s) = unmounted s" "question (initiateRedo mode s) = question s"
  "deps_timer (initiateRedo mode s) = deps_timer s"
  "deps_recognition (initiateRedo mode s) = deps_recognition s"
  "deps_question (initiateRedo mode s) = deps_question s"
  "deps_flow (initiateRedo mode s) = deps_flow s"
  "mediaRecorderRef (initiateRedo mode s) = mediaRecorderRef s"
  "recorders (initiateRedo mode s) = recorders s"
  "interval_on (initiateRedo mode s) = interval_on s"
  "isPaused (initiateRedo mode s) = isPaused s" "isMounted (initiateRedo mode s) = isMounted s"
  by (simp_all add: initiateRedo_def)

lemma handlePlayPause_frame [simp]:
  "onComplete_calls (handlePlayPause s) = onComplete_calls s"
  "unmounted (handlePlayPause s) = unmounted s" "question (handlePlayPause s) = question s"
  "deps_timer (handlePlayPause s) = deps_timer s"
  "deps_recognition (handlePlayPause s) = deps_recognition s"
  "deps_question (handlePlayPause s) = deps_question s"
  "deps_flow (handlePlayPause s) = deps_flow s" "flowState (handlePlayPause s) = flowState s"
  "mediaRecorderRef (handlePlayPause s) = mediaRecorderRef s"
  "recorders (handlePlayPause s) = recorders s"
  "recordedVideoUrl (handlePlayPause s) = recordedVideoUrl s"
  "recordedAudioUrl (handlePlayPause s) = recordedAudioUrl s"
  "interval_on (handlePlayPause s) = interval_on s" "isPaused (handlePlayPause s) = isPaused s"
  "isMounted (handlePlayPause s) = isMounted s" "narrations (handlePlayPause s) = narrations s"
  by (simp_all add: handlePlayPause_def Let_def split: option.splits)

lemma narration_ended_frame [simp]:
  "onComplete_calls (narration_ended ow s) = onComplete_calls s"
  "unmounted (narration_ended ow s) = unmounted s" "question (narration_ended ow s) = question s"
  "deps_timer (narration_ended ow s) = deps_timer s"
  "deps_recognition (narration_ended ow s) = deps_recognition s"
  "deps_question (narration_ended ow s) = deps_question s"
  "deps_flow (narration_ended ow s) = deps_flow s"
  "mediaRecorderRef (narration_ended ow s) = mediaRecorderRef s"
  "recorders (narration_ended ow s) = recorders s"
  "recordedVideoUrl (narration_ended ow s) = recordedVideoUrl s"
  "recordedAudioUrl (narration_ended ow s) = recordedAudioUrl s"
  "interval_on (narration_ended ow s) = interval_on s"
  "isPaused (narration_ended ow s) = isPaused s" "isMounted (narration_ended ow s) = isMounted s"
  "narrations (narration_ended ow s) = narrations s"
  by (simp_all add: narration_ended_def split: NarrationOwner.splits)

lemma speech_generated_frame [simp]:
  "onComplete_calls (speech_generated n res s) = onComplete_calls s"
  "unmounted (speech_generated n res s) = unmounted s"
  "question (speech_generated n res s) = question s"
  "deps_timer (speech_generated n res s) = deps_timer s"
  "deps_recognition (speech_generated n res s) = deps_recognition s"
  "deps_question (speech_generated n res s) = deps_question s"
  "deps_flow (speech_generated n res s) = deps_flow s"
  "flowState (speech_generated n res s) = flowState s"
  "mediaRecorderRef (speech_generated n res s) = mediaRecorderRef s"
  "recorders (speech_generated n res s) = recorders s"
  "recordedVideoUrl (speech_generated n res s) = recordedVideoUrl s"
  "recordedAudioUrl (speech_generated n res s) = recordedAudioUrl s"
  "interval_on (speech_generated n res s) = interval_on s"
  "isPaused (speech_generated n res s) = isPaused s"
  "isMounted (speech_generated n res s) = isMounted s"
  by (simp_all add: speech_generated_def split: NarrationOwner.splits SpeechResult.splits)

lemma gum_resolved_frame [simp]:
  "onComplete_calls (gum_resolved k s) = onComplete_calls s"
  "unmounted (gum_resolved k s) = unmounted s" "question (gum_resolved k s) = question s"
  "deps_timer (gum_resolved k s) = deps_timer s"
  "deps_recognition (gum_resolved k s) = deps_recognition s"
  "deps_question (gum_resolved k s) = deps_question s"
  "deps_flow (gum_resolved k s) = deps_flow s"
  "recordedVideoUrl (gum_resolved k s) = recordedVideoUrl s"
  "recordedAudioUrl (gum_resolved k s) = recordedAudioUrl s"
  "interval_on (gum_resolved k s) = interval_on s" "isMounted (gum_resolved k s) = isMounted s"
  "narrations (gum_resolved k s) = narrations s"
  by (simp_all add: gum_resolved_def Let_def split: GumRequest.splits)

lemma gum_rejected_frame [simp]:
  "onComplete_calls (gum_rejected k s) = onComplete_calls s"
  "unmounted (gum_rejected k s) = unmounted s" "question (gum_rejected k s) = question s"
  "deps_timer (gum_rejected k s) = deps_timer s"
  "deps_recognition (gum_rejected k s) = deps_recognition s"
  "deps_question (gum_rejected k s) = deps_question s"
  "deps_flow (gum_rejected k s) = deps_flow s" "flowState (gum_rejected k s) = flowState s"
  "mediaRecorderRef (gum_rejected k s) = mediaRecorderRef s"
  "recorders (gum_rejected k s) = recorders s"
  "recordedVideoUrl (gum_rejected k s) = recordedVideoUrl s"
  "recordedAudioUrl (gum_rejected k s) = recordedAudioUrl s"
  "interval_on (gum_rejected k s) = interval_on s" "isPaused (gum_rejected k s) = isPaused s"
  "isMounted (gum_rejected k s) = isMounted s" "narrations (gum_rejected k s) = narrations s"
  by (simp_all add: gum_rejected_def Let_def split: GumRequest.splits)

lemma recorder_onstop_frame [simp]:
  "onComplete_calls (recorder_onstop m u s) = onComplete_calls s"
  "unmounted (recorder_onstop m u s) = unmounted s"
  "question (recorder_onstop m u s) = question s"
  "deps_timer (recorder_onstop m u s) = deps_timer s"
  "deps_recognition (recorder_onstop m u s) = deps_recognition s"
  "deps_question (recorder_onstop m u s) = deps_question s"
  "deps_flow (recorder_onstop m u s) = deps_flow s"
  "flowState (recorder_onstop m u s) = flowState s"
  "mediaRecorderRef (recorder_onstop m u s) = mediaRecorderRef s"
  "interval_on (recorder_onstop m u s) = interval_on s"
  "isPaused (recorder_onstop m u s) = isPaused s"
  "isMounted (recorder_onstop m u s) = isMounted s"
  "narrations (recorder_onstop m u s) = narrations s"
  by (simp_all add: recorder_onstop_def Let_def)

lemma recognition_onresult_frame [simp]:
  "onComplete_calls (recognition_onresult results s) = onComplete_calls s"
  "unmounted (recognition_onresult results s) = unmounted s"
  "question (recognition_onresult results s) = question s"
  "deps_timer (recognition_onresult results s) = deps_timer s"
  "deps_recognition (recognition_onresult results s) = deps_recognition s"
  "deps_question (recognition_onresult results s) = deps_question s"
  "deps_flow (recognition_onresult results s) = deps_flow s"
  "flowState (recognition_onresult results s) = flowState s"
  "mediaRecorderRef (recognition_onresult results s) = mediaRecorderRef s"
  "recorders (recognition_onresult results s) = recorders s"
  "recordedVideoUrl (recognition_onresult results s) = recordedVideoUrl s"
  "recordedAudioUrl (recognition_onresult results s) = recordedAudioUrl s"
  "interval_on (recognition_onresult results s) = interval_on s"
  "isPaused (recognition_onresult results s) = isPaused s"
  "isMounted (recognition_onresult results s) = isMounted s"
  "narrations (recognition_onresult results s) = narrations s"
  by (simp_all add: recognition_onresult_def)

lemma recognition_onend_frame [simp]:
  "onComplete_calls (recognition_onend r s) = onComplete_calls s"
  "unmounted (recognition_onend r s) = unmounted s"
  "question (recognition_onend r s) = question s"
  "deps_timer (recognition_onend r s) = deps_timer s"
  "deps_recognition (recognition_onend r s) = deps_recognition s"
  "deps_question (recognition_onend r s) = deps_question s"
  "deps_flow (recognition_onend r s) = deps_flow s"
  "flowState (recognition_onend r s) = flowState s"
  "mediaRecorderRef (recognition_onend r s) = mediaRecorderRef s"
  "recorders (recognition_onend r s) = recorders s"
  "recordedVideoUrl (recognition_onend r s) = recordedVideoUrl s"
  "recordedAudioUrl (recognition_onend r s) = recordedAudioUrl s"
  "interval_on (recognition_onend r s) = interval_on s"
  "isPaused (recognition_onend r s) = isPaused s"
  "isMounted (recognition_onend r s) = isMounted s"
  "narrations (recognition_onend r s) = narrations s"
  by (simp_all add: recognition_onend_def Let_def split: option.splits)

lemma fire_frame [simp]:
  "onComplete_calls (fire e s) = onComplete_calls s"
  "unmounted (fire e s) = unmounted s"
  "deps_timer (fire e s) = deps_timer s"
  "deps_recognition (fire e s) = deps_recognition s"
  "deps_question (fire e s) = deps_question s"
  "deps_flow (fire e s) = deps_flow s"
  "interval_on (fire e s) = interval_on s"
  by (cases e; simp add: handleVoiceStart_def handleTypingDone_def split: option.splits)+

subsection \<open>Rendering settles\<close>

lemma phase_values [simp]:
  "deps_timer (timer_phase r s) =
     (if deps_timer r \<noteq> Some (flowState r, isPaused r) then Some (flowState r, isPaused r) else deps_timer s)"
  "deps_recognition (recognition_phase r s) =
     (if deps_recognition r \<noteq> Some (isRecordingMedia r, isPaused r, flowState r)
      then Some (isRecordingMedia r, isPaused r, flowState r) else deps_recognition s)"
  "deps_question (question_phase r s) =
     (if deps_question r \<noteq> Some (question r) then Some (question r) else deps_question s)"
  "deps_flow (flow_phase r s) =
     (if deps_flow r \<noteq> Some (flowState r) then Some (flowState r) else deps_flow s)"
  "isRecordingMedia (flow_phase r s) =
     (if deps_flow r \<noteq> Some (flowState r)
      then (flowState r = RECORDING_VOICE \<or> flowState r = RECORDING_CAMERA) else isRecordingMedia s)"
  "flowState (question_phase r s) =
     (if deps_question r \<noteq> Some (question r) then READING else flowState s)"
  "isPaused (question_phase r s) =
     (if deps_question r \<noteq> Some (question r) then False else isPaused s)"
  by (simp_all add: timer_phase_def timer_effect_def recognition_phase_def recognition_effect_def
        question_phase_def question_effect_def flow_phase_def flow_effect_def Let_def)

lemma render_pass_deps:
  "deps_timer (render_pass s) = Some (flowState s, isPaused s)"
  "deps_recognition (render_pass s) = Some (isRecordingMedia s, isPaused s, flowState s)"
  "deps_question (render_pass s) = Some (question s)"
  "deps_flow (render_pass s) = Some (flowState s)"
  "question (render_pass s) = question s"
  by (simp_all add: render_pass_def)

lemma render_pass_same_question:
  assumes "deps_question s = Some (question s)"
  shows "flowState (render_pass s) = flowState s"
    and "isPaused (render_pass s) = isPaused s"
    and "isRecordingMedia (render_pass s) =
           (if deps_flow s \<noteq> Some (flowState s)
            then (flowState s = RECORDING_VOICE \<or> flowState s = RECORDING_CAMERA)
            else isRecordingMedia s)"
  using assms by (simp_all add: render_pass_def)

lemma settled_render_pass: "settled s \<Longrightarrow> render_pass s = s"
  by (simp add: settled_def render_pass_def cleanup_phase_def timer_phase_def
        recognition_phase_def question_phase_def flow_phase_def)

lemma settled_commit_id: "settled s \<Longrightarrow> commit s = s"
  by (simp add: commit_def settled_render_pass)

lemma settled_commit: "settled (commit s)"
proof -
  define s1 where "s1 = render_pass s"
  define s2 where "s2 = render_pass s1"
  define s3 where "s3 = render_pass s2"
  have q1: "deps_question s1 = Some (question s1)"
    by (simp add: s1_def render_pass_deps)
  have q2: "deps_question s2 = Some (question s2)"
    by (simp add: s2_def render_pass_deps)
  have f2: "deps_flow s2 = Some (flowState s2)"
    using render_pass_same_question(1)[OF q1] by (simp add: s2_def render_pass_deps)
  have "flowState s3 = flowState s2" "isPaused s3 = isPaused s2"
       "isRecordingMedia s3 = isRecordingMedia s2"
    using render_pass_same_question[OF q2] f2 by (simp_all add: s3_def)
  then have "settled s3"
    by (simp add: settled_def s3_def render_pass_deps)
  then show ?thesis by (simp add: commit_def s1_def s2_def s3_def)
qed

lemma commit_frame:
  "onComplete_calls (commit s) = onComplete_calls s"
  "unmounted (commit s) = unmounted s"
  "question (commit s) = question s"
  "dontAskRedo (commit s) = dontAskRedo s"
  "mediaRecorderRef (commit s) = mediaRecorderRef s"
  "recorders (commit s) = recorders s"
  "console (commit s) = console s"
  "nextRedoMode (commit s) = nextRedoMode s"
  "playbackIsPlaying (commit s) = playbackIsPlaying s"
  "isContentExpanded (commit s) = isContentExpanded s"
  by (simp_all add: commit_def render_pass_def)

lemma render_pass_keeps:
  assumes "deps_question s = Some (question s)"
  shows "transcript (render_pass s) = transcript s"
    and "recordedVideoUrl (render_pass s) = recordedVideoUrl s"
    and "recordedAudioUrl (render_pass s) = recordedAudioUrl s"
    and "isMounted (render_pass s) = isMounted s"
    and "narrations (render_pass s) = narrations s"
    and "recordingDuration (render_pass s) = recordingDuration s"
    and "voiceStream (render_pass s) = voiceStream s"
    and "next_gen (render_pass s) = next_gen s"
  using assms by (simp_all add: render_pass_def cleanup_phase_def question_phase_def)

lemma commit_keeps:
  assumes "deps_question s = Some (question s)"
  shows "flowState (commit s) = flowState s"
    and "isPaused (commit s) = isPaused s"
    and "transcript (commit s) = transcript s"
    and "recordedVideoUrl (commit s) = recordedVideoUrl s"
    and "recordedAudioUrl (commit s) = recordedAudioUrl s"
    and "isMounted (commit s) = isMounted s"
    and "narrations (commit s) = narrations s"
    and "recordingDuration (commit s) = recordingDuration s"
    and "voiceStream (commit s) = voiceStream s"
    and "next_gen (commit s) = next_gen s"
proof -
  have q1: "deps_question (render_pass s) = Some (question (render_pass s))"
    by (simp add: render_pass_deps)
  have q2: "deps_question (render_pass (render_pass s)) = Some (question (render_pass (render_pass s)))"
    by (simp add: render_pass_deps)
  show "flowState (commit s) = flowState s"
    and "isPaused (commit s) = isPaused s"
    and "transcript (commit s) = transcript s"
    and "recordedVideoUrl (commit s) = recordedVideoUrl s"
    and "recordedAudioUrl (commit s) = recordedAudioUrl s"
    and "isMounted (commit s) = isMounted s"
    and "narrations (commit s) = narrations s"
    and "recordingDuration (commit s) = recordingDuration s"
    and "voiceStream (commit s) = voiceStream s"
    and "next_gen (commit s) = next_gen s"
    by (simp_all add: commit_def render_pass_same_question[OF q2] render_pass_same_question[OF q1]
          render_pass_same_question[OF assms] render_pass_keeps[OF q2] render_pass_keeps[OF q1]
          render_pass_keeps[OF assms])
qed

subsection \<open>Settled states and denied permissions\<close>

lemma settled_unmount: "settled s \<Longrightarrow> settled (unmount s)"
  by (simp add: settled_def unmount_def)

lemma settled_step: "settled s \<Longrightarrow> settled (step s e)"
  by (simp add: step_def settled_unmount settled_commit)

lemma settled_mount: "settled (mount q d supported)"
  by (simp add: mount_def settled_commit)

lemma settled_run: "settled s \<Longrightarrow> settled (run s es)"
  unfolding run_def by (induction es arbitrary: s) (simp_all add: settled_step)

lemma step_settled_fire:
  assumes "settled s" "\<not> unmounted s" "e \<noteq> Unmount"
    and "flowState (fire e s) = flowState s" "isPaused (fire e s) = isPaused s"
    and "isRecordingMedia (fire e s) = isRecordingMedia s" "question (fire e s) = question s"
  shows "step s e = fire e s"
proof -
  have "settled (fire e s)"
    using assms by (simp add: settled_def)
  then show ?thesis using assms by (simp add: step_def settled_commit_id)
qed

text \<open>
  Claim C9. When the permission prompt of a pending \<^verbatim>\<open>getUserMedia\<close> call is denied, the
  \<^verbatim>\<open>catch\<close> block of the caller logs the failure and nothing else happens: the
  component is as before but for the settled promise and the console line, so the flow
  state is the one it had, no recorder exists that did not exist, and no stream was
  opened.
\<close>

theorem permission_denied:
  assumes "settled s" and "\<not> unmounted s" and "k < length (pending_gum s)"
  shows "step s (GumRejected k) =
           s\<lparr>pending_gum := remove_nth k (pending_gum s),
             console := console s @
               [if pending_gum s ! k = ForCamera then ''Camera access failed''
                else ''Recording start failed'']\<rparr>"
proof -
  let ?s' = "s\<lparr>pending_gum := remove_nth k (pending_gum s),
             console := console s @
               [if pending_gum s ! k = ForCamera then ''Camera access failed''
                else ''Recording start failed'']\<rparr>"
  have f: "fire (GumRejected k) s = ?s'"
    using assms(3) by (cases "pending_gum s ! k") (simp_all add: gum_rejected_def)
  have "settled ?s'"
    using assms(1) by (simp add: settled_def)
  then have "commit ?s' = ?s'"
    by (rule settled_commit_id)
  with f assms(2) show ?thesis
    by (simp only: step_def) simp
qed

theorem permission_denied_witness:
  "settled (run (mount example_question False True) (narrated @ [ClickMic])) \<and>
   \<not> unmounted (run (mount example_question False True) (narrated @ [ClickMic])) \<and>
   0 < length (pending_gum (run (mount example_question False True) (narrated @ [ClickMic]))) \<and>
   flowState (step (run (mount example_question False True) (narrated @ [ClickMic])) (GumRejected 0))
     = INPUT_SELECTION \<and>
   recorders (step (run (mount example_question False True) (narrated @ [ClickMic])) (GumRejected 0)) = [] \<and>
   streams (step (run (mount example_question False True) (narrated @ [ClickMic])) (GumRejected 0)) = [] \<and>
   console (step (run (mount example_question False True) (narrated @ [ClickMic])) (GumRejected 0))
     = [''Recording start failed'']"
proof -
  let ?S = "run (mount example_question False True) (narrated @ [ClickMic])"
  have h1: "settled ?S" by code_simp
  have h2: "\<not> unmounted ?S" by code_simp
  have h3: "0 < length (pending_gum ?S)" by code_simp
  have v: "flowState ?S = INPUT_SELECTION" "recorders ?S = []" "streams ?S = []" "console ?S = []"
    "pending_gum ?S ! 0 = ForVoiceRecording"
    by code_simp+
  from permission_denied[OF h1 h2 h3] h1 h2 h3 v show ?thesis by simp
qed

subsection \<open>Redo\<close>

lemma fire_question [simp]: "question (fire e s) = (case e of QuestionChanged q \<Rightarrow> q | _ \<Rightarrow> question s)"
  by (cases e) (simp_all add: handleVoiceStart_def handleTypingDone_def split: option.splits)

declare fire.simps [simp del]

lemma step_commit: "\<not> unmounted s \<Longrightarrow> e \<noteq> Unmount \<Longrightarrow> step s e = commit (fire e s)"
  by (simp add: step_def)

lemma fire_same_question:
  "settled s \<Longrightarrow> \<forall>q. e \<noteq> QuestionChanged q \<Longrightarrow> deps_question (fire e s) = Some (question (fire e s))"
  by (cases e) (simp_all add: settled_def)

lemma fire_ClickRedo: "flowState s = REVIEW \<Longrightarrow> fire (ClickRedo mode) s = initiateRedo mode s"
  and fire_ClickCancel: "flowState s = REDO_CONFIRM \<Longrightarrow> fire ClickCancel s = s\<lparr>flowState := REVIEW\<rparr>"
  and fire_ClickYes: "flowState s = REDO_CONFIRM \<Longrightarrow> nextRedoMode s = Some mode \<Longrightarrow> fire ClickYes s = performRedo mode s"
  by (simp_all add: fire.simps)

lemma performRedo_values:
  "flowState (performRedo mode s) = READING"
  "transcript (performRedo mode s) = []"
  "recordedVideoUrl (performRedo mode s) = None"
  "recordedAudioUrl (performRedo mode s) = None"
  "narrations (performRedo mode s) =
     narrations (speechSynthesis_cancel s) @ [\<lparr>owner = RedoAction mode, stage = AwaitingSpeech\<rparr>]"
  "nextRedoMode (performRedo mode s) = nextRedoMode s"
  by (simp_all add: performRedo_def Let_def speechSynthesis_cancel_def)

text \<open>
  Claim C6. A redo requested from REVIEW: with \<^verbatim>\<open>dontAskRedo\<close> set, the redo runs at
  once (the answer is erased, the flow is READING, a narration of the redo starts); with
  it unset, the flow is REDO_CONFIRM with the requested mode remembered and nothing
  erased or narrated, from where Cancel returns to REVIEW and Yes runs the redo.
\<close>

theorem redo_confirmation:
  assumes "settled s" and "\<not> unmounted s" and "flowState s = REVIEW"
  shows "(dontAskRedo s \<longrightarrow>
           flowState (step s (ClickRedo mode)) = READING \<and>
           transcript (step s (ClickRedo mode)) = [] \<and>
           recordedVideoUrl (step s (ClickRedo mode)) = None \<and>
           recordedAudioUrl (step s (ClickRedo mode)) = None \<and>
           narrations (step s (ClickRedo mode)) =
             narrations (speechSynthesis_cancel s) @
               [\<lparr>owner = RedoAction mode, stage = AwaitingSpeech\<rparr>]) \<and>
         (\<not> dontAskRedo s \<longrightarrow>
           flowState (step s (ClickRedo mode)) = REDO_CONFIRM \<and>
           nextRedoMode (step s (ClickRedo mode)) = Some mode \<and>
           transcript (step s (ClickRedo mode)) = transcript s \<and>
           recordedVideoUrl (step s (ClickRedo mode)) = recordedVideoUrl s \<and>
           recordedAudioUrl (step s (ClickRedo mode)) = recordedAudioUrl s \<and>
           narrations (step s (ClickRedo mode)) = narrations s \<and>
           flowState (step (step s (ClickRedo mode)) ClickCancel) = REVIEW \<and>
           narrations (step (step s (ClickRedo mode)) ClickCancel) = narrations s \<and>
           flowState (step (step s (ClickRedo mode)) ClickYes) = READING \<and>
           transcript (step (step s (ClickRedo mode)) ClickYes) = [] \<and>
           recordedVideoUrl (step (step s (ClickRedo mode)) ClickYes) = None \<and>
           recordedAudioUrl (step (step s (ClickRedo mode)) ClickYes) = None \<and>
           narrations (step (step s (ClickRedo mode)) ClickYes) =
             narrations (speechSynthesis_cancel s) @
               [\<lparr>owner = RedoAction mode, stage = AwaitingSpeech\<rparr>])"
proof -
  let ?s1 = "step s (ClickRedo mode)"
  have s1: "?s1 = commit (fire (ClickRedo mode) s)"
    using assms(2) by (simp add: step_commit)
  have q1: "deps_question s = Some (question s)"
    using assms(1) by (simp add: settled_def)
  note k1 = commit_keeps commit_frame
  have A: "dontAskRedo s \<longrightarrow>
           flowState ?s1 = READING \<and> transcript ?s1 = [] \<and> recordedVideoUrl ?s1 = None \<and>
           recordedAudioUrl ?s1 = None \<and>
           narrations ?s1 = narrations (speechSynthesis_cancel s) @
               [\<lparr>owner = RedoAction mode, stage = AwaitingSpeech\<rparr>]"
    using assms(3) q1 by (simp add: s1 k1 fire_ClickRedo initiateRedo_def performRedo_values)
  have B: "\<not> dontAskRedo s \<Longrightarrow>
           flowState ?s1 = REDO_CONFIRM \<and> nextRedoMode ?s1 = Some mode \<and>
           transcript ?s1 = transcript s \<and> recordedVideoUrl ?s1 = recordedVideoUrl s \<and>
           recordedAudioUrl ?s1 = recordedAudioUrl s \<and> narrations ?s1 = narrations s"
    using assms(3) q1 by (simp add: s1 k1 fire_ClickRedo initiateRedo_def)
  have st1: "settled ?s1" "\<not> unmounted ?s1"
    using assms(1,2) by (simp_all add: settled_commit s1 commit_frame)
  have c2: "step ?s1 ClickCancel = commit (fire ClickCancel ?s1)"
    and y2: "step ?s1 ClickYes = commit (fire ClickYes ?s1)"
    using st1(2) by (simp_all add: step_commit)
  have q2: "deps_question ?s1 = Some (question ?s1)"
    using st1(1) by (simp add: settled_def)
  have C: "\<not> dontAskRedo s \<Longrightarrow>
           flowState (step ?s1 ClickCancel) = REVIEW \<and>
           narrations (step ?s1 ClickCancel) = narrations s"
    using B q2 by (simp add: c2 k1 fire_ClickCancel)
  have cancel_same: "narrations (speechSynthesis_cancel ?s1) = narrations (speechSynthesis_cancel s)"
    if "\<not> dontAskRedo s"
    using B[OF that] by (simp add: speechSynthesis_cancel_def)
  have D: "\<not> dontAskRedo s \<Longrightarrow>
           flowState (step ?s1 ClickYes) = READING \<and> transcript (step ?s1 ClickYes) = [] \<and>
           recordedVideoUrl (step ?s1 ClickYes) = None \<and>
           recordedAudioUrl (step ?s1 ClickYes) = None \<and>
           narrations (step ?s1 ClickYes) = narrations (speechSynthesis_cancel s) @
               [\<lparr>owner = RedoAction mode, stage = AwaitingSpeech\<rparr>]"
    using B cancel_same q2 by (simp add: y2 k1 fire_ClickYes performRedo_values)
  from A B C D show ?thesis by blast
qed

theorem redo_confirmation_witness:
  "settled (run (mount example_question False True)
      (narrated @ [ClickKeyboard, TypeText ''abc'', ClickTypingDone])) \<and>
   \<not> unmounted (run (mount example_question False True)
      (narrated @ [ClickKeyboard, TypeText ''abc'', ClickTypingDone])) \<and>
   flowState (run (mount example_question False True)
      (narrated @ [ClickKeyboard, TypeText ''abc'', ClickTypingDone])) = REVIEW \<and>
   \<not> dontAskRedo (run (mount example_question False True)
      (narrated @ [ClickKeyboard, TypeText ''abc'', ClickTypingDone])) \<and>
   flowState (step (run (mount example_question False True)
      (narrated @ [ClickKeyboard, TypeText ''abc'', ClickTypingDone])) (ClickRedo voice)) = REDO_CONFIRM \<and>
   transcript (step (run (mount example_question False True)
      (narrated @ [ClickKeyboard, TypeText ''abc'', ClickTypingDone])) (ClickRedo voice)) = ''abc'' \<and>
   flowState (step (step (run (mount example_question False True)
      (narrated @ [ClickKeyboard, TypeText ''abc'', ClickTypingDone])) (ClickRedo voice)) ClickYes) = READING \<and>
   settled (run (mount example_question True True)
      (narrated @ [ClickKeyboard, TypeText ''abc'', ClickTypingDone])) \<and>
   \<not> unmounted (run (mount example_question True True)
      (narrated @ [ClickKeyboard, TypeText ''abc'', ClickTypingDone])) \<and>
   flowState (run (mount example_question True True)
      (narrated @ [ClickKeyboard, TypeText ''abc'', ClickTypingDone])) = REVIEW \<and>
   dontAskRedo (run (mount example_question True True)
      (narrated @ [ClickKeyboard, TypeText ''abc'', ClickTypingDone])) \<and>
   flowState (step (run (mount example_question True True)
      (narrated @ [ClickKeyboard, TypeText ''abc'', ClickTypingDone])) (ClickRedo voice)) = READING \<and>
   transcript (step (run (mount example_question True True)
      (narrated @ [ClickKeyboard, TypeText ''abc'', ClickTypingDone])) (ClickRedo voice)) = []"
proof -
  let ?A = "run (mount example_question False True)
      (narrated @ [ClickKeyboard, TypeText ''abc'', ClickTypingDone])"
  let ?B = "run (mount example_question True True)
      (narrated @ [ClickKeyboard, TypeText ''abc'', ClickTypingDone])"
  have a: "settled ?A" "\<not> unmounted ?A" "flowState ?A = REVIEW" "\<not> dontAskRedo ?A"
    "transcript ?A = ''abc''"
    by code_simp+
  have b: "settled ?B" "\<not> unmounted ?B" "flowState ?B = REVIEW" "dontAskRedo ?B"
    by code_simp+
  from redo_confirmation[OF a(1,2,3), of voice] redo_confirmation[OF b(1,2,3), of voice] a b
  show ?thesis by simp
qed

subsection \<open>Narration fallback\<close>

lemma commit_rendered:
  "deps_question s = Some (question s) \<Longrightarrow> rendered (commit s) = rendered s"
  by (simp add: rendered_def commit_keeps commit_frame)

lemma cancel_narrations [simp]:
  "length (narrations (speechSynthesis_cancel s)) = length (narrations s)"
  "n < length (narrations s) \<Longrightarrow>
     owner (narrations (speechSynthesis_cancel s) ! n) = owner (narrations s ! n)"
  "n < length (narrations s) \<Longrightarrow>
     stage (narrations (speechSynthesis_cancel s) ! n) \<noteq> Speaking"
  by (simp_all add: speechSynthesis_cancel_def)

lemma set_stage_narrations [simp]:
  "length (narrations (set_stage n st s)) = length (narrations s)"
  "k < length (narrations s) \<Longrightarrow>
     owner (narrations (set_stage n st s) ! k) = owner (narrations s ! k)"
  "k < length (narrations s) \<Longrightarrow>
     stage (narrations (set_stage n st s) ! k) = (if k = n then st else stage (narrations s ! k))"
  by (cases "n < length (narrations s)"; auto simp: set_stage_def nth_list_update)+

lemma fallbackSynthesis_values:
  "n < length (narrations s) \<Longrightarrow> stage (narrations (fallbackSynthesis n s) ! n) = Speaking"
  "n < length (narrations s) \<Longrightarrow> owner (narrations (fallbackSynthesis n s) ! n) = owner (narrations s ! n)"
  "length (narrations (fallbackSynthesis n s)) = length (narrations s)"
  "rendered (fallbackSynthesis n s) = rendered s"
  "isMounted (fallbackSynthesis n s) = isMounted s"
  by (simp_all add: fallbackSynthesis_def rendered_def)

text \<open>
  Claim C7. When \<^verbatim>\<open>generateSpeech\<close> resolves to no data, or playing its data throws,
  the narration of a mounted question speaks through the platform synthesizer; nothing
  the respondent sees changes, and when the utterance ends the flow goes from READING to
  INPUT_SELECTION.
\<close>

theorem narration_fallback:
  assumes "settled s" and "\<not> unmounted s" and "flowState s = READING"
    and "n < length (narrations s)"
    and "owner (narrations s ! n) = QuestionEffect g"
    and "stage (narrations s ! n) = AwaitingSpeech"
    and "isMounted s = Some g"
    and "res \<noteq> Pcm True"
  shows "stage (narrations (step s (SpeechGenerated n res)) ! n) = Speaking \<and>
         rendered (step s (SpeechGenerated n res)) = rendered s \<and>
         flowState (step s (SpeechGenerated n res)) = READING \<and>
         flowState (step (step s (SpeechGenerated n res)) (UtteranceEnded n)) = INPUT_SELECTION"
proof -
  let ?s1 = "step s (SpeechGenerated n res)"
  have q: "deps_question s = Some (question s)"
    using assms(1) by (simp add: settled_def)
  have s1: "?s1 = commit (speech_generated n res s)"
    using assms(2,4,6) by (simp add: step_commit fire.simps)
  obtain x where sg: "speech_generated n res s = fallbackSynthesis n x"
    and x: "narrations x = narrations s" "rendered x = rendered s" "isMounted x = isMounted s"
      "deps_question x = deps_question s" "question x = question s"
  proof (cases res)
    case NoData
    show ?thesis
      by (rule that[of s]) (use assms(5,7) NoData in \<open>simp_all add: speech_generated_def\<close>)
  next
    case (Pcm ok)
    with assms(8) have "\<not> ok" by simp
    show ?thesis
      by (rule that[of "(new_context s)\<lparr>console := console s @
             [''Gemini TTS playback failed, falling back to synthesis'']\<rparr>"])
         (use assms(5,7) Pcm \<open>\<not> ok\<close> in \<open>simp_all add: speech_generated_def rendered_def new_context_def\<close>)
  qed
  have n: "n < length (narrations x)" using assms(4) x(1) by simp
  have q1: "deps_question (speech_generated n res s) = Some (question (speech_generated n res s))"
    using q by simp
  have a: "stage (narrations ?s1 ! n) = Speaking"
    using n by (simp add: s1 commit_keeps[OF q1]) (simp add: sg fallbackSynthesis_values)
  have b: "rendered ?s1 = rendered s"
    by (simp add: s1 commit_rendered[OF q1]) (simp add: sg fallbackSynthesis_values x)
  have c: "flowState ?s1 = READING"
    using b assms(3) by (simp add: rendered_def)
  have ow: "owner (narrations ?s1 ! n) = QuestionEffect g"
    using n assms(5) x(1) by (simp add: s1 commit_keeps[OF q1]) (simp add: sg fallbackSynthesis_values)
  have len: "n < length (narrations ?s1)"
    using n by (simp add: s1 commit_keeps[OF q1]) (simp add: sg fallbackSynthesis_values)
  have mt: "isMounted ?s1 = Some g"
    using assms(7) by (simp add: s1 commit_keeps[OF q1])
  have st1: "settled ?s1" "\<not> unmounted ?s1"
    using assms(2) by (simp_all add: s1 settled_commit commit_frame)
  have q2: "deps_question ?s1 = Some (question ?s1)"
    using st1(1) by (simp add: settled_def)
  have f2: "fire (UtteranceEnded n) ?s1 = (set_stage n Finished ?s1)\<lparr>flowState := INPUT_SELECTION\<rparr>"
    using a ow len mt c by (simp add: fire.simps narration_ended_def)
  have d: "flowState (step ?s1 (UtteranceEnded n)) = INPUT_SELECTION"
    using st1(2) q2 by (simp add: step_commit f2 commit_keeps)
  from a b c d show ?thesis by simp
qed

theorem narration_fallback_witness:
  "settled (run (mount example_question False True) [TimerFired 0]) \<and>
   \<not> unmounted (run (mount example_question False True) [TimerFired 0]) \<and>
   flowState (run (mount example_question False True) [TimerFired 0]) = READING \<and>
   0 < length (narrations (run (mount example_question False True) [TimerFired 0])) \<and>
   narrations (run (mount example_question False True) [TimerFired 0]) ! 0
     = \<lparr>owner = QuestionEffect 0, stage = AwaitingSpeech\<rparr> \<and>
   isMounted (run (mount example_question False True) [TimerFired 0]) = Some 0 \<and>
   flowState (step (run (mount example_question False True) [TimerFired 0])
      (SpeechGenerated 0 NoData)) = READING \<and>
   flowState (step (step (run (mount example_question False True) [TimerFired 0])
      (SpeechGenerated 0 NoData)) (UtteranceEnded 0)) = INPUT_SELECTION \<and>
   flowState (step (step (run (mount example_question False True) [TimerFired 0])
      (SpeechGenerated 0 (Pcm False))) (UtteranceEnded 0)) = INPUT_SELECTION \<and>
   console (step (run (mount example_question False True) [TimerFired 0])
      (SpeechGenerated 0 (Pcm False)))
     = [''Gemini TTS playback failed, falling back to synthesis'']"
proof -
  let ?S = "run (mount example_question False True) [TimerFired 0]"
  have h: "settled ?S" "\<not> unmounted ?S" "flowState ?S = READING" "0 < length (narrations ?S)"
    "owner (narrations ?S ! 0) = QuestionEffect 0" "stage (narrations ?S ! 0) = AwaitingSpeech"
    "isMounted ?S = Some 0"
    by code_simp+
  have n: "narrations ?S ! 0 = \<lparr>owner = QuestionEffect 0, stage = AwaitingSpeech\<rparr>"
    by code_simp
  have c: "console (step ?S (SpeechGenerated 0 (Pcm False)))
     = [''Gemini TTS playback failed, falling back to synthesis'']"
    by code_simp
  have r1: "NoData \<noteq> Pcm True" and r2: "Pcm False \<noteq> Pcm True" by simp_all
  from narration_fallback[OF h r1] narration_fallback[OF h r2] h n c
  show ?thesis by simp
qed

subsection \<open>Changing the question during narration\<close>

lemma source_stop_narrations [simp]:
  "length (narrations (source_stop n s)) = length (narrations s)"
  "k < length (narrations s) \<Longrightarrow>
     owner (narrations (source_stop n s) ! k) = owner (narrations s ! k)"
  "k < length (narrations s) \<Longrightarrow> stage (narrations s ! k) \<noteq> Speaking \<Longrightarrow>
     stage (narrations (source_stop n s) ! k) \<noteq> Speaking"
  "k < length (narrations s) \<Longrightarrow> stage (narrations (source_stop k s) ! k) \<noteq> Playing"
  by (simp_all add: source_stop_def)

lemma stop_tts_source_narrations [simp]:
  "length (narrations (stop_tts_source s)) = length (narrations s)"
  "k < length (narrations s) \<Longrightarrow>
     owner (narrations (stop_tts_source s) ! k) = owner (narrations s ! k)"
  "k < length (narrations s) \<Longrightarrow> stage (narrations s ! k) \<noteq> Speaking \<Longrightarrow>
     stage (narrations (stop_tts_source s) ! k) \<noteq> Speaking"
  "ttsSourceRef s = Some k \<Longrightarrow> k < length (narrations s) \<Longrightarrow>
     stage (narrations (stop_tts_source s) ! k) \<noteq> Playing"
  by (simp_all add: stop_tts_source_def split: option.splits)

lemma clear_question_timer_values [simp]:
  "ttsSourceRef (clear_question_timer s) = ttsSourceRef s"
  "isMounted s = Some g \<Longrightarrow> g \<notin> set (timers (clear_question_timer s))"
  by (simp_all add: clear_question_timer_def)

lemma ttsSourceRef_cancel [simp]: "ttsSourceRef (speechSynthesis_cancel s) = ttsSourceRef s"
  by (simp add: speechSynthesis_cancel_def)

lemma question_cleanup_narrations:
  "narrations (question_cleanup s) =
     narrations (stop_tts_source (speechSynthesis_cancel (clear_question_timer s)))"
  by (simp add: question_cleanup_def stop_voice_tracks_def stopListening_def stopCamera_def
        close_tts_context_def stop_tracks_def recognition_stop_def split: option.splits)

lemma question_cleanup_values:
  "length (narrations (question_cleanup s)) = length (narrations s)"
  "k < length (narrations s) \<Longrightarrow>
     owner (narrations (question_cleanup s) ! k) = owner (narrations s ! k)"
  "k < length (narrations s) \<Longrightarrow> stage (narrations (question_cleanup s) ! k) \<noteq> Speaking"
  "ttsSourceRef s = Some k \<Longrightarrow> k < length (narrations s) \<Longrightarrow>
     stage (narrations (question_cleanup s) ! k) \<noteq> Playing"
  by (simp_all add: question_cleanup_narrations)

text \<open>The first render after the question prop changed, in a settled component.\<close>

lemma render_pass_question_changed:
  assumes "settled s" and "q' \<noteq> question s"
  shows "render_pass (s\<lparr>question := q'\<rparr>) =
           question_effect (s\<lparr>question := q'\<rparr>) (question_cleanup (s\<lparr>question := q'\<rparr>))"
  using assms
  by (simp add: settled_def render_pass_def cleanup_phase_def timer_phase_def
        recognition_phase_def question_phase_def flow_phase_def)

lemma question_changed_step:
  assumes "settled s" and "\<not> unmounted s" and "q' \<noteq> question s"
  shows "flowState (step s (QuestionChanged q')) = READING"
    and "isMounted (step s (QuestionChanged q')) = Some (next_gen s)"
    and "narrations (step s (QuestionChanged q')) = narrations (question_cleanup (s\<lparr>question := q'\<rparr>))"
    and "next_gen (step s (QuestionChanged q')) = Suc (next_gen s)"
proof -
  let ?x = "s\<lparr>question := q'\<rparr>"
  let ?y = "render_pass ?x"
  have st: "step s (QuestionChanged q') = render_pass (render_pass ?y)"
    using assms(2) by (simp add: step_commit fire.simps commit_def)
  have y: "?y = question_effect ?x (question_cleanup ?x)"
    by (rule render_pass_question_changed[OF assms(1,3)])
  have qy: "deps_question ?y = Some (question ?y)"
    by (simp add: render_pass_deps)
  have qyy: "deps_question (render_pass ?y) = Some (question (render_pass ?y))"
    by (simp add: render_pass_deps)
  have gx: "next_gen (question_cleanup ?x) = next_gen s"
    by simp
  show "flowState (step s (QuestionChanged q')) = READING"
    by (simp add: st render_pass_same_question[OF qyy] render_pass_same_question[OF qy])
       (simp add: y question_effect_def)
  show "isMounted (step s (QuestionChanged q')) = Some (next_gen s)"
    by (simp add: st render_pass_keeps[OF qyy] render_pass_keeps[OF qy])
       (simp add: y question_effect_def gx)
  show "narrations (step s (QuestionChanged q')) = narrations (question_cleanup ?x)"
    by (simp add: st render_pass_keeps[OF qyy] render_pass_keeps[OF qy])
       (simp add: y question_effect_def)
  show "next_gen (step s (QuestionChanged q')) = Suc (next_gen s)"
    by (simp add: st render_pass_keeps[OF qyy] render_pass_keeps[OF qy])
       (simp add: y question_effect_def gx)
qed


lemma settled_update_narrations:
  "settled x \<Longrightarrow> settled (x\<lparr>narrations := ns\<rparr>)"
  "settled x \<Longrightarrow> settled (x\<lparr>timers := ts, narrations := ns\<rparr>)"
  by (simp_all add: settled_def)

lemma step_settled_result:
  "\<not> unmounted x \<Longrightarrow> e \<noteq> Unmount \<Longrightarrow> settled (fire e x) \<Longrightarrow> step x e = fire e x"
  by (simp add: step_commit settled_commit_id)

lemma prior_event_fire:
  assumes "after_change s x" and "question_narration_event s e"
  shows "fire e x = x \<or> (\<exists>n. n < length (narrations x) \<and> fire e x = set_stage n Finished x) \<or>
         (\<exists>g. fire e x = x\<lparr>timers := removeAll g (timers x),
                   narrations := narrations x @ [\<lparr>owner = QuestionEffect g, stage = AwaitingSpeech\<rparr>]\<rparr>)"
proof (cases e)
  case (TimerFired g)
  then show ?thesis by (auto simp: fire.simps)
next
  case (SpeechGenerated n res)
  with assms(2) obtain g where n: "n < length (narrations s)"
    and g: "owner (narrations s ! n) = QuestionEffect g" "g < next_gen s"
    by (auto split: NarrationOwner.splits)
  from assms(1) n g have "owner (narrations x ! n) = QuestionEffect g" "isMounted x \<noteq> Some g"
    "n < length (narrations x)"
    by (auto simp: after_change_def)
  then show ?thesis
    using SpeechGenerated by (auto simp: fire.simps speech_generated_def)
next
  case (SourceEnded n)
  with assms(2) obtain g where n: "n < length (narrations s)"
    and g: "owner (narrations s ! n) = QuestionEffect g" "g < next_gen s"
    by (auto split: NarrationOwner.splits)
  from assms(1) n g have "owner (narrations x ! n) = QuestionEffect g" "isMounted x \<noteq> Some g"
    "n < length (narrations x)"
    by (auto simp: after_change_def)
  then show ?thesis
    using SourceEnded by (auto simp: fire.simps narration_ended_def)
next
  case (UtteranceEnded n)
  with assms(2) obtain g where n: "n < length (narrations s)"
    and g: "owner (narrations s ! n) = QuestionEffect g" "g < next_gen s"
    by (auto split: NarrationOwner.splits)
  from assms(1) n g have "owner (narrations x ! n) = QuestionEffect g" "isMounted x \<noteq> Some g"
    "n < length (narrations x)"
    by (auto simp: after_change_def)
  then show ?thesis
    using UtteranceEnded by (auto simp: fire.simps narration_ended_def)
qed (use assms(2) in simp_all)

lemma after_change_step:
  assumes "after_change s x" and "question_narration_event s e"
  shows "after_change s (step x e)"
proof -
  have ne: "e \<noteq> Unmount" using assms(2) by auto
  have um: "\<not> unmounted x" and sx: "settled x" using assms(1) by (simp_all add: after_change_def)
  from prior_event_fire[OF assms]
  consider "fire e x = x"
    | n where "n < length (narrations x)" "fire e x = set_stage n Finished x"
    | g where "fire e x = x\<lparr>timers := removeAll g (timers x),
                   narrations := narrations x @ [\<lparr>owner = QuestionEffect g, stage = AwaitingSpeech\<rparr>]\<rparr>"
    by blast
  then show ?thesis
  proof cases
    case 1
    then have "step x e = x" using um ne sx by (simp add: step_settled_result)
    then show ?thesis using assms(1) by simp
  next
    case 2
    have "settled (set_stage n Finished x)"
      using sx by (simp add: settled_def)
    then have "step x e = set_stage n Finished x"
      using um ne 2 by (simp add: step_settled_result)
    then show ?thesis using assms(1) by (auto simp: after_change_def settled_def)
  next
    case 3
    let ?y = "x\<lparr>timers := removeAll g (timers x),
                   narrations := narrations x @ [\<lparr>owner = QuestionEffect g, stage = AwaitingSpeech\<rparr>]\<rparr>"
    have "settled ?y" using sx by (rule settled_update_narrations)
    then have "step x e = ?y"
      using um ne 3 by (simp add: step_settled_result)
    then show ?thesis using assms(1) by (auto simp: after_change_def settled_def nth_append)
  qed
qed

lemma after_change_run:
  "after_change s x \<Longrightarrow> \<forall>e\<in>set es. question_narration_event s e \<Longrightarrow> after_change s (run x es)"
  unfolding run_def
  by (induction es arbitrary: x) (simp_all add: after_change_step)

lemma speech_generated_narrations:
  assumes "n < length (narrations x)"
  shows "length (narrations (speech_generated n res x)) = length (narrations x)"
    and "k < length (narrations x) \<Longrightarrow>
           owner (narrations (speech_generated n res x) ! k) = owner (narrations x ! k)"
  by (auto simp: speech_generated_def fallbackSynthesis_def fallbackRedoSpeech_def play_source_def
        new_context_def split: NarrationOwner.splits SpeechResult.splits)

lemma flowState_startNextMode:
  "flowState (startNextMode m x) = flowState x \<or> flowState (startNextMode m x) = TYPING \<or>
   flowState (startNextMode m x) = PREVIEW_CAMERA"
  by (cases m) (simp_all add: startNextMode_def startRecording_def)

lemma after_change_any_commit:
  assumes "after_change_any s x"
    and "unmounted y = unmounted x" and "deps_question y = deps_question x" and "question y = question x"
    and "isMounted y = isMounted x"
    and "flowState y = READING \<or> flowState y = TYPING \<or> flowState y = PREVIEW_CAMERA"
    and "length (narrations s) \<le> length (narrations y)"
    and "\<forall>n<length (narrations s). owner (narrations y ! n) = owner (narrations s ! n)"
  shows "after_change_any s (commit y)"
proof -
  have q: "deps_question y = Some (question y)"
    using assms(1,3,4) by (simp add: after_change_any_def settled_def)
  show ?thesis
    using assms by (simp add: after_change_any_def commit_keeps[OF q] commit_frame settled_commit)
qed

lemma after_change_any_step:
  assumes "after_change_any s x" and "prior_narration_event s e"
  shows "after_change_any s (step x e)"
proof -
  have um: "\<not> unmounted x" and mt: "isMounted x = Some (next_gen s)"
    and len: "length (narrations s) \<le> length (narrations x)"
    and ow: "\<And>n. n < length (narrations s) \<Longrightarrow> owner (narrations x ! n) = owner (narrations s ! n)"
    and fl: "flowState x = READING \<or> flowState x = TYPING \<or> flowState x = PREVIEW_CAMERA"
    using assms(1) by (simp_all add: after_change_any_def)
  have ne: "e \<noteq> Unmount" and nq: "\<forall>q. e \<noteq> QuestionChanged q" using assms(2) by auto
  have st: "step x e = commit (fire e x)"
    using um ne by (simp add: step_commit)
  have qf: "question (fire e x) = question x"
    using nq by (cases e) simp_all
  have main: "isMounted (fire e x) = isMounted x \<and>
        (flowState (fire e x) = READING \<or> flowState (fire e x) = TYPING \<or>
         flowState (fire e x) = PREVIEW_CAMERA) \<and>
        length (narrations s) \<le> length (narrations (fire e x)) \<and>
        (\<forall>n<length (narrations s). owner (narrations (fire e x) ! n) = owner (narrations s ! n))"
  proof (cases e)
    case (TimerFired g)
    then show ?thesis using len ow fl mt by (auto simp: fire.simps nth_append)
  next
    case (SpeechGenerated n res)
    with assms(2) have n: "n < length (narrations s)" by simp
    then have nx: "n < length (narrations x)" using len by simp
    show ?thesis
      using SpeechGenerated nx len ow fl mt
      by (auto simp: fire.simps speech_generated_narrations)
  next
    case (SourceEnded n)
    with assms(2) have n: "n < length (narrations s)" by simp
    then have nx: "n < length (narrations x)" using len by simp
    have "flowState (narration_ended (owner (narrations x ! n)) (set_stage n Finished x)) = READING \<or>
          flowState (narration_ended (owner (narrations x ! n)) (set_stage n Finished x)) = TYPING \<or>
          flowState (narration_ended (owner (narrations x ! n)) (set_stage n Finished x)) = PREVIEW_CAMERA"
    proof (cases "owner (narrations x ! n)")
      case (QuestionEffect g)
      with ow[OF n] have "owner (narrations s ! n) = QuestionEffect g" by simp
      with assms(2) SourceEnded have "g < next_gen s" by simp
      then show ?thesis using QuestionEffect mt fl by (simp add: narration_ended_def)
    next
      case (RedoAction m)
      then show ?thesis
        using fl flowState_startNextMode[of m "set_stage n Finished x"]
        by (auto simp: narration_ended_def)
    qed
    then show ?thesis
      using SourceEnded nx len ow mt fl by (auto simp: fire.simps)
  next
    case (UtteranceEnded n)
    with assms(2) have n: "n < length (narrations s)" by simp
    then have nx: "n < length (narrations x)" using len by simp
    have "flowState (narration_ended (owner (narrations x ! n)) (set_stage n Finished x)) = READING \<or>
          flowState (narration_ended (owner (narrations x ! n)) (set_stage n Finished x)) = TYPING \<or>
          flowState (narration_ended (owner (narrations x ! n)) (set_stage n Finished x)) = PREVIEW_CAMERA"
    proof (cases "owner (narrations x ! n)")
      case (QuestionEffect g)
      with ow[OF n] have "owner (narrations s ! n) = QuestionEffect g" by simp
      with assms(2) UtteranceEnded have "g < next_gen s" by simp
      then show ?thesis using QuestionEffect mt fl by (simp add: narration_ended_def)
    next
      case (RedoAction m)
      then show ?thesis
        using fl flowState_startNextMode[of m "set_stage n Finished x"]
        by (auto simp: narration_ended_def)
    qed
    then show ?thesis
      using UtteranceEnded nx len ow mt fl by (auto simp: fire.simps)
  qed (use assms(2) in simp_all)
  show ?thesis
    unfolding st
    by (rule after_change_any_commit[OF assms(1)]) (use main qf in simp_all)
qed

lemma after_change_any_run:
  "after_change_any s x \<Longrightarrow> \<forall>e\<in>set es. prior_narration_event s e \<Longrightarrow>
   after_change_any s (run x es)"
  unfolding run_def
  by (induction es arbitrary: x) (simp_all add: after_change_any_step)


text \<open>
  The guarded path. The narration that the question effect starts reads the \<^verbatim>\<open>isMounted\<close>
  flag of its run in every callback. When the question changes, the flow is READING;
  through every sequence of events of the narrations that were in progress the flow never
  becomes INPUT_SELECTION; and when the events are those of narrations the question effect
  started (its timeout, the resolution of its synthesis call, the end of its buffer source,
  the end of its utterance), the flow stays READING. No narration that existed is left
  speaking at the change, and the buffer source held in \<^verbatim>\<open>ttsSourceRef\<close> is not left
  playing.
\<close>

lemma question_effect_narration_cancelled:
  assumes "settled s" and "\<not> unmounted s" and "q' \<noteq> question s"
    and "\<forall>e\<in>set es. prior_narration_event s e"
  shows "flowState (step s (QuestionChanged q')) = READING \<and>
         flowState (run (step s (QuestionChanged q')) es) \<noteq> INPUT_SELECTION \<and>
         ((\<forall>e\<in>set es. question_narration_event s e) \<longrightarrow>
            flowState (run (step s (QuestionChanged q')) es) = READING) \<and>
         (\<forall>n<length (narrations s).
            stage (narrations (step s (QuestionChanged q')) ! n) \<noteq> Speaking \<and>
            (ttsSourceRef s = Some n \<longrightarrow>
               stage (narrations (step s (QuestionChanged q')) ! n) \<noteq> Playing))"
proof -
  let ?s' = "step s (QuestionChanged q')"
  note qc = question_changed_step[OF assms(1,2,3)]
  have st: "settled ?s'" "\<not> unmounted ?s'"
    using assms(2) by (simp_all add: step_commit settled_commit commit_frame)
  have ac: "after_change s ?s'"
    using st qc by (simp add: after_change_def question_cleanup_values)
  then have "after_change_any s ?s'"
    by (simp add: after_change_def after_change_any_def)
  then have "after_change_any s (run ?s' es)"
    using assms(4) by (rule after_change_any_run)
  then have a: "flowState (run ?s' es) \<noteq> INPUT_SELECTION"
    by (auto simp: after_change_any_def)
  have b: "flowState (run ?s' es) = READING" if "\<forall>e\<in>set es. question_narration_event s e"
    using after_change_run[OF ac that] by (simp add: after_change_def)
  have c: "\<forall>n<length (narrations s).
            stage (narrations ?s' ! n) \<noteq> Speaking \<and>
            (ttsSourceRef s = Some n \<longrightarrow> stage (narrations ?s' ! n) \<noteq> Playing)"
    by (simp add: qc question_cleanup_values)
  from qc(1) a b c show ?thesis by blast
qed

lemma question_effect_narration_cancelled_example:
  "settled (run (mount example_question False True) [TimerFired 0, SpeechGenerated 0 (Pcm True)]) \<and>
   \<not> unmounted (run (mount example_question False True) [TimerFired 0, SpeechGenerated 0 (Pcm True)]) \<and>
   other_question \<noteq> question (run (mount example_question False True)
      [TimerFired 0, SpeechGenerated 0 (Pcm True)]) \<and>
   prior_narration_event (run (mount example_question False True)
      [TimerFired 0, SpeechGenerated 0 (Pcm True)]) (SourceEnded 0) \<and>
   prior_narration_event (run (mount example_question False True)
      [TimerFired 0, SpeechGenerated 0 (Pcm True)]) (TimerFired 0) \<and>
   question_narration_event (run (mount example_question False True)
      [TimerFired 0, SpeechGenerated 0 (Pcm True)]) (SourceEnded 0) \<and>
   question_narration_event (run (mount example_question False True)
      [TimerFired 0, SpeechGenerated 0 (Pcm True)]) (TimerFired 0) \<and>
   flowState (step (run (mount example_question False True)
      [TimerFired 0, SpeechGenerated 0 (Pcm True)]) (SourceEnded 0)) = INPUT_SELECTION \<and>
   flowState (run (step (run (mount example_question False True)
      [TimerFired 0, SpeechGenerated 0 (Pcm True)]) (QuestionChanged other_question))
      [SourceEnded 0, TimerFired 0]) = READING \<and>
   settled (run (mount example_question False True) [TimerFired 0, SpeechGenerated 0 NoData]) \<and>
   \<not> unmounted (run (mount example_question False True) [TimerFired 0, SpeechGenerated 0 NoData]) \<and>
   other_question \<noteq> question (run (mount example_question False True)
      [TimerFired 0, SpeechGenerated 0 NoData]) \<and>
   prior_narration_event (run (mount example_question False True)
      [TimerFired 0, SpeechGenerated 0 NoData]) (UtteranceEnded 0) \<and>
   question_narration_event (run (mount example_question False True)
      [TimerFired 0, SpeechGenerated 0 NoData]) (UtteranceEnded 0) \<and>
   flowState (step (run (mount example_question False True)
      [TimerFired 0, SpeechGenerated 0 NoData]) (UtteranceEnded 0)) = INPUT_SELECTION \<and>
   flowState (run (step (run (mount example_question False True)
      [TimerFired 0, SpeechGenerated 0 NoData]) (QuestionChanged other_question))
      [UtteranceEnded 0]) = READING"
proof -
  let ?P = "run (mount example_question False True) [TimerFired 0, SpeechGenerated 0 (Pcm True)]"
  let ?F = "run (mount example_question False True) [TimerFired 0, SpeechGenerated 0 NoData]"
  have p: "settled ?P" "\<not> unmounted ?P" "other_question \<noteq> question ?P"
    by code_simp+
  have pe: "prior_narration_event ?P (SourceEnded 0)" "prior_narration_event ?P (TimerFired 0)"
    "question_narration_event ?P (SourceEnded 0)" "question_narration_event ?P (TimerFired 0)"
    by code_simp+
  have pa: "flowState (step ?P (SourceEnded 0)) = INPUT_SELECTION"
    by code_simp
  have f: "settled ?F" "\<not> unmounted ?F" "other_question \<noteq> question ?F"
    by code_simp+
  have fe: "prior_narration_event ?F (UtteranceEnded 0)" "question_narration_event ?F (UtteranceEnded 0)"
    by code_simp+
  have fa: "flowState (step ?F (UtteranceEnded 0)) = INPUT_SELECTION"
    by code_simp
  have pes: "\<forall>e\<in>set [SourceEnded 0, TimerFired 0]. prior_narration_event ?P e"
    using pe by simp
  have fes: "\<forall>e\<in>set [UtteranceEnded 0]. prior_narration_event ?F e"
    using fe by simp
  from question_effect_narration_cancelled[OF p pes] question_effect_narration_cancelled[OF f fes]
    p pe pa f fe fa
  show ?thesis by simp
qed

text \<open>
  Claim C5. If the question changes while narration is in progress, the prior narration
  is cancelled and its completion is never fired. This fails for the narration that
  \<^verbatim>\<open>performRedo\<close> starts: \<^verbatim>\<open>redoAction\<close>, \<^verbatim>\<open>fallbackRedoSpeech\<close> and their end callbacks
  read no \<^verbatim>\<open>isMounted\<close> flag, unlike \<^verbatim>\<open>playQuestionAudio\<close> and \<^verbatim>\<open>fallbackSynthesis\<close>.
  A typed answer is redone by voice, with the confirmation switched off, and the question
  changes while the synthesis call of the redo is pending. On the fallback path the call
  then resolves without data: the narration of the redo starts speaking after the change,
  and its end runs \<^verbatim>\<open>startRecording\<close>, so that a microphone request is made and, once
  granted, the flow leaves READING for RECORDING_VOICE under the new question. On the
  playback path (a redo by typing whose buffer source is playing when the question
  changes) the cleanup stops the source, and the end of the stopped source moves the flow
  from READING to TYPING.
\<close>

theorem redo_narration_survives_question_change:
  "flowState (run (mount example_question True True)
      (narrated @ [ClickKeyboard, TypeText ''a'', ClickTypingDone, ClickRedo voice])) = READING \<and>
   narrations (run (mount example_question True True)
      (narrated @ [ClickKeyboard, TypeText ''a'', ClickTypingDone, ClickRedo voice])) =
     [\<lparr>owner = QuestionEffect 0, stage = Finished\<rparr>,
      \<lparr>owner = RedoAction voice, stage = AwaitingSpeech\<rparr>] \<and>
   question (run (mount example_question True True)
      (narrated @ [ClickKeyboard, TypeText ''a'', ClickTypingDone, ClickRedo voice,
                   QuestionChanged other_question])) = other_question \<and>
   flowState (run (mount example_question True True)
      (narrated @ [ClickKeyboard, TypeText ''a'', ClickTypingDone, ClickRedo voice,
                   QuestionChanged other_question])) = READING \<and>
   narrations (run (mount example_question True True)
      (narrated @ [ClickKeyboard, TypeText ''a'', ClickTypingDone, ClickRedo voice,
                   QuestionChanged other_question, SpeechGenerated 1 NoData])) =
     [\<lparr>owner = QuestionEffect 0, stage = Finished\<rparr>,
      \<lparr>owner = RedoAction voice, stage = Speaking\<rparr>] \<and>
   pending_gum (run (mount example_question True True)
      (narrated @ [ClickKeyboard, TypeText ''a'', ClickTypingDone, ClickRedo voice,
                   QuestionChanged other_question, SpeechGenerated 1 NoData,
                   UtteranceEnded 1])) = [ForVoiceRecording] \<and>
   flowState (run (mount example_question True True)
      (narrated @ [ClickKeyboard, TypeText ''a'', ClickTypingDone, ClickRedo voice,
                   QuestionChanged other_question, SpeechGenerated 1 NoData,
                   UtteranceEnded 1, GumResolved 0])) = RECORDING_VOICE \<and>
   question (run (mount example_question True True)
      (narrated @ [ClickKeyboard, TypeText ''a'', ClickTypingDone, ClickRedo voice,
                   QuestionChanged other_question, SpeechGenerated 1 NoData,
                   UtteranceEnded 1, GumResolved 0])) = other_question \<and>
   flowState (run (mount example_question True True)
      (narrated @ [ClickKeyboard, TypeText ''a'', ClickTypingDone, ClickRedo typing,
                   SpeechGenerated 1 (Pcm True), QuestionChanged other_question])) = READING \<and>
   flowState (run (mount example_question True True)
      (narrated @ [ClickKeyboard, TypeText ''a'', ClickTypingDone, ClickRedo typing,
                   SpeechGenerated 1 (Pcm True), QuestionChanged other_question,
                   SourceEnded 1])) = TYPING"
  by code_simp

subsection \<open>The completion callback\<close>

lemma unmount_onComplete: "onComplete_calls (unmount s) = onComplete_calls s"
  by (simp add: unmount_def)

lemma step_onComplete: "onComplete_calls (step s e) = onComplete_calls s"
  by (simp add: step_def unmount_onComplete commit_frame)

text \<open>No run of the component, from mounting on, ever calls \<^verbatim>\<open>onComplete\<close>.\<close>

lemma onComplete_never_called: "onComplete_calls (run (mount q d supported) es) = []"
proof -
  have "onComplete_calls (run s es) = onComplete_calls s" for s
    unfolding run_def by (induction es arbitrary: s) (simp_all add: step_onComplete)
  then show ?thesis
    by (simp add: mount_def commit_frame init_def)
qed

text \<open>
  Claim C1. The component takes \<^verbatim>\<open>onComplete\<close> among its props and never calls it. On the
  typing path (narration, keyboard, a typed answer, Done) the flow is in REVIEW with the
  answer as transcript and the callback has not been called, nor is it called when the
  component is unmounted after that.
\<close>

theorem typed_answer_completes_without_callback:
  "flowState (run (mount example_question False True)
      (narrated @ [ClickKeyboard, TypeText ''my answer'', ClickTypingDone])) = REVIEW \<and>
   transcript (run (mount example_question False True)
      (narrated @ [ClickKeyboard, TypeText ''my answer'', ClickTypingDone])) = ''my answer'' \<and>
   onComplete_calls (run (mount example_question False True)
      (narrated @ [ClickKeyboard, TypeText ''my answer'', ClickTypingDone])) = [] \<and>
   onComplete_calls (run (mount example_question False True)
      (narrated @ [ClickKeyboard, TypeText ''my answer'', ClickTypingDone, Unmount])) = []"
  by code_simp

subsection \<open>Device streams\<close>

text \<open>
  Claim C3. On the camera path the preview opens stream 0. Pressing Start records from
  stream 0 and moves to RECORDING_CAMERA, where the flow-state effect calls
  \<^verbatim>\<open>startCamera\<close> again: stream 1 opens while stream 0 is live, so two capture streams
  are open at once. Leaving for REVIEW stops stream 1 only; stream 0 stays open.
\<close>

theorem camera_recording_opens_second_stream:
  "flowState (run (mount example_question False True)
      (narrated @ [ClickVideo, GumResolved 0])) = PREVIEW_CAMERA \<and>
   open_streams (run (mount example_question False True)
      (narrated @ [ClickVideo, GumResolved 0])) = [0] \<and>
   flowState (run (mount example_question False True)
      (narrated @ [ClickVideo, GumResolved 0, ClickCameraStart, GumResolved 0])) = RECORDING_CAMERA \<and>
   open_streams (run (mount example_question False True)
      (narrated @ [ClickVideo, GumResolved 0, ClickCameraStart, GumResolved 0])) = [0, 1] \<and>
   flowState (run (mount example_question False True)
      (narrated @ [ClickVideo, GumResolved 0, ClickCameraStart, GumResolved 0,
                   ClickCameraStop, RecorderStopped 0 ''blob:video''])) = REVIEW \<and>
   open_streams (run (mount example_question False True)
      (narrated @ [ClickVideo, GumResolved 0, ClickCameraStart, GumResolved 0,
                   ClickCameraStop, RecorderStopped 0 ''blob:video''])) = [0]"
  by code_simp

text \<open>
  Claim C4. The cleanup of the question effect reads the \<^verbatim>\<open>voiceStream\<close> of the render
  in which the effect ran, which is \<^verbatim>\<open>null\<close> at mount. Unmounting, or changing the
  question, during a voice recording therefore leaves the microphone stream 0 live; the
  recognizer instance that is listening (instance 2, no longer the one in
  \<^verbatim>\<open>recognitionRef\<close>) is not stopped either.
\<close>

theorem cleanup_leaves_microphone_open:
  "flowState (run (mount example_question False True)
      (narrated @ [ClickMic, GumResolved 0])) = RECORDING_VOICE \<and>
   voiceStream (run (mount example_question False True)
      (narrated @ [ClickMic, GumResolved 0])) = Some 0 \<and>
   unmounted (run (mount example_question False True)
      (narrated @ [ClickMic, GumResolved 0, Unmount])) \<and>
   open_streams (run (mount example_question False True)
      (narrated @ [ClickMic, GumResolved 0, Unmount])) = [0] \<and>
   listening_recognizers (run (mount example_question False True)
      (narrated @ [ClickMic, GumResolved 0, Unmount])) = [2] \<and>
   open_streams (run (mount example_question False True)
      (narrated @ [ClickMic, GumResolved 0, QuestionChanged other_question])) = [0] \<and>
   voiceStream (run (mount example_question False True)
      (narrated @ [ClickMic, GumResolved 0, QuestionChanged other_question])) = None"
  by code_simp

subsection \<open>The artifact held in REVIEW\<close>

lemma render_pass_flowState:
  "flowState (render_pass s) = (if deps_question s \<noteq> Some (question s) then READING else flowState s)"
  by (simp add: render_pass_def)

lemma commit_flowState:
  "flowState (commit s) = (if deps_question s \<noteq> Some (question s) then READING else flowState s)"
  by (simp add: commit_def render_pass_flowState render_pass_deps)

lemma active_recorder_cong:
  "mediaRecorderRef s' = mediaRecorderRef s \<Longrightarrow> recorders s' = recorders s \<Longrightarrow>
   active_recorder mode s' = active_recorder mode s"
  by (simp add: active_recorder_def split: option.splits)

lemma recorder_matches_flow_commit:
  "recorder_matches_flow s \<Longrightarrow> recorder_matches_flow (commit s)"
  by (simp add: recorder_matches_flow_def commit_flowState
        active_recorder_cong[of "commit s" s] commit_frame)

text \<open>A step that leaves the recorder alone and does not enter a recording state.\<close>

lemma recorder_matches_flow_keep:
  assumes "recorder_matches_flow s"
    and "mediaRecorderRef s' = mediaRecorderRef s" and "recorders s' = recorders s"
    and "flowState s' = flowState s \<or>
         (flowState s' \<noteq> RECORDING_VOICE \<and> flowState s' \<noteq> RECORDING_CAMERA)"
  shows "recorder_matches_flow s'"
  using assms by (auto simp: recorder_matches_flow_def active_recorder_cong[of s' s])

lemma togglePause_recorder:
  "active_recorder mode s \<Longrightarrow> active_recorder mode (togglePause s)"
  by (auto simp: togglePause_def active_recorder_def Let_def split: option.splits)

lemma startRecording_rest_recorder:
  "recorder_matches_flow (startRecording_rest mode h s)"
  by (cases mode) (simp_all add: startRecording_rest_def recorder_matches_flow_def active_recorder_def Let_def)

lemma stopRecordingMedia_recorder:
  "recorder_matches_flow s \<Longrightarrow> recorder_matches_flow (stopRecordingMedia s)"
  by (auto simp: stopRecordingMedia_def recorder_matches_flow_def split: option.splits)

lemma recorder_onstop_recorder:
  "m < length (recorders s) \<Longrightarrow> active_recorder mode s \<Longrightarrow> active_recorder mode (recorder_onstop m u s)"
  by (auto simp: recorder_onstop_def active_recorder_def Let_def stop_tracks_def nth_list_update
      split: option.splits)

lemma flowState_narration_ended:
  "flowState (narration_ended ow s) = flowState s \<or>
   (flowState (narration_ended ow s) \<noteq> RECORDING_VOICE \<and>
    flowState (narration_ended ow s) \<noteq> RECORDING_CAMERA)"
  by (cases ow) (auto simp: narration_ended_def startNextMode_def startRecording_def split: RedoMode.splits)

lemma flowState_initiateRedo:
  "flowState (initiateRedo mode s) \<noteq> RECORDING_VOICE"
  "flowState (initiateRedo mode s) \<noteq> RECORDING_CAMERA"
  by (simp_all add: initiateRedo_def performRedo_def Let_def speechSynthesis_cancel_def)

lemma flowState_performRedo:
  "flowState (performRedo mode s) = READING"
  by (simp add: performRedo_def Let_def speechSynthesis_cancel_def)

lemma recorder_matches_flow_fire:
  assumes "recorder_matches_flow s"
  shows "recorder_matches_flow (fire e s)"
proof (cases e)
  case ClickPause
  then show ?thesis
    using assms by (auto simp: fire.simps recorder_matches_flow_def togglePause_recorder)
next
  case ClickVoiceDone
  then show ?thesis using assms by (simp add: fire.simps stopRecordingMedia_recorder)
next
  case ClickCameraStop
  then show ?thesis using assms by (simp add: fire.simps stopRecordingMedia_recorder)
next
  case ClickCameraStart
  then show ?thesis
    using assms by (simp add: fire.simps startRecording_def startRecording_rest_recorder split: option.splits)
next
  case (GumResolved k)
  then show ?thesis
    using assms
    by (auto simp: fire.simps gum_resolved_def Let_def startRecording_rest_recorder
          intro: recorder_matches_flow_keep[OF assms] split: GumRequest.splits)
next
  case (RecorderStopped m u)
  then show ?thesis
    using assms by (auto simp: fire.simps recorder_matches_flow_def recorder_onstop_recorder)
next
  case (SourceEnded n)
  show ?thesis
    by (rule recorder_matches_flow_keep[OF assms])
       (use SourceEnded flowState_narration_ended[of "owner (narrations s ! n)" "set_stage n Finished s"]
         in \<open>auto simp: fire.simps\<close>)
next
  case (UtteranceEnded n)
  show ?thesis
    by (rule recorder_matches_flow_keep[OF assms])
       (use UtteranceEnded flowState_narration_ended[of "owner (narrations s ! n)" "set_stage n Finished s"]
         in \<open>auto simp: fire.simps\<close>)
next
  case (ClickRedo mode)
  show ?thesis
    by (rule recorder_matches_flow_keep[OF assms])
       (use ClickRedo flowState_initiateRedo[of mode s] in \<open>auto simp: fire.simps\<close>)
next
  case ClickYes
  show ?thesis
    by (rule recorder_matches_flow_keep[OF assms])
       (use ClickYes in \<open>auto simp: fire.simps flowState_performRedo split: option.splits\<close>)
qed (rule recorder_matches_flow_keep[OF assms];
     simp add: fire.simps handleVoiceStart_def handleTypingDone_def startRecording_def
       recognition_onresult_def)+


lemma commit_urls:
  "recordedVideoUrl (commit s) =
     (if deps_question s \<noteq> Some (question s) then None else recordedVideoUrl s)"
  "recordedAudioUrl (commit s) =
     (if deps_question s \<noteq> Some (question s) then None else recordedAudioUrl s)"
proof -
  have r: "recordedVideoUrl (render_pass x) =
             (if deps_question x \<noteq> Some (question x) then None else recordedVideoUrl x)"
          "recordedAudioUrl (render_pass x) =
             (if deps_question x \<noteq> Some (question x) then None else recordedAudioUrl x)" for x
    by (simp_all add: render_pass_def question_phase_def question_effect_def)
  show "recordedVideoUrl (commit s) =
     (if deps_question s \<noteq> Some (question s) then None else recordedVideoUrl s)"
    and "recordedAudioUrl (commit s) =
     (if deps_question s \<noteq> Some (question s) then None else recordedAudioUrl s)"
    by (simp_all add: commit_def r render_pass_deps)
qed

lemma no_artifact_commit: "no_artifact s \<Longrightarrow> no_artifact (commit s)"
  by (simp add: no_artifact_def commit_urls)

lemma no_artifact_fire:
  assumes "no_artifact s" and "\<not> is_RecorderStopped e"
  shows "no_artifact (fire e s)"
  using assms
  by (cases e)
     (simp_all add: fire.simps no_artifact_def handleVoiceStart_def handleTypingDone_def
        initiateRedo_def performRedo_def Let_def speechSynthesis_cancel_def
        recognition_onresult_def split: option.splits)

lemma unmount_keeps:
  "recorder_matches_flow (unmount s) = recorder_matches_flow s"
  "no_artifact (unmount s) = no_artifact s"
  by (simp_all add: unmount_def recorder_matches_flow_def no_artifact_def
        active_recorder_cong[of "(question_cleanup (s\<lparr>interval_on := False, playbackAudioRef := None\<rparr>))\<lparr>unmounted := True\<rparr>" s])

lemma recorder_matches_flow_step:
  "recorder_matches_flow s \<Longrightarrow> recorder_matches_flow (step s e)"
  by (simp add: step_def unmount_keeps recorder_matches_flow_commit recorder_matches_flow_fire)

lemma no_artifact_step:
  "no_artifact s \<Longrightarrow> \<not> is_RecorderStopped e \<Longrightarrow> no_artifact (step s e)"
  by (simp add: step_def unmount_keeps no_artifact_commit no_artifact_fire)

lemma recorder_matches_flow_run:
  "recorder_matches_flow s \<Longrightarrow> recorder_matches_flow (run s es)"
  unfolding run_def by (induction es arbitrary: s) (simp_all add: recorder_matches_flow_step)

lemma no_artifact_run:
  "no_artifact s \<Longrightarrow> \<forall>e\<in>set es. \<not> is_RecorderStopped e \<Longrightarrow> no_artifact (run s es)"
  unfolding run_def by (induction es arbitrary: s) (simp_all add: no_artifact_step)

lemma mount_invariants:
  "recorder_matches_flow (mount q d supported)" "no_artifact (mount q d supported)"
proof -
  have "recorder_matches_flow (init q d supported)" "no_artifact (init q d supported)"
    by (simp_all add: init_def recorder_matches_flow_def no_artifact_def)
  then show "recorder_matches_flow (mount q d supported)" "no_artifact (mount q d supported)"
    by (simp_all add: mount_def recorder_matches_flow_commit no_artifact_commit)
qed

text \<open>The last two events of each path, from a settled state.\<close>

lemma typing_done:
  assumes "settled x" and "\<not> unmounted x" and "flowState x = TYPING"
  shows "flowState (run x [TypeText t, ClickTypingDone]) = REVIEW"
    and "transcript (run x [TypeText t, ClickTypingDone]) = t"
    and "recordedVideoUrl (run x [TypeText t, ClickTypingDone]) = recordedVideoUrl x"
    and "recordedAudioUrl (run x [TypeText t, ClickTypingDone]) = recordedAudioUrl x"
proof -
  let ?x1 = "step x (TypeText t)"
  have q: "deps_question x = Some (question x)"
    using assms(1) by (simp add: settled_def)
  have f1: "fire (TypeText t) x = x\<lparr>transcript := t\<rparr>"
    using assms(3) by (simp add: fire.simps)
  have x1: "?x1 = commit (x\<lparr>transcript := t\<rparr>)"
    using assms(2) by (simp add: step_commit f1)
  have v1: "flowState ?x1 = TYPING" "transcript ?x1 = t" "recordedVideoUrl ?x1 = recordedVideoUrl x"
    "recordedAudioUrl ?x1 = recordedAudioUrl x" "\<not> unmounted ?x1" "settled ?x1"
    using q assms(2,3) by (simp_all add: x1 commit_keeps commit_frame settled_commit)
  have q1: "deps_question ?x1 = Some (question ?x1)"
    using v1(6) by (simp add: settled_def)
  have f2: "fire ClickTypingDone ?x1 = ?x1\<lparr>flowState := REVIEW\<rparr>"
    using v1(1) by (simp add: fire.simps handleTypingDone_def)
  have x2: "run x [TypeText t, ClickTypingDone] = commit (?x1\<lparr>flowState := REVIEW\<rparr>)"
    using v1(5) by (simp add: run_def step_commit[of ?x1] f2)
  show "flowState (run x [TypeText t, ClickTypingDone]) = REVIEW"
    and "transcript (run x [TypeText t, ClickTypingDone]) = t"
    and "recordedVideoUrl (run x [TypeText t, ClickTypingDone]) = recordedVideoUrl x"
    and "recordedAudioUrl (run x [TypeText t, ClickTypingDone]) = recordedAudioUrl x"
    using q1 v1 by (simp_all add: x2 commit_keeps)
qed

lemma recording_done:
  assumes "settled x" and "\<not> unmounted x"
    and "e = ClickVoiceDone \<and> flowState x = RECORDING_VOICE \<or>
         e = ClickCameraStop \<and> flowState x = RECORDING_CAMERA"
    and "mediaRecorderRef x = Some m" and "m < length (recorders x)"
    and "rec_state (recorders x ! m) \<noteq> inactive"
  shows "flowState (run x [e, RecorderStopped m u]) = REVIEW"
    and "transcript (run x [e, RecorderStopped m u]) = transcript x"
    and "recordedVideoUrl (run x [e, RecorderStopped m u]) =
           (if rec_mode (recorders x ! m) = video then Some u else recordedVideoUrl x)"
    and "recordedAudioUrl (run x [e, RecorderStopped m u]) =
           (if rec_mode (recorders x ! m) = video then recordedAudioUrl x else Some u)"
proof -
  let ?x1 = "step x e"
  have q: "deps_question x = Some (question x)"
    using assms(1) by (simp add: settled_def)
  have f1: "fire e x = stopRecordingMedia x"
    using assms(3) by (auto simp: fire.simps)
  have s1: "stopRecordingMedia x =
              x\<lparr>recorders := (recorders x)[m := (recorders x ! m)\<lparr>rec_state := inactive, stop_pending := True\<rparr>],
                flowState := REVIEW\<rparr>"
    using assms(4,5,6) by (simp add: stopRecordingMedia_def)
  have ne: "e \<noteq> Unmount" using assms(3) by auto
  have x1: "?x1 = commit (stopRecordingMedia x)"
    using assms(2) ne by (simp add: step_commit f1)
  have v1: "flowState ?x1 = REVIEW" "transcript ?x1 = transcript x"
    "recordedVideoUrl ?x1 = recordedVideoUrl x" "recordedAudioUrl ?x1 = recordedAudioUrl x"
    "\<not> unmounted ?x1" "settled ?x1"
    "recorders ?x1 = (recorders x)[m := (recorders x ! m)\<lparr>rec_state := inactive, stop_pending := True\<rparr>]"
    using q assms(2) by (simp_all add: x1 commit_keeps commit_frame settled_commit) (simp_all add: s1)
  have q1: "deps_question ?x1 = Some (question ?x1)"
    using v1(6) by (simp add: settled_def)
  have f2: "fire (RecorderStopped m u) ?x1 = recorder_onstop m u ?x1"
    using assms(5) by (simp add: fire.simps v1(7))
  have x2: "run x [e, RecorderStopped m u] = commit (recorder_onstop m u ?x1)"
    using v1(5) by (simp add: run_def step_commit[of ?x1] f2)
  have fl: "flowState (recorder_onstop m u ?x1) = REVIEW"
    using v1(1) by simp
  have tr: "transcript (recorder_onstop m u ?x1) = transcript x"
    using v1(2) by (simp add: recorder_onstop_def Let_def stop_tracks_def)
  have rv: "recordedVideoUrl (recorder_onstop m u ?x1) =
             (if rec_mode (recorders x ! m) = video then Some u else recordedVideoUrl x)"
    using assms(5) v1(3) by (simp add: recorder_onstop_def Let_def stop_tracks_def v1(7))
  have ra: "recordedAudioUrl (recorder_onstop m u ?x1) =
             (if rec_mode (recorders x ! m) = video then recordedAudioUrl x else Some u)"
    using assms(5) v1(4) by (simp add: recorder_onstop_def Let_def stop_tracks_def v1(7))
  have q2: "deps_question (recorder_onstop m u ?x1) = Some (question (recorder_onstop m u ?x1))"
    using q1 by simp
  show "flowState (run x [e, RecorderStopped m u]) = REVIEW"
    and "transcript (run x [e, RecorderStopped m u]) = transcript x"
    and "recordedVideoUrl (run x [e, RecorderStopped m u]) =
           (if rec_mode (recorders x ! m) = video then Some u else recordedVideoUrl x)"
    and "recordedAudioUrl (run x [e, RecorderStopped m u]) =
           (if rec_mode (recorders x ! m) = video then recordedAudioUrl x else Some u)"
    by (simp_all only: x2 commit_keeps[OF q2] fl tr rv ra)
qed

lemma run_append: "run s (es @ es') = run (run s es) es'"
  by (simp add: run_def)

lemma reachable_invariants:
  "settled (run (mount q d supported) es)" "recorder_matches_flow (run (mount q d supported) es)"
  by (simp_all add: settled_run settled_mount recorder_matches_flow_run mount_invariants)

text \<open>Before any recorder has delivered its stop event, no URL is held.\<close>

lemma first_answer_no_artifact:
  "\<forall>e\<in>set es. \<not> is_RecorderStopped e \<Longrightarrow> no_artifact (run (mount q d supported) es)"
  by (simp add: no_artifact_run mount_invariants)

text \<open>
  The paths that start with no recorded URL held. Take any run of the component from
  mounting on that has left it mounted and holding no recorded URL (always so before the
  first stop event of a recorder, lemma \<open>first_answer_no_artifact\<close>). If the flow is in
  TYPING, typing a text and pressing Done gives REVIEW with that text as transcript and no
  media URL. If it is in RECORDING_VOICE, there is a current recorder, and pressing Done
  followed by the recorder's stop event gives REVIEW with the audio URL set, no video URL,
  and the transcript recognised so far. If it is in RECORDING_CAMERA, likewise with the
  video URL set and no audio URL.
\<close>

lemma answer_shape_without_held_url:
  assumes "\<not> unmounted (run (mount q d supported) es)" and "no_artifact (run (mount q d supported) es)"
  shows "(flowState (run (mount q d supported) es) = TYPING \<longrightarrow>
            flowState (run (mount q d supported) (es @ [TypeText t, ClickTypingDone])) = REVIEW \<and>
            transcript (run (mount q d supported) (es @ [TypeText t, ClickTypingDone])) = t \<and>
            recordedAudioUrl (run (mount q d supported) (es @ [TypeText t, ClickTypingDone])) = None \<and>
            recordedVideoUrl (run (mount q d supported) (es @ [TypeText t, ClickTypingDone])) = None) \<and>
         (flowState (run (mount q d supported) es) = RECORDING_VOICE \<longrightarrow>
            (case mediaRecorderRef (run (mount q d supported) es) of
               None \<Rightarrow> False
             | Some m \<Rightarrow>
                 flowState (run (mount q d supported) (es @ [ClickVoiceDone, RecorderStopped m u])) = REVIEW \<and>
                 recordedAudioUrl (run (mount q d supported) (es @ [ClickVoiceDone, RecorderStopped m u])) = Some u \<and>
                 recordedVideoUrl (run (mount q d supported) (es @ [ClickVoiceDone, RecorderStopped m u])) = None \<and>
                 transcript (run (mount q d supported) (es @ [ClickVoiceDone, RecorderStopped m u])) =
                   transcript (run (mount q d supported) es))) \<and>
         (flowState (run (mount q d supported) es) = RECORDING_CAMERA \<longrightarrow>
            (case mediaRecorderRef (run (mount q d supported) es) of
               None \<Rightarrow> False
             | Some m \<Rightarrow>
                 flowState (run (mount q d supported) (es @ [ClickCameraStop, RecorderStopped m u])) = REVIEW \<and>
                 recordedVideoUrl (run (mount q d supported) (es @ [ClickCameraStop, RecorderStopped m u])) = Some u \<and>
                 recordedAudioUrl (run (mount q d supported) (es @ [ClickCameraStop, RecorderStopped m u])) = None \<and>
                 transcript (run (mount q d supported) (es @ [ClickCameraStop, RecorderStopped m u])) =
                   transcript (run (mount q d supported) es)))"
proof -
  let ?x = "run (mount q d supported) es"
  note inv = reachable_invariants[of q d supported es]
  have urls: "recordedVideoUrl ?x = None" "recordedAudioUrl ?x = None"
    using assms(2) by (simp_all add: no_artifact_def)
  have T: "flowState ?x = TYPING \<longrightarrow>
            flowState (run ?x [TypeText t, ClickTypingDone]) = REVIEW \<and>
            transcript (run ?x [TypeText t, ClickTypingDone]) = t \<and>
            recordedAudioUrl (run ?x [TypeText t, ClickTypingDone]) = None \<and>
            recordedVideoUrl (run ?x [TypeText t, ClickTypingDone]) = None"
    using typing_done[OF inv(1) assms(1)] urls by simp
  have V: "flowState ?x = RECORDING_VOICE \<longrightarrow>
            (case mediaRecorderRef ?x of
               None \<Rightarrow> False
             | Some m \<Rightarrow>
                 flowState (run ?x [ClickVoiceDone, RecorderStopped m u]) = REVIEW \<and>
                 recordedAudioUrl (run ?x [ClickVoiceDone, RecorderStopped m u]) = Some u \<and>
                 recordedVideoUrl (run ?x [ClickVoiceDone, RecorderStopped m u]) = None \<and>
                 transcript (run ?x [ClickVoiceDone, RecorderStopped m u]) = transcript ?x)"
  proof
    assume fs: "flowState ?x = RECORDING_VOICE"
    with inv(2) have "active_recorder audio ?x"
      by (simp add: recorder_matches_flow_def)
    then obtain m where m: "mediaRecorderRef ?x = Some m" "m < length (recorders ?x)"
      "rec_mode (recorders ?x ! m) = audio" "rec_state (recorders ?x ! m) \<noteq> inactive"
      by (auto simp: active_recorder_def split: option.splits)
    from fs have e: "ClickVoiceDone = ClickVoiceDone \<and> flowState ?x = RECORDING_VOICE \<or>
         ClickVoiceDone = ClickCameraStop \<and> flowState ?x = RECORDING_CAMERA" by simp
    show "case mediaRecorderRef ?x of
               None \<Rightarrow> False
             | Some m \<Rightarrow>
                 flowState (run ?x [ClickVoiceDone, RecorderStopped m u]) = REVIEW \<and>
                 recordedAudioUrl (run ?x [ClickVoiceDone, RecorderStopped m u]) = Some u \<and>
                 recordedVideoUrl (run ?x [ClickVoiceDone, RecorderStopped m u]) = None \<and>
                 transcript (run ?x [ClickVoiceDone, RecorderStopped m u]) = transcript ?x"
      using recording_done[OF inv(1) assms(1) e m(1,2,4), of u] m(1,3) urls by simp
  qed
  have C: "flowState ?x = RECORDING_CAMERA \<longrightarrow>
            (case mediaRecorderRef ?x of
               None \<Rightarrow> False
             | Some m \<Rightarrow>
                 flowState (run ?x [ClickCameraStop, RecorderStopped m u]) = REVIEW \<and>
                 recordedVideoUrl (run ?x [ClickCameraStop, RecorderStopped m u]) = Some u \<and>
                 recordedAudioUrl (run ?x [ClickCameraStop, RecorderStopped m u]) = None \<and>
                 transcript (run ?x [ClickCameraStop, RecorderStopped m u]) = transcript ?x)"
  proof
    assume fs: "flowState ?x = RECORDING_CAMERA"
    with inv(2) have "active_recorder video ?x"
      by (simp add: recorder_matches_flow_def)
    then obtain m where m: "mediaRecorderRef ?x = Some m" "m < length (recorders ?x)"
      "rec_mode (recorders ?x ! m) = video" "rec_state (recorders ?x ! m) \<noteq> inactive"
      by (auto simp: active_recorder_def split: option.splits)
    from fs have e: "ClickCameraStop = ClickVoiceDone \<and> flowState ?x = RECORDING_VOICE \<or>
         ClickCameraStop = ClickCameraStop \<and> flowState ?x = RECORDING_CAMERA" by simp
    show "case mediaRecorderRef ?x of
               None \<Rightarrow> False
             | Some m \<Rightarrow>
                 flowState (run ?x [ClickCameraStop, RecorderStopped m u]) = REVIEW \<and>
                 recordedVideoUrl (run ?x [ClickCameraStop, RecorderStopped m u]) = Some u \<and>
                 recordedAudioUrl (run ?x [ClickCameraStop, RecorderStopped m u]) = None \<and>
                 transcript (run ?x [ClickCameraStop, RecorderStopped m u]) = transcript ?x"
      using recording_done[OF inv(1) assms(1) e m(1,2,4), of u] m(1,3) urls by simp
  qed
  from T V C show ?thesis by (simp only: run_append) 
qed

lemma answer_shape_without_held_url_example:
  "\<not> unmounted (run (mount example_question False True) (narrated @ [ClickKeyboard])) \<and>
   no_artifact (run (mount example_question False True) (narrated @ [ClickKeyboard])) \<and>
   flowState (run (mount example_question False True) (narrated @ [ClickKeyboard])) = TYPING \<and>
   flowState (run (mount example_question False True)
      ((narrated @ [ClickKeyboard]) @ [TypeText ''typed'', ClickTypingDone])) = REVIEW \<and>
   transcript (run (mount example_question False True)
      ((narrated @ [ClickKeyboard]) @ [TypeText ''typed'', ClickTypingDone])) = ''typed'' \<and>
   recordedAudioUrl (run (mount example_question False True)
      ((narrated @ [ClickKeyboard]) @ [TypeText ''typed'', ClickTypingDone])) = None \<and>
   \<not> unmounted (run (mount example_question False True)
      (narrated @ [ClickMic, GumResolved 0, RecognitionResult 2 [(True, ''said'')]])) \<and>
   no_artifact (run (mount example_question False True)
      (narrated @ [ClickMic, GumResolved 0, RecognitionResult 2 [(True, ''said'')]])) \<and>
   flowState (run (mount example_question False True)
      (narrated @ [ClickMic, GumResolved 0, RecognitionResult 2 [(True, ''said'')]])) = RECORDING_VOICE \<and>
   mediaRecorderRef (run (mount example_question False True)
      (narrated @ [ClickMic, GumResolved 0, RecognitionResult 2 [(True, ''said'')]])) = Some 0 \<and>
   flowState (run (mount example_question False True)
      ((narrated @ [ClickMic, GumResolved 0, RecognitionResult 2 [(True, ''said'')]]) @
        [ClickVoiceDone, RecorderStopped 0 ''blob:a''])) = REVIEW \<and>
   recordedAudioUrl (run (mount example_question False True)
      ((narrated @ [ClickMic, GumResolved 0, RecognitionResult 2 [(True, ''said'')]]) @
        [ClickVoiceDone, RecorderStopped 0 ''blob:a''])) = Some ''blob:a'' \<and>
   recordedVideoUrl (run (mount example_question False True)
      ((narrated @ [ClickMic, GumResolved 0, RecognitionResult 2 [(True, ''said'')]]) @
        [ClickVoiceDone, RecorderStopped 0 ''blob:a''])) = None \<and>
   transcript (run (mount example_question False True)
      ((narrated @ [ClickMic, GumResolved 0, RecognitionResult 2 [(True, ''said'')]]) @
        [ClickVoiceDone, RecorderStopped 0 ''blob:a''])) = ''said '' \<and>
   \<not> unmounted (run (mount example_question False True)
      (narrated @ [ClickVideo, GumResolved 0, ClickCameraStart])) \<and>
   no_artifact (run (mount example_question False True)
      (narrated @ [ClickVideo, GumResolved 0, ClickCameraStart])) \<and>
   flowState (run (mount example_question False True)
      (narrated @ [ClickVideo, GumResolved 0, ClickCameraStart])) = RECORDING_CAMERA \<and>
   mediaRecorderRef (run (mount example_question False True)
      (narrated @ [ClickVideo, GumResolved 0, ClickCameraStart])) = Some 0 \<and>
   flowState (run (mount example_question False True)
      ((narrated @ [ClickVideo, GumResolved 0, ClickCameraStart]) @
        [ClickCameraStop, RecorderStopped 0 ''blob:v''])) = REVIEW \<and>
   recordedVideoUrl (run (mount example_question False True)
      ((narrated @ [ClickVideo, GumResolved 0, ClickCameraStart]) @
        [ClickCameraStop, RecorderStopped 0 ''blob:v''])) = Some ''blob:v'' \<and>
   recordedAudioUrl (run (mount example_question False True)
      ((narrated @ [ClickVideo, GumResolved 0, ClickCameraStart]) @
        [ClickCameraStop, RecorderStopped 0 ''blob:v''])) = None"
proof -
  let ?T = "run (mount example_question False True) (narrated @ [ClickKeyboard])"
  let ?V = "run (mount example_question False True)
      (narrated @ [ClickMic, GumResolved 0, RecognitionResult 2 [(True, ''said'')]])"
  let ?C = "run (mount example_question False True)
      (narrated @ [ClickVideo, GumResolved 0, ClickCameraStart])"
  have t: "\<not> unmounted ?T" "no_artifact ?T" "flowState ?T = TYPING"
    by code_simp+
  have v: "\<not> unmounted ?V" "no_artifact ?V" "flowState ?V = RECORDING_VOICE"
    "mediaRecorderRef ?V = Some 0" "transcript ?V = ''said ''"
    by code_simp+
  have c: "\<not> unmounted ?C" "no_artifact ?C" "flowState ?C = RECORDING_CAMERA"
    "mediaRecorderRef ?C = Some 0"
    by code_simp+
  from answer_shape_without_held_url[OF t(1,2), of "''typed''"] answer_shape_without_held_url[OF v(1,2), of _ "''blob:a''"]
    answer_shape_without_held_url[OF c(1,2), of _ "''blob:v''"] t v c
  show ?thesis by simp
qed

text \<open>
  Claim C2. Completing the path of an input kind puts the flow in REVIEW holding an
  artifact of that kind's shape: for voice an audio URL and the transcript, and no video
  URL. This fails when the voice path starts while a URL is held. \<^verbatim>\<open>performRedo\<close> erases
  both URLs before an answer is redone; the continuation of \<^verbatim>\<open>startRecording\<close> after
  \<^verbatim>\<open>getUserMedia\<close> erases the transcript and sets RECORDING_VOICE, in whatever state the
  flow is by then, and leaves the URLs. The microphone is requested and, while the
  permission is undecided, the camera path is taken and completed: REVIEW holds the video
  URL only. The permission is then granted: the flow leaves REVIEW for RECORDING_VOICE
  with the video URL still held, and completing the voice path gives REVIEW holding the
  audio URL and the video URL.
\<close>

theorem voice_answer_keeps_video_url:
  "flowState (run (mount example_question False True)
      (narrated @ [ClickMic, ClickVideo])) = PREVIEW_CAMERA \<and>
   pending_gum (run (mount example_question False True)
      (narrated @ [ClickMic, ClickVideo])) = [ForVoiceRecording, ForCamera] \<and>
   flowState (run (mount example_question False True)
      (narrated @ [ClickMic, ClickVideo, GumResolved 1, ClickCameraStart, ClickCameraStop,
                   RecorderStopped 0 ''blob:video''])) = REVIEW \<and>
   recordedVideoUrl (run (mount example_question False True)
      (narrated @ [ClickMic, ClickVideo, GumResolved 1, ClickCameraStart, ClickCameraStop,
                   RecorderStopped 0 ''blob:video''])) = Some ''blob:video'' \<and>
   recordedAudioUrl (run (mount example_question False True)
      (narrated @ [ClickMic, ClickVideo, GumResolved 1, ClickCameraStart, ClickCameraStop,
                   RecorderStopped 0 ''blob:video''])) = None \<and>
   flowState (run (mount example_question False True)
      (narrated @ [ClickMic, ClickVideo, GumResolved 1, ClickCameraStart, ClickCameraStop,
                   RecorderStopped 0 ''blob:video'', GumResolved 0])) = RECORDING_VOICE \<and>
   mediaRecorderRef (run (mount example_question False True)
      (narrated @ [ClickMic, ClickVideo, GumResolved 1, ClickCameraStart, ClickCameraStop,
                   RecorderStopped 0 ''blob:video'', GumResolved 0])) = Some 1 \<and>
   recordedVideoUrl (run (mount example_question False True)
      (narrated @ [ClickMic, ClickVideo, GumResolved 1, ClickCameraStart, ClickCameraStop,
                   RecorderStopped 0 ''blob:video'', GumResolved 0])) = Some ''blob:video'' \<and>
   flowState (run (mount example_question False True)
      (narrated @ [ClickMic, ClickVideo, GumResolved 1, ClickCameraStart, ClickCameraStop,
                   RecorderStopped 0 ''blob:video'', GumResolved 0, ClickVoiceDone,
                   RecorderStopped 1 ''blob:audio''])) = REVIEW \<and>
   recordedAudioUrl (run (mount example_question False True)
      (narrated @ [ClickMic, ClickVideo, GumResolved 1, ClickCameraStart, ClickCameraStop,
                   RecorderStopped 0 ''blob:video'', GumResolved 0, ClickVoiceDone,
                   RecorderStopped 1 ''blob:audio''])) = Some ''blob:audio'' \<and>
   recordedVideoUrl (run (mount example_question False True)
      (narrated @ [ClickMic, ClickVideo, GumResolved 1, ClickCameraStart, ClickCameraStop,
                   RecorderStopped 0 ''blob:video'', GumResolved 0, ClickVoiceDone,
                   RecorderStopped 1 ''blob:audio''])) = Some ''blob:video''"
  by code_simp

subsection \<open>Pausing\<close>

lemma interval_matches_render_pass:
  "interval_matches s \<Longrightarrow> interval_matches (render_pass s)"
  by (auto simp: interval_matches_def render_pass_def timer_phase_def timer_effect_def)

lemma interval_matches_commit: "interval_matches s \<Longrightarrow> interval_matches (commit s)"
  by (simp add: commit_def interval_matches_render_pass)

lemma interval_matches_fire: "interval_matches s \<Longrightarrow> interval_matches (fire e s)"
  by (simp add: interval_matches_def)

lemma interval_matches_unmount: "interval_matches (unmount s)"
  by (simp add: interval_matches_def unmount_def)

lemma interval_matches_step: "interval_matches s \<Longrightarrow> interval_matches (step s e)"
  by (simp add: step_def interval_matches_commit interval_matches_fire interval_matches_unmount)

lemma interval_matches_run: "interval_matches s \<Longrightarrow> interval_matches (run s es)"
  unfolding run_def by (induction es arbitrary: s) (simp_all add: interval_matches_step)

lemma interval_matches_mount: "interval_matches (mount q d supported)"
proof -
  have "interval_matches (init q d supported)"
    by (simp add: interval_matches_def init_def)
  then show ?thesis
    by (simp add: mount_def interval_matches_commit)
qed

text \<open>
  While the component is mounted, a tick of the interval adds one second exactly when the
  flow is in a recording state and not paused, and in RECORDING_VOICE the pause button
  flips \<^verbatim>\<open>isPaused\<close>: the counter stops and resumes in step with the recorder.
\<close>

lemma counter_follows_pause:
  assumes "\<not> unmounted (run (mount q d supported) es)"
  shows "recordingDuration (step (run (mount q d supported) es) Tick) =
           (if (flowState (run (mount q d supported) es) = RECORDING_VOICE \<or>
                flowState (run (mount q d supported) es) = RECORDING_CAMERA) \<and>
               \<not> isPaused (run (mount q d supported) es)
            then recordingDuration (run (mount q d supported) es) + 1
            else recordingDuration (run (mount q d supported) es)) \<and>
         (flowState (run (mount q d supported) es) = RECORDING_VOICE \<longrightarrow>
            isPaused (step (run (mount q d supported) es) ClickPause) =
              (\<not> isPaused (run (mount q d supported) es)) \<and>
            flowState (step (run (mount q d supported) es) ClickPause) = RECORDING_VOICE)"
proof -
  let ?x = "run (mount q d supported) es"
  have st: "settled ?x" and rm: "recorder_matches_flow ?x"
    by (rule reachable_invariants)+
  have im: "interval_matches ?x"
    by (simp add: interval_matches_run interval_matches_mount)
  have q: "deps_question ?x = Some (question ?x)" and dt: "deps_timer ?x = Some (flowState ?x, isPaused ?x)"
    using st by (simp_all add: settled_def)
  have io: "interval_on ?x =
      ((flowState ?x = RECORDING_VOICE \<or> flowState ?x = RECORDING_CAMERA) \<and> \<not> isPaused ?x)"
    using im assms dt by (simp add: interval_matches_def)
  have a: "recordingDuration (step ?x Tick) =
           (if (flowState ?x = RECORDING_VOICE \<or> flowState ?x = RECORDING_CAMERA) \<and> \<not> isPaused ?x
            then recordingDuration ?x + 1 else recordingDuration ?x)"
    using assms q io by (simp add: step_commit commit_keeps) (simp add: fire.simps)
  have b: "isPaused (step ?x ClickPause) = (\<not> isPaused ?x) \<and>
           flowState (step ?x ClickPause) = RECORDING_VOICE"
    if fs: "flowState ?x = RECORDING_VOICE"
  proof -
    from rm fs have "active_recorder audio ?x"
      by (simp add: recorder_matches_flow_def)
    then obtain m where m: "mediaRecorderRef ?x = Some m" "m < length (recorders ?x)"
      "rec_state (recorders ?x ! m) \<noteq> inactive"
      by (auto simp: active_recorder_def split: option.splits)
    have "isPaused (togglePause ?x) = (\<not> isPaused ?x)"
      using m by (simp add: togglePause_def Let_def recognition_start_def recognition_stop_def
            split: option.splits)
    then show ?thesis
      using assms q fs by (simp add: step_commit commit_keeps) (simp add: fire.simps)
  qed
  from a b show ?thesis by blast
qed

lemma counter_follows_pause_example:
  "\<not> unmounted (run (mount example_question False True) (narrated @ [ClickMic, GumResolved 0, Tick])) \<and>
   flowState (run (mount example_question False True)
      (narrated @ [ClickMic, GumResolved 0, Tick])) = RECORDING_VOICE \<and>
   \<not> isPaused (run (mount example_question False True) (narrated @ [ClickMic, GumResolved 0, Tick])) \<and>
   recordingDuration (run (mount example_question False True)
      (narrated @ [ClickMic, GumResolved 0, Tick])) = 1 \<and>
   recordingDuration (step (run (mount example_question False True)
      (narrated @ [ClickMic, GumResolved 0, Tick])) Tick) = 2 \<and>
   isPaused (step (run (mount example_question False True)
      (narrated @ [ClickMic, GumResolved 0, Tick])) ClickPause) \<and>
   \<not> unmounted (run (mount example_question False True)
      (narrated @ [ClickMic, GumResolved 0, Tick, ClickPause])) \<and>
   isPaused (run (mount example_question False True)
      (narrated @ [ClickMic, GumResolved 0, Tick, ClickPause])) \<and>
   recordingDuration (step (run (mount example_question False True)
      (narrated @ [ClickMic, GumResolved 0, Tick, ClickPause])) Tick) = 1"
proof -
  let ?A = "run (mount example_question False True) (narrated @ [ClickMic, GumResolved 0, Tick])"
  let ?B = "run (mount example_question False True) (narrated @ [ClickMic, GumResolved 0, Tick, ClickPause])"
  have a: "\<not> unmounted ?A" "flowState ?A = RECORDING_VOICE" "\<not> isPaused ?A" "recordingDuration ?A = 1"
    by code_simp+
  have b: "\<not> unmounted ?B" "flowState ?B = RECORDING_VOICE" "isPaused ?B" "recordingDuration ?B = 1"
    by code_simp+
  from counter_follows_pause[OF a(1)] counter_follows_pause[OF b(1)] a b
  show ?thesis by simp
qed

text \<open>
  Claim C8. The elapsed-time counter follows the pause: two ticks before it count, a tick
  during it does not. Transcription does not: \<^verbatim>\<open>togglePause\<close> stops the instance in
  \<^verbatim>\<open>recognitionRef\<close>, which by then is a fresh instance (number 4) that was never
  started, while the instance started on entering RECORDING_VOICE (number 2) goes on
  listening, and a final result it delivers during the pause is appended to the
  transcript.
\<close>

theorem pause_does_not_stop_transcription:
  "recordingDuration (run (mount example_question False True)
      (narrated @ [ClickMic, GumResolved 0, Tick, Tick])) = 2 \<and>
   isPaused (run (mount example_question False True)
      (narrated @ [ClickMic, GumResolved 0, Tick, Tick, ClickPause])) \<and>
   transcript (run (mount example_question False True)
      (narrated @ [ClickMic, GumResolved 0, Tick, Tick, ClickPause])) = [] \<and>
   listening_recognizers (run (mount example_question False True)
      (narrated @ [ClickMic, GumResolved 0, Tick, Tick, ClickPause])) = [2] \<and>
   recognitionRef (run (mount example_question False True)
      (narrated @ [ClickMic, GumResolved 0, Tick, Tick, ClickPause])) = Some 4 \<and>
   isPaused (run (mount example_question False True)
      (narrated @ [ClickMic, GumResolved 0, Tick, Tick, ClickPause, Tick,
                   RecognitionResult 2 [(True, ''spoken while paused'')]])) \<and>
   recordingDuration (run (mount example_question False True)
      (narrated @ [ClickMic, GumResolved 0, Tick, Tick, ClickPause, Tick,
                   RecognitionResult 2 [(True, ''spoken while paused'')]])) = 2 \<and>
   transcript (run (mount example_question False True)
      (narrated @ [ClickMic, GumResolved 0, Tick, Tick, ClickPause, Tick,
                   RecognitionResult 2 [(True, ''spoken while paused'')]])) = ''spoken while paused ''"
  by code_simp

subsection \<open>The Add button of the custom-question input\<close>

lemma trim_empty_iff: "trim str = [] \<longleftrightarrow> (\<forall>c\<in>set str. is_whitespace c)"
proof -
  have "trim str = [] \<longleftrightarrow> (\<forall>c\<in>set (dropWhile is_whitespace str). is_whitespace c)"
    by (simp add: trim_def)
  also have "\<dots> \<longleftrightarrow> (\<forall>c\<in>set str. is_whitespace c)"
  proof
    assume h: "\<forall>c\<in>set (dropWhile is_whitespace str). is_whitespace c"
    then have "dropWhile is_whitespace str = []"
      by (metis dropWhile_eq_Nil_conv dropWhile_idem)
    then show "\<forall>c\<in>set str. is_whitespace c" by simp
  next
    assume "\<forall>c\<in>set str. is_whitespace c"
    then show "\<forall>c\<in>set (dropWhile is_whitespace str). is_whitespace c"
      by (meson set_dropWhileD)
  qed
  finally show ?thesis .
qed

lemma input_step_calls:
  "\<forall>x\<in>set (onAdd_calls c). trim x \<noteq> [] \<Longrightarrow> \<forall>x\<in>set (onAdd_calls (input_step c e)). trim x \<noteq> []"
  by (cases e) (auto simp: add_disabled_def)

lemma input_run_calls:
  "\<forall>x\<in>set (onAdd_calls c). trim x \<noteq> [] \<Longrightarrow> \<forall>x\<in>set (onAdd_calls (foldl input_step c es)). trim x \<noteq> []"
proof (induction es arbitrary: c)
  case Nil then show ?case by simp
next
  case (Cons e es)
  show ?case using Cons.IH[OF input_step_calls[OF Cons.prems]] by simp
qed

lemma input_step2_calls:
  "\<forall>x\<in>set (onAdd_calls2 c). trim (fst x) \<noteq> [] \<Longrightarrow> \<forall>x\<in>set (onAdd_calls2 (input_step2 c e)). trim (fst x) \<noteq> []"
  by (cases e) (auto simp: add_disabled_def)

lemma input_run2_calls:
  "\<forall>x\<in>set (onAdd_calls2 c). trim (fst x) \<noteq> [] \<Longrightarrow> \<forall>x\<in>set (onAdd_calls2 (foldl input_step2 c es)). trim (fst x) \<noteq> []"
proof (induction es arbitrary: c)
  case Nil then show ?case by simp
next
  case (Cons e es)
  show ?case using Cons.IH[OF input_step2_calls[OF Cons.prems]] by simp
qed

text \<open>
  Claim C10. The Add button is enabled exactly when the question text holds a code unit
  that is not whitespace, and in either variant every call of \<^verbatim>\<open>onAdd\<close>, after any
  sequence of edits and clicks, carries a question text that is not empty once trimmed.
\<close>

theorem add_guard:
  "(\<not> add_disabled qt \<longleftrightarrow> (\<exists>c\<in>set qt. \<not> is_whitespace c)) \<and>
   (\<forall>x\<in>set (onAdd_calls (foldl input_step input_init es)). trim x \<noteq> []) \<and>
   (\<forall>x\<in>set (onAdd_calls2 (foldl input_step2 input_init2 es)). trim (fst x) \<noteq> [])"
proof -
  have a: "\<not> add_disabled qt \<longleftrightarrow> (\<exists>c\<in>set qt. \<not> is_whitespace c)"
    by (simp add: add_disabled_def trim_empty_iff)
  have b: "\<forall>x\<in>set (onAdd_calls (foldl input_step input_init es)). trim x \<noteq> []"
    by (rule input_run_calls) (simp add: input_init_def)
  have c: "\<forall>x\<in>set (onAdd_calls2 (foldl input_step2 input_init2 es)). trim (fst x) \<noteq> []"
    by (rule input_run2_calls) (simp add: input_init2_def)
  from a b c show ?thesis by blast
qed

theorem add_guard_witness:
  "\<not> add_disabled [0x20, 0x57, 0x68, 0x79, 0x3F, 0x20] \<and> add_disabled [0x20, 0x09, 0xA0] \<and>
   onAdd_calls (foldl input_step input_init
      [ClickAdd, ChangeQuestion [0x20, 0x0A], ClickAdd, ChangeQuestion [0x20, 0x57, 0x68, 0x79, 0x3F, 0x20], ClickAdd])
     = [[0x20, 0x57, 0x68, 0x79, 0x3F, 0x20]] \<and>
   trim [0x20, 0x57, 0x68, 0x79, 0x3F, 0x20] = [0x57, 0x68, 0x79, 0x3F] \<and>
   onAdd_calls2 (foldl input_step2 input_init2
      [ClickAdd, ChangeQuestion [0x20, 0x0A], ChangeAnswer [0x41], ClickAdd, ChangeQuestion [0x57, 0x3F], ClickAdd])
     = [([0x57, 0x3F], [0x41])]"
  using add_guard [of "[0x20, 0x57, 0x68, 0x79, 0x3F, 0x20]"
      "[ClickAdd, ChangeQuestion [0x20, 0x0A], ClickAdd, ChangeQuestion [0x20, 0x57, 0x68, 0x79, 0x3F, 0x20], ClickAdd]"]
  by (simp add: add_disabled_def trim_def is_whitespace_def input_init_def input_init2_def)

end
